theory Spec2Isabelle
  imports Main
begin

section \<open>The scalar field of BLS12-381\<close>

text \<open>
  The package \<^verbatim>\<open>fr\<close> of gnark-crypto implements the field of integers modulo the
  order of the BLS12-381 subgroups.  The repository computes with \<^verbatim>\<open>fr.Element\<close>
  everywhere, so the embedding starts with this field: the integers modulo \<open>fr_order\<close>,
  with the operations of the package (\<^verbatim>\<open>Add\<close>, \<^verbatim>\<open>Sub\<close>, \<^verbatim>\<open>Mul\<close>, \<^verbatim>\<open>Neg\<close>,
  \<^verbatim>\<open>Inverse\<close>, \<^verbatim>\<open>Exp\<close>, \<^verbatim>\<open>Equal\<close>).  That the modulus is prime is what makes
  \<^verbatim>\<open>Inverse\<close> an inverse; it is proved below from a Pocklington certificate.
\<close>

subsection \<open>Elementary number theory\<close>

definition is_prime :: "nat \<Rightarrow> bool" where
  "is_prime p \<longleftrightarrow> 1 < p \<and> (\<forall>m. m dvd p \<longrightarrow> m = 1 \<or> m = p)"

lemma prime_divisor_exists: "1 < n \<Longrightarrow> \<exists>p. is_prime p \<and> p dvd n"
proof (induction n rule: less_induct)
  case (less n)
  show ?case
  proof (cases "is_prime n")
    case True
    then show ?thesis by (intro exI [of _ n]) simp
  next
    case False
    with less.prems obtain m where m: "m dvd n" "m \<noteq> 1" "m \<noteq> n"
      by (auto simp: is_prime_def)
    from m(1) less.prems have "0 < m" "m \<le> n"
      by (auto intro: dvd_imp_le dvd_pos_nat [of n m])
    with m have "1 < m" "m < n" by simp_all
    with less.IH obtain p where "is_prime p" "p dvd m" by blast
    with m(1) show ?thesis by (blast intro: dvd_trans)
  qed
qed

lemma prime_dvd_mult:
  assumes "is_prime p" "p dvd a * b"
  shows "p dvd a \<or> p dvd b"
proof (cases "p dvd a")
  case True
  then show ?thesis ..
next
  case False
  have "coprime p a"
  proof (rule coprimeI)
    fix c assume "c dvd p" "c dvd a"
    with assms(1) False show "is_unit c"
      by (auto simp: is_prime_def)
  qed
  with assms(2) show ?thesis
    by (simp add: coprime_dvd_mult_right_iff)
qed

lemma prime_dvd_power: "is_prime p \<Longrightarrow> p dvd a ^ n \<Longrightarrow> p dvd a"
proof (induction n)
  case 0
  then show ?case by (simp add: is_prime_def)
next
  case (Suc n)
  from Suc.prems have "p dvd a \<or> p dvd a ^ n"
    by (simp add: prime_dvd_mult)
  with Suc show ?case by blast
qed

lemma prime_dvd_prime: "is_prime p \<Longrightarrow> is_prime q \<Longrightarrow> p dvd q \<Longrightarrow> p = q"
  by (auto simp: is_prime_def)

text \<open>An element of multiplicative order \<open>F\<close> modulo \<open>p\<close> forces \<open>F < p\<close>.\<close>

lemma order_bound:
  fixes b p F :: nat
  assumes p: "1 < p" and F: "0 < F"
    and one: "b ^ F mod p = 1"
    and notone: "\<And>q. is_prime q \<Longrightarrow> q dvd F \<Longrightarrow> b ^ (F div q) mod p \<noteq> 1"
  shows "F < p"
proof -
  define d where "d = (LEAST k. 0 < k \<and> b ^ k mod p = 1)"
  have dprop: "0 < d \<and> b ^ d mod p = 1"
    unfolding d_def by (rule LeastI [of _ F]) (use F one in simp)
  have dmin: "d \<le> k" if "0 < k" "b ^ k mod p = 1" for k
    unfolding d_def by (rule Least_le) (use that in simp)
  have pw: "b ^ (d * k) mod p = 1" for k
  proof -
    have "b ^ (d * k) mod p = (b ^ d mod p) ^ k mod p"
      by (simp add: power_mult power_mod)
    with dprop p show ?thesis by simp
  qed
  have ddvd: "d dvd k" if k: "b ^ k mod p = 1" for k
  proof -
    have "b ^ k = b ^ (d * (k div d)) * b ^ (k mod d)"
      by (simp add: power_add [symmetric])
    then have "b ^ k mod p = (b ^ (d * (k div d)) mod p) * b ^ (k mod d) mod p"
      by (simp add: mod_mult_left_eq)
    with pw k have "b ^ (k mod d) mod p = 1" by simp
    have "k mod d = 0"
    proof (rule ccontr)
      assume "k mod d \<noteq> 0"
      with \<open>b ^ (k mod d) mod p = 1\<close> have "d \<le> k mod d"
        by (intro dmin) simp_all
      moreover from dprop have "k mod d < d" by simp
      ultimately show False by simp
    qed
    then show ?thesis by (simp add: dvd_eq_mod_eq_0)
  qed
  have dF: "d = F"
  proof (rule ccontr)
    assume neq: "d \<noteq> F"
    from ddvd [OF one] obtain m where m: "F = d * m" ..
    with F neq have "1 < m" by (cases m; cases "m - 1") auto
    then obtain q where q: "is_prime q" "q dvd m"
      using prime_divisor_exists by blast
    from q(2) obtain l where l: "m = q * l" ..
    from q(1) have "0 < q" by (simp add: is_prime_def)
    with m l have "F div q = d * l" by simp
    with pw have "b ^ (F div q) mod p = 1" by simp
    moreover from q(2) m have "q dvd F" by simp
    ultimately show False using notone q(1) by blast
  qed
  have inj: "inj_on (\<lambda>k. b ^ k mod p) {..<F}"
  proof (rule linorder_inj_onI)
    fix i j assume ij: "i < j" and "i \<in> {..<F}" and "j \<in> {..<F}"
    then have jF: "j < F" by simp
    show "b ^ i mod p \<noteq> b ^ j mod p"
    proof
      assume eq: "b ^ i mod p = b ^ j mod p"
      have "b ^ (F - j + i) mod p = b ^ (F - j) * (b ^ i mod p) mod p"
        by (simp add: power_add mod_mult_right_eq)
      also have "\<dots> = b ^ (F - j) * (b ^ j mod p) mod p"
        by (simp only: eq)
      also have "\<dots> = b ^ (F - j + j) mod p"
        by (simp add: power_add mod_mult_right_eq)
      also from jF one have "\<dots> = 1" by simp
      finally have "d \<le> F - j + i"
        using ij jF by (intro dmin) simp_all
      with dF ij jF show False by simp
    qed
  qed (rule linear)
  have rng: "(\<lambda>k. b ^ k mod p) ` {..<F} \<subseteq> {1..<p}"
  proof
    fix y assume "y \<in> (\<lambda>k. b ^ k mod p) ` {..<F}"
    then obtain k where k: "k < F" "y = b ^ k mod p" by auto
    have "y \<noteq> 0"
    proof
      assume "y = 0"
      with k have "b ^ k mod p = 0" by simp
      then have "b ^ k * b ^ (F - k) mod p = 0"
        by (simp add: mod_mult_left_eq [symmetric, of "b ^ k"] del: mod_mult_left_eq)
      with k(1) have "b ^ F mod p = 0"
        by (simp add: power_add [symmetric])
      with one show False by simp
    qed
    moreover from p k have "y < p" by simp
    ultimately show "y \<in> {1..<p}" by simp
  qed
  have "F = card ((\<lambda>k. b ^ k mod p) ` {..<F})"
    by (simp add: card_image [OF inj])
  also have "\<dots> \<le> card {1..<p}"
    by (rule card_mono [OF _ rng]) simp
  finally show ?thesis using p by simp
qed


text \<open>
  Pocklington's criterion for a single base \<open>a\<close>: \<open>F\<close> divides \<open>N - 1\<close>, exceeds the square
  root of \<open>N\<close>, and all its prime divisors are among \<open>qs\<close>.
\<close>

lemma pocklington:
  fixes N e F m a :: nat and qs :: "nat list"
  assumes N: "N = Suc e" and e: "0 < e"
    and F: "F * m = e"
    and big: "N \<le> F * F"
    and fac: "\<And>p. is_prime p \<Longrightarrow> p dvd F \<Longrightarrow> p \<in> set qs"
    and fermat: "a ^ e mod N = 1"
    and cert: "\<And>q. q \<in> set qs \<Longrightarrow> \<exists>k u. q * k = e \<and> ((a ^ k mod N + e) * u) mod N = 1"
  shows "is_prime N"
proof -
  from F e have Fpos: "0 < F" by (cases F) auto
  have bound: "F < p" if p: "is_prime p" "p dvd N" for p
  proof (rule order_bound [where b = "a ^ m"])
    from p(1) show p1: "1 < p" by (simp add: is_prime_def)
    show "0 < F" by (rule Fpos)
    have "(a ^ m) ^ F mod p = a ^ e mod N mod p"
      using F p(2) by (simp add: power_mult [symmetric] mult.commute mod_mod_cancel)
    with fermat p1 show "(a ^ m) ^ F mod p = 1" by simp
    fix q assume q: "is_prime q" "q dvd F"
    from q(1) have qpos: "0 < q" by (simp add: is_prime_def)
    from fac [OF q] cert obtain k u
      where k: "q * k = e" and u: "((a ^ k mod N + e) * u) mod N = 1" by blast
    from q(2) obtain l where l: "F = q * l" ..
    from l F k have "q * k = q * (l * m)" by (simp add: mult.assoc)
    with qpos have "k = l * m" by simp
    with l qpos have pw: "(a ^ m) ^ (F div q) = a ^ k"
      by (simp add: power_mult [symmetric] mult.commute)
    show "(a ^ m) ^ (F div q) mod p \<noteq> 1"
    proof
      assume "(a ^ m) ^ (F div q) mod p = 1"
      with pw have "a ^ k mod N mod p = 1"
        using p(2) by (simp add: mod_mod_cancel)
      then have "(a ^ k mod N + e) mod p = (1 + e) mod p"
        by (metis mod_add_left_eq)
      also from N p(2) have "\<dots> = 0" by simp
      finally have "((a ^ k mod N + e) * u) mod p = 0"
        by (metis mod_mult_left_eq mult_zero_left mod_0)
      moreover from u p(2) have "((a ^ k mod N + e) * u) mod p = 1 mod p"
        by (metis mod_mod_cancel)
      ultimately show False using p1 by simp
    qed
  qed
  show ?thesis
    unfolding is_prime_def
  proof (intro conjI allI impI)
    from N e show "1 < N" by simp
    fix d assume d: "d dvd N"
    show "d = 1 \<or> d = N"
    proof (rule ccontr)
      assume neq: "\<not> (d = 1 \<or> d = N)"
      from d obtain c where c: "N = d * c" ..
      from c N neq have "1 < d" "1 < c"
        by (cases d; cases "d - 1"; cases c; cases "c - 1"; auto)+
      then obtain p p' where "is_prime p" "p dvd d" "is_prime p'" "p' dvd c"
        using prime_divisor_exists by blast
      with c have "F < p" "F < p'" "p \<le> d" "p' \<le> c"
        using \<open>1 < d\<close> \<open>1 < c\<close> by (auto intro!: bound dvd_imp_le)
      then have "F * F < d * c"
        by (intro mult_strict_mono') simp_all
      with c big show False by simp
    qed
  qed
qed

lemma is_prime_trial:
  fixes n k :: nat
  assumes "1 < n" and "n < k * k" and "\<forall>d\<in>set [2..<k]. n mod d \<noteq> 0"
  shows "is_prime n"
  unfolding is_prime_def
proof (intro conjI allI impI)
  show "1 < n" by fact
  fix m assume m: "m dvd n"
  show "m = 1 \<or> m = n"
  proof (rule ccontr)
    assume neq: "\<not> (m = 1 \<or> m = n)"
    from m obtain l where l: "n = m * l" ..
    from l assms(1) neq have ml: "1 < m" "1 < l"
      by (cases m; cases "m - 1"; cases l; cases "l - 1"; auto)+
    define d where "d = min m l"
    have "d * d \<le> m * l"
      unfolding d_def by (intro mult_mono) simp_all
    with l assms(2) have "d * d < k * k" by simp
    have "d < k"
    proof (rule ccontr)
      assume "\<not> d < k"
      then have "k * k \<le> d * d" by (intro mult_le_mono) simp_all
      with \<open>d * d < k * k\<close> show False by simp
    qed
    moreover from ml have "2 \<le> d" by (simp add: d_def)
    moreover note \<open>d < k\<close>
    moreover from l have "d dvd n" by (auto simp: d_def min_def)
    ultimately show False using assms(3) by (auto simp: dvd_eq_mod_eq_0)
  qed
qed

text \<open>Square-and-multiply along the binary digits of the exponent.\<close>

primrec mpow :: "nat \<Rightarrow> nat \<Rightarrow> num \<Rightarrow> nat" where
  "mpow n a Num.One = a mod n"
| "mpow n a (Num.Bit0 k) = (let x = mpow n a k in x * x mod n)"
| "mpow n a (Num.Bit1 k) = (let x = mpow n a k in x * x * a mod n)"

lemma mpow_eq: "mpow n a k = a ^ numeral k mod n"
proof (induction k)
  case One
  show ?case by simp
next
  case (Bit0 k)
  have "a ^ numeral (Num.Bit0 k) mod n = (a ^ numeral k mod n) * (a ^ numeral k mod n) mod n"
    by (simp add: numeral_Bit0 power_add mod_mult_eq)
  with Bit0 show ?case by (simp add: Let_def)
next
  case (Bit1 k)
  have "a ^ numeral (Num.Bit1 k) = a ^ numeral k * a ^ numeral k * a"
    by (simp only: numeral_Bit1 power_add power_one_right)
  then have "a ^ numeral (Num.Bit1 k) mod n
      = (a ^ numeral k mod n) * (a ^ numeral k mod n) * a mod n"
    by (metis mod_mult_eq mod_mult_left_eq)
  with Bit1 show ?case by (simp add: Let_def)
qed



subsection \<open>The modulus and its primality certificate\<close>

definition fr_order :: nat where
  "fr_order = 52435875175126190479447740508185965837690552500527637822603658699938581184513"

lemmas cert_arith = fr_order_def arith_simps rel_simps numeral_times_numeral

text \<open>
  Steps of a modular exponentiation whose quotients are given: each step is checked by
  multiplications and additions of numerals only.
\<close>

lemma pw_init0:
  fixes x n c y :: nat
  assumes "x * x = c * n + y" "y < n"
  shows "x ^ numeral (Num.Bit0 Num.One) mod n = y"
  using assms by (simp add: power2_eq_square)

lemma pw_init1:
  fixes x n c s d y :: nat
  assumes "x * x = c * n + s" "s * x = d * n + y" "y < n"
  shows "x ^ numeral (Num.Bit1 Num.One) mod n = y"
proof -
  have "x ^ numeral (Num.Bit1 Num.One) = x * x * x"
    by (simp add: power3_eq_cube)
  also have "\<dots> mod n = (x * x mod n) * x mod n"
    by (simp add: mod_mult_left_eq)
  also from assms(1) have "x * x mod n = s mod n"
    by simp
  also have "s mod n * x mod n = s * x mod n"
    by (simp add: mod_mult_left_eq)
  also from assms(2,3) have "\<dots> = y"
    by simp
  finally show ?thesis .
qed

lemma pw_step0:
  fixes a n x c y :: nat
  assumes "a ^ numeral k mod n = x" "x * x = c * n + y" "y < n"
  shows "a ^ numeral (Num.Bit0 k) mod n = y"
proof -
  have "a ^ numeral (Num.Bit0 k) mod n = (a ^ numeral k mod n) * (a ^ numeral k mod n) mod n"
    by (simp add: numeral_Bit0 power_add mod_mult_eq)
  with assms show ?thesis by simp
qed

lemma pw_step1:
  fixes a n x c y :: nat
  assumes "a ^ numeral k mod n = x" "x * x * a = c * n + y" "y < n"
  shows "a ^ numeral (Num.Bit1 k) mod n = y"
proof -
  have "a ^ numeral (Num.Bit1 k) = a ^ numeral k * a ^ numeral k * a"
    by (simp only: numeral_Bit1 power_add power_one_right)
  then have "a ^ numeral (Num.Bit1 k) mod n
      = (a ^ numeral k mod n) * (a ^ numeral k mod n) * a mod n"
    by (metis mod_mult_eq mod_mult_left_eq)
  with assms show ?thesis by simp
qed

lemma pw_step2:
  fixes a n x c s d y :: nat
  assumes "a ^ numeral k mod n = x" "x * x = c * n + s" "s * a = d * n + y" "y < n"
  shows "a ^ numeral (Num.Bit1 k) mod n = y"
proof -
  have "a ^ numeral (Num.Bit1 k) = a ^ numeral k * a ^ numeral k * a"
    by (simp only: numeral_Bit1 power_add power_one_right)
  then have "a ^ numeral (Num.Bit1 k) mod n
      = ((a ^ numeral k mod n) * (a ^ numeral k mod n) mod n) * a mod n"
    by (metis mod_mult_eq mod_mult_left_eq)
  also from assms(1,2) have "(a ^ numeral k mod n) * (a ^ numeral k mod n) mod n = s mod n"
    by simp
  also have "s mod n * a mod n = s * a mod n"
    by (simp add: mod_mult_left_eq)
  also from assms(3,4) have "\<dots> = y"
    by simp
  finally show ?thesis .
qed

lemma pw_comp:
  fixes a n c d e1 e2 e3 :: nat
  assumes "a ^ e1 mod n = c" "c ^ e2 mod n = d" "e1 * e2 = e3"
  shows "a ^ e3 mod n = d"
proof -
  have "a ^ e3 mod n = (a ^ e1 mod n) ^ e2 mod n"
    unfolding assms(3) [symmetric] by (simp add: power_mult power_mod)
  with assms(1,2) show ?thesis by simp
qed

lemma mod_eq_oneI:
  fixes x c n :: nat
  assumes "x = c * n + 1" "1 < n"
  shows "x mod n = 1"
  using assms by (simp only: mod_mult_self3 mod_less)


text \<open>
  The primes below are the prime divisors of the part of \<open>fr_order - 1\<close> that the
  certificate uses, and the primes that their own certificates need.
\<close>

lemma prime_2: "is_prime 2"
  by (rule is_prime_trial [where k = 2]) simp_all

lemma prime_359: "is_prime 359"
  by (rule is_prime_trial [where k = 19]) (simp_all add: upt_rec_numeral)

lemma prime_1607: "is_prime 1607"
  by (rule is_prime_trial [where k = 41]) (simp_all add: upt_rec_numeral)

lemma prime_110573: "is_prime 110573"
proof (rule pocklington [where e = 110572 and F = 359 and m = 308 and a = 2 and qs = "[359]"])
  show "(2::nat) ^ 110572 mod 110573 = 1"
    unfolding mpow_eq [symmetric] by (simp add: Let_def)
  show "\<exists>k u. q * k = 110572 \<and> (((2::nat) ^ k mod 110573 + 110572) * u) mod 110573 = 1"
    if "q \<in> set [359]" for q :: nat
  proof -
    from that have "q * 308 = 110572" by simp
    moreover have "(((2::nat) ^ 308 mod 110573 + 110572) * 49392) mod 110573 = 1"
      unfolding mpow_eq [symmetric] by (simp add: Let_def)
    ultimately show ?thesis by blast
  qed
  show "p \<in> set [359]" if "is_prime p" "p dvd 359" for p
    using that prime_359 by (simp add: prime_dvd_prime)
qed simp_all

lemma prime_2653753: "is_prime 2653753"
proof (rule pocklington [where e = 2653752 and F = 110573 and m = 24 and a = 2 and qs = "[110573]"])
  show "(2::nat) ^ 2653752 mod 2653753 = 1"
    unfolding mpow_eq [symmetric] by (simp add: Let_def)
  show "\<exists>k u. q * k = 2653752 \<and> (((2::nat) ^ k mod 2653753 + 2653752) * u) mod 2653753 = 1"
    if "q \<in> set [110573]" for q :: nat
  proof -
    from that have "q * 24 = 2653752" by simp
    moreover have "(((2::nat) ^ 24 mod 2653753 + 2653752) * 166544) mod 2653753 = 1"
      unfolding mpow_eq [symmetric] by (simp add: Let_def)
    ultimately show ?thesis by blast
  qed
  show "p \<in> set [110573]" if "is_prime p" "p dvd 110573" for p
    using that prime_110573 by (simp add: prime_dvd_prime)
qed simp_all

lemma prime_63690073: "is_prime 63690073"
proof (rule pocklington [where e = 63690072 and F = 2653753 and m = 24 and a = 2 and qs = "[2653753]"])
  show "(2::nat) ^ 63690072 mod 63690073 = 1"
    unfolding mpow_eq [symmetric] by (simp add: Let_def)
  show "\<exists>k u. q * k = 63690072 \<and> (((2::nat) ^ k mod 63690073 + 63690072) * u) mod 63690073 = 1"
    if "q \<in> set [2653753]" for q :: nat
  proof -
    from that have "q * 24 = 63690072" by simp
    moreover have "(((2::nat) ^ 24 mod 63690073 + 63690072) * 34981479) mod 63690073 = 1"
      unfolding mpow_eq [symmetric] by (simp add: Let_def)
    ultimately show ?thesis by blast
  qed
  show "p \<in> set [2653753]" if "is_prime p" "p dvd 2653753" for p
    using that prime_2653753 by (simp add: prime_dvd_prime)
qed simp_all

lemma prime_254760293: "is_prime 254760293"
proof (rule pocklington [where e = 254760292 and F = 63690073 and m = 4 and a = 2 and qs = "[63690073]"])
  show "(2::nat) ^ 254760292 mod 254760293 = 1"
    unfolding mpow_eq [symmetric] by (simp add: Let_def)
  show "\<exists>k u. q * k = 254760292 \<and> (((2::nat) ^ k mod 254760293 + 254760292) * u) mod 254760293 = 1"
    if "q \<in> set [63690073]" for q :: nat
  proof -
    from that have "q * 4 = 254760292" by simp
    moreover have "(((2::nat) ^ 4 mod 254760293 + 254760292) * 220792254) mod 254760293 = 1"
      unfolding mpow_eq [symmetric] by (simp add: Let_def)
    ultimately show ?thesis by blast
  qed
  show "p \<in> set [63690073]" if "is_prime p" "p dvd 63690073" for p
    using that prime_63690073 by (simp add: prime_dvd_prime)
qed simp_all

lemma prime_906349: "is_prime 906349"
proof (rule pocklington [where e = 906348 and F = 1607 and m = 564 and a = 2 and qs = "[1607]"])
  show "(2::nat) ^ 906348 mod 906349 = 1"
    unfolding mpow_eq [symmetric] by (simp add: Let_def)
  show "\<exists>k u. q * k = 906348 \<and> (((2::nat) ^ k mod 906349 + 906348) * u) mod 906349 = 1"
    if "q \<in> set [1607]" for q :: nat
  proof -
    from that have "q * 564 = 906348" by simp
    moreover have "(((2::nat) ^ 564 mod 906349 + 906348) * 298534) mod 906349 = 1"
      unfolding mpow_eq [symmetric] by (simp add: Let_def)
    ultimately show ?thesis by blast
  qed
  show "p \<in> set [1607]" if "is_prime p" "p dvd 1607" for p
    using that prime_1607 by (simp add: prime_dvd_prime)
qed simp_all

text \<open>
  Powers of 7 modulo \<open>fr_order\<close>.  With \<open>e = fr_order - 1\<close>, the chains below reach
  \<open>7 ^ (e / (2 * 906349 * 254760293))\<close>, raise it to the two odd primes, and end in
  \<open>7 ^ (e / 2)\<close>, \<open>7 ^ (e / 906349)\<close>, \<open>7 ^ (e / 254760293)\<close> and \<open>7 ^ e = 1\<close>.
\<close>

lemma pw_a_0: "(7::nat) ^ 2 mod fr_order = 49"
  by (simp add: fr_order_def)
lemma pw_a_1: "(7::nat) ^ 4 mod fr_order = 2401"
  by (rule pw_step0 [OF pw_a_0, where c = 0]; (simp only: cert_arith))
lemma pw_a_2: "(7::nat) ^ 8 mod fr_order = 5764801"
  by (rule pw_step0 [OF pw_a_1, where c = 0]; (simp only: cert_arith))
lemma pw_a_3: "(7::nat) ^ 17 mod fr_order = 232630513987207"
  by (rule pw_step1 [OF pw_a_2, where c = 0]; (simp only: cert_arith))
lemma pw_a_4: "(7::nat) ^ 35 mod fr_order = 378818692265664781682717625943"
  by (rule pw_step1 [OF pw_a_3, where c = 0]; (simp only: cert_arith))
lemma pw_a_5:
  "(7::nat) ^ 70
     mod fr_order = 143503601609868434285603076356671071740077383739246066639249"
  by (rule pw_step0 [OF pw_a_4, where c = 0]; (simp only: cert_arith))
lemma pw_a_6:
  "(7::nat) ^ 141
     mod fr_order = 23090650641062174921068565345750571262647869822733968056537727939560682009147"
  by (rule pw_step1 [OF pw_a_5, where c = 2749129012218873985495248516709521830722220];
      (simp only: cert_arith))
lemma pw_a_7:
  "(7::nat) ^ 282
     mod fr_order = 25228101048912081718537208257665570521420132798324892982751777046438845222987"
  by (rule pw_step0 [OF pw_a_6, where c = 10168193917749402766165568348089054082633254488113210690376552882145921730894];
      (simp only: cert_arith))
lemma pw_a_8:
  "(7::nat) ^ 565
     mod fr_order = 37150822988412115556937594197650284027015680908304042161007492385691596926506"
  by (rule pw_step1 [OF pw_a_7, where c = 84964722393958029436262729420858161701644595687445919357772178515383678110629];
      (simp only: cert_arith))
lemma pw_a_9:
  "(7::nat) ^ 1130
     mod fr_order = 23583036188444270645483365835158561733603396614629889841583531957991791290003"
  by (rule pw_step0 [OF pw_a_8, where c = 26321361932203291523969625346884950773497092774177971419274276169161097001041];
      (simp only: cert_arith))
lemma pw_a_10:
  "(7::nat) ^ 2261
     mod fr_order = 35267659074910334014920222549221369912236968405534937117931229361466709401482"
  by (rule pw_step1 [OF pw_a_9, where c = 74245297862503645331999108560739711845131903599723256257830952636538624273237];
      (simp only: cert_arith))
lemma pw_a_11:
  "(7::nat) ^ 4522
     mod fr_order = 46930768984858259169588805869533183406320293543688198713052704084598406735687"
  by (rule pw_step0 [OF pw_a_10, where c = 23720549575457942746475421042805460221395985927193135515733306724265298251549];
      (simp only: cert_arith))
lemma pw_a_12:
  "(7::nat) ^ 9044
     mod fr_order = 52172199751626045837817515737050917122452844008466220106147938881534176092615"
  by (rule pw_step0 [OF pw_a_11, where c = 42003629579065826276339114243255793942915678640447030170133210877596452705258];
      (simp only: cert_arith))
lemma pw_a_13:
  "(7::nat) ^ 18088
     mod fr_order = 37811020636255959821235265229423380923766928966349332349054990512821447615730"
  by (rule pw_step0 [OF pw_a_12, where c = 51909850228165249844537080720919017660951232702573179942300231957729278919615];
      (simp only: cert_arith))
lemma pw_a_14:
  "(7::nat) ^ 36177
     mod fr_order = 32047458415412699456890534862744551489189037760916280684251943169318226708328"
  by (rule pw_step1 [OF pw_a_13, where c = 190856220811871556649776342566842388118593401488701672645039964363125327161844];
      (simp only: cert_arith))
lemma pw_a_15:
  "(7::nat) ^ 72355
     mod fr_order = 45805934251609862031190708166707350618916237043478608656582702491291198441239"
  by (rule pw_step1 [OF pw_a_14, where c = 137106076940689533662353769450113295247282006370465176919869886892001371336873];
      (simp only: cert_arith))
lemma pw_a_16:
  "(7::nat) ^ 144711
     mod fr_order = 2214524118585629922087398029126833991936781323836765762218092307994721169738"
  by (rule pw_step1 [OF pw_a_15, where c = 280099936152239358007700333686341892224789029323756989015491439766134202542893];
      (simp only: cert_arith))
lemma pw_a_17:
  "(7::nat) ^ 289422
     mod fr_order = 24635478796899155496574762241328271170435530691097346307417411048706716182339"
  by (rule pw_step0 [OF pw_a_16, where c = 93525988751377010050097058074671995201285562292799033546917178338075197985];
      (simp only: cert_arith))
lemma pw_a_18:
  "(7::nat) ^ 578844
     mod fr_order = 21263322995010867418339877495246618637169840032055405867818328279860633891592"
  by (rule pw_step0 [OF pw_a_17, where c = 11574266921749862824999479059338375014557989566002743527418762931844688840833];
      (simp only: cert_arith))
lemma pw_a_19:
  "(7::nat) ^ 1157689
     mod fr_order = 12885113123192071494388521758511255654601401520802481214332857976334239834845"
  by (rule pw_step1 [OF pw_a_18, where c = 60357576238804312522072422651144473636943876511869046174365097790295337250531];
      (simp only: cert_arith))
lemma pw_a_20:
  "(7::nat) ^ 2315379
     mod fr_order = 13085983140257684419737612201066321626540888373211614384732367133076232647464"
  by (rule pw_step1 [OF pw_a_19, where c = 22163890227839587136815186151778585515696741408073616584046738635371705692247];
      (simp only: cert_arith))
lemma pw_a_21:
  "(7::nat) ^ 4630758
     mod fr_order = 51302488112949533072739309113319005771888408666919086203631968296465524502173"
  by (rule pw_step0 [OF pw_a_20, where c = 3265759447614602721158168965656710343625249628375464713011498708943631959971];
      (simp only: cert_arith))
lemma pw_a_22:
  "(7::nat) ^ 9261516
     mod fr_order = 8937498332584455869569127014515299200661013312972065438380258891924114109879"
  by (rule pw_step0 [OF pw_a_21, where c = 50193598901307823715305357668184906361812528867991990660268388653504239752850];
      (simp only: cert_arith))
lemma pw_a_23:
  "(7::nat) ^ 18523033
     mod fr_order = 20784648418073380058539815437422162247665238977810647693974809942188901671104"
  by (rule pw_step1 [OF pw_a_22, where c = 10663541578112009936099284380496739269784193587682028477218389639452879903991];
      (simp only: cert_arith))
lemma pw_a_24:
  "(7::nat) ^ 37046067
     mod fr_order = 1202862099782827762672024602373529645176876937434690527285766985968520640603"
  by (rule pw_step1 [OF pw_a_23, where c = 57670655041816308036957221465769173458887479836150930362722222507885298857893];
      (simp only: cert_arith))
lemma pw_a_25:
  "(7::nat) ^ 74092134
     mod fr_order = 29712177016822873510790775045825398437745862816051046150597168863627436961450"
  by (rule pw_step0 [OF pw_a_24, where c = 27593269422158957705261512554336016434421812385442948369522116437208973743];
      (simp only: cert_arith))
lemma pw_a_26:
  "(7::nat) ^ 148184268
     mod fr_order = 45704109669952561925885972661708548842140917341159067518031338209811163128975"
  by (rule pw_step0 [OF pw_a_25, where c = 16836058521586272747637299646184611255227447418422197849050527043698079523925];
      (simp only: cert_arith))
lemma pw_a_27:
  "(7::nat) ^ 296368537
     mod fr_order = 16266722045510520452769271132368141985406954900968070350480515261807137491278"
  by (rule pw_step1 [OF pw_a_26, where c = 278856020543690104971818909127382902516205382977263120395173475040221990890969];
      (simp only: cert_arith))
lemma pw_a_28:
  "(7::nat) ^ 592737075
     mod fr_order = 25207192346415710595442720908816554389910714942806391829156970222442273405306"
  by (rule pw_step1 [OF pw_a_27, where c = 35323978412778122276352533240560314292438783227387848031337566620896410636514];
      (simp only: cert_arith))
lemma pw_a_29:
  "(7::nat) ^ 1185474151
     mod fr_order = 29097669997137142691675987952888988052300266117611560044113583300593217983564"
  by (rule pw_step1 [OF pw_a_28, where c = 84823945572940224484525147088265301631421800426355295810669319162001184755376];
      (simp only: cert_arith))
lemma pw_a_30:
  "(7::nat) ^ 2370948302
     mod fr_order = 51195689559115737559316487983261861061717232069264224876535781670160993695774"
  by (rule pw_step0 [OF pw_a_29, where c = 16146853588970491830507157827934842510529031722054492841614714919209903111794];
      (simp only: cert_arith))
lemma pw_a_31:
  "(7::nat) ^ 4741896604
     mod fr_order = 10660880255648269543726182118909587776246629199021620969851793182513178343328"
  by (rule pw_step0 [OF pw_a_30, where c = 49984836158063505275618337952894482086826682290423754587645469926965273242596];
      (simp only: cert_arith))
lemma pw_a_32:
  "(7::nat) ^ 9483793209
     mod fr_order = 21324279481148941560232776556252988533578152916702913959182723005945803357680"
  by (rule pw_step1 [OF pw_a_31, where c = 15172447720569263339781450647927434632118276317979774844816134821582854438416];
      (simp only: cert_arith))
lemma pw_a_33:
  "(7::nat) ^ 18967586419
     mod fr_order = 10750184499653041444754016477998883537107975340489970366844242606542276220236"
  by (rule pw_step1 [OF pw_a_32, where c = 60704131610279509794587008941780322422171474386601939145522815625753452245428];
      (simp only: cert_arith))
lemma pw_a_34:
  "(7::nat) ^ 37935172839
     mod fr_order = 38747934144842919150247190105300462340956325683275566447697256796183744296769"
  by (rule pw_step1 [OF pw_a_33, where c = 15427706026346813264991537185960399277544591349035844054234309039470206496431];
      (simp only: cert_arith))
lemma pw_a_35:
  "(7::nat) ^ 75870345678
     mod fr_order = 30122845344479529879559490828728970201227632189069169377601185554753644047724"
  by (rule pw_step0 [OF pw_a_34, where c = 28633114169996697070985920928992832708178966233706467945531059230530586038549];
      (simp only: cert_arith))
lemma pw_a_36:
  "(7::nat) ^ 151740691357
     mod fr_order = 46551405288885744491355600681844595848318527264340614937115555496972998962711"
  by (rule pw_step1 [OF pw_a_35, where c = 121132729458953648764832228965501264378897276619037351906030729973800883558617];
      (simp only: cert_arith))
lemma pw_a_37:
  "(7::nat) ^ 303481382715
     mod fr_order = 212013074185644473104344693754173462540057874952331348855302168563412565644"
  by (rule pw_step1 [OF pw_a_36, where c = 289291125397034852979958396823323176438447050666825586068904773692854549834731];
      (simp only: cert_arith))
lemma pw_a_38:
  "(7::nat) ^ 606962765430
     mod fr_order = 47122265187435370764156715229933912051039362438532201554680593990777211817641"
  by (rule pw_step0 [OF pw_a_37, where c = 857228824264387091848675472247269430412104924337021818674920757736803815];
      (simp only: cert_arith))
lemma pw_a_39:
  "(7::nat) ^ 1213925530860
     mod fr_order = 11162989162645065759736827348477763346542377185437110802985974359746067142624"
  by (rule pw_step0 [OF pw_a_38, where c = 42347111953007269622922462386756781586918573220878489807819500124226324026289];
      (simp only: cert_arith))
lemma pw_a_40:
  "(7::nat) ^ 2427851061720
     mod fr_order = 20908076151263142363716575564131681179125292054503926184000435632329343682163"
  by (rule pw_step0 [OF pw_a_39, where c = 2376470815622870900661726128003813251154160539254172776297899893890916629901];
      (simp only: cert_arith))
lemma pw_a_41:
  "(7::nat) ^ 4855702123440
     mod fr_order = 28482659254397085861639505819343780980024849682256762814873735850321613946530"
  by (rule pw_step0 [OF pw_a_40, where c = 8336804656869476014855841137063595499762809339848753317656505277656569354503];
      (simp only: cert_arith))
lemma pw_a_42:
  "(7::nat) ^ 9711404246880
     mod fr_order = 2952800115067074661741016162994798558686365193392344761616764566229543966814"
  by (rule pw_step0 [OF pw_a_41, where c = 15471504489867410752720816140437036252011069602625742211627983828828347139622];
      (simp only: cert_arith))
lemma pw_a_43:
  "(7::nat) ^ 19422808493760
     mod fr_order = 26071660752173426843375594640552369346352762719956533701719771396532469393991"
  by (rule pw_step0 [OF pw_a_42, where c = 166279832088625884770038317101324193381694679009482822547715331464461441085];
      (simp only: cert_arith))
lemma pw_a_44:
  "(7::nat) ^ 38845616987520
     mod fr_order = 32792360529573898806663865539327325071688709175222352304326448956054031986547"
  by (rule pw_step0 [OF pw_a_43, where c = 12963100017044474500836014804794262804568197191568264548538735469950588973118];
      (simp only: cert_arith))
lemma pw_a_45:
  "(7::nat) ^ 77691233975041
     mod fr_order = 48381451684871266176202898280812566471535808708177854965428305410819006721398"
  by (rule pw_step1 [OF pw_a_44, where c = 143553861522685607398773889627586608241836238895791479886857038510560079614505];
      (simp only: cert_arith))
lemma pw_a_46:
  "(7::nat) ^ 155382467950083
     mod fr_order = 3308270938443788173192420249896304526551657953351475049668181600441448380590"
  by (rule pw_step1 [OF pw_a_45, where c = 312483657710005911084164522197044360588292632528218054446130460517307072653326];
      (simp only: cert_arith))
lemma pw_a_47:
  "(7::nat) ^ 310764935900166
     mod fr_order = 17429774835467939735397337090536232145521277707474081435486740747433636259140"
  by (rule pw_step0 [OF pw_a_46, where c = 208724591047610064419627676245681173559181470800613070100016579224363249920];
      (simp only: cert_arith))
lemma pw_a_48:
  "(7::nat) ^ 621529871800332
     mod fr_order = 20698403557512597493982228932231470916519237400652694677288913745133791980913"
  by (rule pw_step0 [OF pw_a_47, where c = 5793687047283660361402601648415127456162866408623628745554645544606873226399];
      (simp only: cert_arith))
lemma pw_a_49:
  "(7::nat) ^ 1243059743600664
     mod fr_order = 41344680606323724017106846534767937982856552936065051258514276005323696339911"
  by (rule pw_step0 [OF pw_a_48, where c = 8170435000823253079702495432267348472659573257017629954565216904861393776666];
      (simp only: cert_arith))
lemma pw_a_50:
  "(7::nat) ^ 2486119487201328
     mod fr_order = 38796166965792302074827860401148681468212252306147779088376609134800939064719"
  by (rule pw_step0 [OF pw_a_49, where c = 32599486682159821785895852898798110643236300094763785116423684725265005131554];
      (simp only: cert_arith))
lemma pw_a_51:
  "(7::nat) ^ 4972238974402656
     mod fr_order = 11485138877524942465406914283947807807579961401406911123216931656388516815568"
  by (rule pw_step0 [OF pw_a_50, where c = 28704442639905106742792019060105707610985518334403638286249255195174696063761];
      (simp only: cert_arith))
lemma pw_a_52:
  "(7::nat) ^ 9944477948805313
     mod fr_order = 11402584130768404014642201677106211893280304708541234174791018421980044491188"
  by (rule pw_step1 [OF pw_a_51, where c = 17609297111345908644054113550903568039380336407763925625478167867234111382860];
      (simp only: cert_arith))
lemma pw_a_53:
  "(7::nat) ^ 19888955897610626
     mod fr_order = 36881731993426062870356171227593635910814792421514357798334778948644943575924"
  by (rule pw_step0 [OF pw_a_52, where c = 2479579570761661086575010541883812064805886164966429912087152483404699757340];
      (simp only: cert_arith))
lemma pw_a_54:
  "(7::nat) ^ 39777911795221252
     mod fr_order = 41624087323863878598781999859179069995380596329415558859066525095029194176368"
  by (rule pw_step0 [OF pw_a_53, where c = 25941440860706184682893357148424922222679209501608915860459697743432885040416];
      (simp only: cert_arith))
lemma pw_a_55:
  "(7::nat) ^ 79555823590442505
     mod fr_order = 25804953939393985004879841702390819862206766604363648239259808398443492699230"
  by (rule pw_step1 [OF pw_a_54, where c = 231291124221868823260297176477139920166859981257248935969806121365965690161826];
      (simp only: cert_arith))
lemma pw_a_56:
  "(7::nat) ^ 159111647180885011
     mod fr_order = 7791255608330122125231841395967760389266596826651547938047752873565590806508"
  by (rule pw_step1 [OF pw_a_55, where c = 88894664561846866482796625141552738177505422984917265805443276222704944791984];
      (simp only: cert_arith))
lemma pw_a_57:
  "(7::nat) ^ 318223294361770022
     mod fr_order = 8906327196914073409872760189920123392115036570716368860699299480723795584686"
  by (rule pw_step0 [OF pw_a_56, where c = 1157674278375186743718756362760573748980462299749882392090430135411036347106];
      (simp only: cert_arith))
lemma pw_a_58:
  "(7::nat) ^ 636446588723540045
     mod fr_order = 31814340944215289582314803969310262977239322693882340924537035701867911052041"
  by (rule pw_step1 [OF pw_a_57, where c = 10589289243575647168628651858126786770342616138592912656592506999195863013587];
      (simp only: cert_arith))
lemma pw_a_59:
  "(7::nat) ^ 1272893177447080090
     mod fr_order = 46767527413664169151008986222139168991333272204674847504903236787677440580082"
  by (rule pw_step0 [OF pw_a_58, where c = 19302667998471860931490740208907531536288832156029634141585037736085178518623];
      (simp only: cert_arith))
lemma pw_a_60:
  "(7::nat) ^ 2545786354894160180
     mod fr_order = 22066032289679638373883928333406544085604515836980879606737950752268400345979"
  by (rule pw_step0 [OF pw_a_59, where c = 41711931250941801829467738710206803024362287146568422197456495404030056129865];
      (simp only: cert_arith))
lemma pw_a_61:
  "(7::nat) ^ 5091572709788320360
     mod fr_order = 25396444776408377182172168516044731762481924402221676843327308858313640529594"
  by (rule pw_step0 [OF pw_a_60, where c = 9285813946711010393913890925610443369497060814368387345982843882530139098719];
      (simp only: cert_arith))
lemma pw_a_62:
  "(7::nat) ^ 10183145419576640720
     mod fr_order = 50120362168979354360644387403110031995286543831116985635437949219830478312024"
  by (rule pw_step0 [OF pw_a_61, where c = 12300345996458485938241585170514543203133684653521841182114871265397532216524];
      (simp only: cert_arith))
lemma pw_a_63:
  "(7::nat) ^ 20366290839153281441
     mod fr_order = 6942894851379442143730639557194864064502281739251725984116576999376324009190"
  by (rule pw_step1 [OF pw_a_62, where c = 335349698444415827675630148709158362147267384144364840475712603112223816111834];
      (simp only: cert_arith))
lemma pw_a_64:
  "(7::nat) ^ 40732581678306562883
     mod fr_order = 42564160320306035010240100667190769644089408321322936870623427593073743675017"
  by (rule pw_step1 [OF pw_a_63, where c = 6435031765832754070127027097841110607018755459525856459292101854935186479091];
      (simp only: cert_arith))
lemma pw_a_65:
  "(7::nat) ^ 81465163356613125767
     mod fr_order = 51635036055018393132099949813453615679806868407223576343509332082960541448584"
  by (rule pw_step1 [OF pw_a_64, where c = 241856442064781142689690427297528001578663778307297770579262271399640315792303];
      (simp only: cert_arith))
lemma pw_a_66:
  "(7::nat) ^ 162930326713226251534
     mod fr_order = 41943274040621129340321855200364613806434331352621020368769118215634966723804"
  by (rule pw_step0 [OF pw_a_65, where c = 50846427936951718628079940054372553000446544854306756065750835153267081026404];
      (simp only: cert_arith))
lemma pw_a_67:
  "(7::nat) ^ 325860653426452503069
     mod fr_order = 18228810786634011038927777830242229178920417869136216605177983057967728590571"
  by (rule pw_step1 [OF pw_a_66, where c = 234851952400866171766449463088161672797315202470069316731136119954612223642757];
      (simp only: cert_arith))
lemma pw_a_68:
  "(7::nat) ^ 651721306852905006139
     mod fr_order = 2413476563226924317025054168337241992995193135198506450415767729055810319152"
  by (rule pw_step1 [OF pw_a_67, where c = 44359454116019406469261236057838006015681989090494433336624088539756571868895];
      (simp only: cert_arith))
lemma pw_a_69:
  "(7::nat) ^ 1303442613705810012278
     mod fr_order = 38473863547939532407567880213834254859199203500667382757630022650837855388468"
  by (rule pw_step0 [OF pw_a_68, where c = 111085570743153483926745396403659154665114665651426477733610208219947328972];
      (simp only: cert_arith))
lemma pw_a_70:
  "(7::nat) ^ 2606885227411620024556
     mod fr_order = 51433090460792839595523892827821737300027163399029866655007920184208826696070"
  by (rule pw_step0 [OF pw_a_69, where c = 28229493097268744332250457648528269479814489440539816687928054331728860168458];
      (simp only: cert_arith))
lemma pw_a_71:
  "(7::nat) ^ 5213770454823240049112
     mod fr_order = 12911049488495289129355775539622899019155113999085429412406387182387876578720"
  by (rule pw_step0 [OF pw_a_70, where c = 50449483021177268801521361707186092113671903143592610505293362871983692745860];
      (simp only: cert_arith))
lemma pw_a_72:
  "(7::nat) ^ 10427540909646480098224
     mod fr_order = 50228552390356191197497259870564268716933457865487877926830822252520148142212"
  by (rule pw_step0 [OF pw_a_71, where c = 3179029592576516079780320529177916905857648048999326679149138896573024836476];
      (simp only: cert_arith))
lemma pw_a_73:
  "(7::nat) ^ 20855081819292960196448
     mod fr_order = 50037342795597472343516132789969366057738219651437119562587416870905484485269"
  by (rule pw_step0 [OF pw_a_72, where c = 48114148315532240968354659885847267658895299257278869015592662507932332548475];
      (simp only: cert_arith))
lemma pw_a_74:
  "(7::nat) ^ 41710163638585920392896
     mod fr_order = 34856660836165730517497198787644730198624707994014299006267437605346066043697"
  by (rule pw_step0 [OF pw_a_73, where c = 47748524568000687703660439834382519199767831382895831297357441610445288757128];
      (simp only: cert_arith))
lemma pw_a_75:
  "(7::nat) ^ 83420327277171840785792
     mod fr_order = 47560504920046305319619303457163407424864035955341729071179131959978548605600"
  by (rule pw_step0 [OF pw_a_74, where c = 23170907333760657421266932939874267796174941788784545430118962475061260262593];
      (simp only: cert_arith))
lemma pw_a_76:
  "(7::nat) ^ 166840654554343681571584
     mod fr_order = 15152979370342065890969141704350832538991640162933941645587472492324330526824"
  by (rule pw_step0 [OF pw_a_75, where c = 43138435673955644152797956570275017267489627763192853795840592726675532614552];
      (simp only: cert_arith))
lemma pw_a_77:
  "(7::nat) ^ 333681309108687363143169
     mod fr_order = 15445441119499878686515345709755622449536242404078153058859905209804442570031"
  by (rule pw_step1 [OF pw_a_76, where c = 30652477549350211086833652492810428878527904868941981799220258659704029420177];
      (simp only: cert_arith))
lemma pw_a_78:
  "(7::nat) ^ 667362618217374726286339
     mod fr_order = 29752760849124109801068571136375272003464628733916001801106589592864705712237"
  by (rule pw_step1 [OF pw_a_77, where c = 31847119058360311946004761790791592521408244574785146951467649454669233460730];
      (simp only: cert_arith))
lemma pw_a_79:
  "(7::nat) ^ 1334725236434749452572678
     mod fr_order = 35069826074854063760876024518617486566508594700596851205799066171106003727859"
  by (rule pw_step0 [OF pw_a_78, where c = 16882082642631168044744772802518815916448931502342809319100577987169456330870];
      (simp only: cert_arith))
lemma pw_a_80:
  "(7::nat) ^ 2669450472869498905145356
     mod fr_order = 21502195191063414263131777564264800473180252696448700906874530754839332478410"
  by (rule pw_step0 [OF pw_a_79, where c = 23455176380920472900712804072464097917649146633305202607544887217041832748767];
      (simp only: cert_arith))
lemma pw_a_81:
  "(7::nat) ^ 5338900945738997810290712
     mod fr_order = 27645962616629809712561912815875253625619885602269232889579603678644576048287"
  by (rule pw_step0 [OF pw_a_80, where c = 8817329671535857132755674569643844103493157606809260286505485418944704188101];
      (simp only: cert_arith))
lemma pw_a_82:
  "(7::nat) ^ 10677801891477995620581424
     mod fr_order = 47927441415197904037765816885016323625628774582217316064193114306555799102300"
  by (rule pw_step0 [OF pw_a_81, where c = 14575884286234831917579462703734151355241677313466989880109580663708338771813];
      (simp only: cert_arith))
lemma pw_a_83:
  "(7::nat) ^ 21355603782955991241162848
     mod fr_order = 4306516267955065177390305058575248220323559054600242571214818035079222063191"
  by (rule pw_step0 [OF pw_a_82, where c = 43806642550268052989548511391239744220435973111605044000093080826874750916793];
      (simp only: cert_arith))
lemma pw_a_84:
  "(7::nat) ^ 42711207565911982482325696
     mod fr_order = 40802786203778723144044177676640390957455112525775626268473623384281083551765"
  by (rule pw_step0 [OF pw_a_83, where c = 353690718505624528913393645731495417264682903532310435933532277275421515132];
      (simp only: cert_arith))
lemma pw_a_85:
  "(7::nat) ^ 85422415131823964964651392
     mod fr_order = 14914657406257264930770097323014433640811621966305891418570638786977839798563"
  by (rule pw_step0 [OF pw_a_84, where c = 31750540187055601847045975614225706604718873800278853954911229231120147277974];
      (simp only: cert_arith))
lemma pw_a_86:
  "(7::nat) ^ 170844830263647929929302784
     mod fr_order = 7550785938300140317477073160724086582579990066963394560170739651816417175699"
  by (rule pw_step0 [OF pw_a_85, where c = 4242267432422793574263096800900720362968875834687617432998218196161812148790];
      (simp only: cert_arith))
lemma pw_a_87:
  "(7::nat) ^ 341689660527295859858605568
     mod fr_order = 1347350249748350199516993371848881838674760547948717964682934522349739043772"
  by (rule pw_step0 [OF pw_a_86, where c = 1087316042606585930576638241536720555109555935444436592392582301459994204333];
      (simp only: cert_arith))
lemma pw_a_88:
  "(7::nat) ^ 683379321054591719717211136
     mod fr_order = 11646626649610807782354149737174794477114330032358370387297549855871693213042"
  by (rule pw_step0 [OF pw_a_87, where c = 34620432851249209417942779211327370018247238864667724999596942561003365534];
      (simp only: cert_arith))
lemma pw_a_89:
  "(7::nat) ^ 1366758642109183439434422272
     mod fr_order = 46738712187888280146848240410662456242013544049911302828811087034807402876075"
  by (rule pw_step0 [OF pw_a_88, where c = 2586853215711550929493690496134378961674183475407645465775319128729270614553];
      (simp only: cert_arith))
lemma pw_a_90:
  "(7::nat) ^ 2733517284218366878868844544
     mod fr_order = 18497770285361943769418460551924818140749734161709213818654313155095706258553"
  by (rule pw_step0 [OF pw_a_89, where c = 41660546518703152338116210368753688189912304893424601096300525311347501444544];
      (simp only: cert_arith))
lemma pw_a_91:
  "(7::nat) ^ 5467034568436733757737689088
     mod fr_order = 24532358074013420390130839061246285526800023177208151886080145791333943501648"
  by (rule pw_step0 [OF pw_a_90, where c = 6525446641011381524833498917063563924460333296655615601866897164001302588897];
      (simp only: cert_arith))
lemma pw_a_92:
  "(7::nat) ^ 10934069136873467515475378176
     mod fr_order = 9195636237735256076786160450445390311661393687197946506259351401866551847892"
  by (rule pw_step0 [OF pw_a_91, where c = 11477573143608031648543507150378243535192954130204064028504746369127358106924];
      (simp only: cert_arith))
lemma pw_a_93:
  "(7::nat) ^ 21868138273746935030950756353
     mod fr_order = 4779958490417659419594715232347342894509196264886660428632168853805749883153"
  by (rule pw_step1 [OF pw_a_92, where c = 11288418067598777600129894005468859653270335978981298476732685155651534619615];
      (simp only: cert_arith))
lemma pw_a_94:
  "(7::nat) ^ 43736276547493870061901512706
     mod fr_order = 33540892839191661647498802765986787660421096460828026084862218423918004393808"
  by (rule pw_step0 [OF pw_a_93, where c = 435732274779580509075571320141622038227835482819465844582954455571393997777];
      (simp only: cert_arith))
lemma pw_a_95:
  "(7::nat) ^ 87472553094987740123803025412
     mod fr_order = 48721914920198217897250390130329320163449578427399329699636775657839399325697"
  by (rule pw_step0 [OF pw_a_94, where c = 21454614587682070043375751058773728011562570593056491968940246855432508975359];
      (simp only: cert_arith))
lemma pw_a_96:
  "(7::nat) ^ 174945106189975480247606050825
     mod fr_order = 32137521296366901380280370194712277488984995985836398943791735382328396514809"
  by (rule pw_step1 [OF pw_a_95, where c = 316897065204695453613412107317221337757511185238018901195018992813189105375758];
      (simp only: cert_arith))
lemma pw_a_97:
  "(7::nat) ^ 349890212379950960495212101651
     mod fr_order = 26040242285543284354918903440668313689694990158446803298279366624585547192964"
  by (rule pw_step1 [OF pw_a_96, where c = 137877777406690418367540747177096026326732095134404609236307350577121084152531];
      (simp only: cert_arith))
lemma pw_a_98:
  "(7::nat) ^ 699780424759901920990424203303
     mod fr_order = 40304146614224536040769338038306422745277852387651232845532882567975572451530"
  by (rule pw_step1 [OF pw_a_97, where c = 90523129673636701700893740900380530703274235520919236800877006602608223181734];
      (simp only: cert_arith))
lemma pw_a_99:
  "(7::nat) ^ 1399560849519803841980848406606
     mod fr_order = 13481981843205321565826162640212667056544246406495685506152258452175599629212"
  by (rule pw_step0 [OF pw_a_98, where c = 30979252827870777408901282734834391521723298310446472929601566145738356779976];
      (simp only: cert_arith))
lemma pw_a_100:
  "(7::nat) ^ 2799121699039607683961696813213
     mod fr_order = 26781374648943738726390492152583572602690513927392078879475241483607874160168"
  by (rule pw_step1 [OF pw_a_99, where c = 24264815580825551283375997821564670002230257067306384261280625241153950935880];
      (simp only: cert_arith))
lemma pw_a_101:
  "(7::nat) ^ 5598243398079215367923393626427
     mod fr_order = 12803991568980060074820362417704532528960485943888387027350395722806163339763"
  by (rule pw_step1 [OF pw_a_100, where c = 95749220926348768867608641204558887178961929204939404244819427157101127553485];
      (simp only: cert_arith))
lemma pw_a_102:
  "(7::nat) ^ 11196486796158430735846787252854
     mod fr_order = 8248232997672987575744674220942635937977507269394676103947302470340459744010"
  by (rule pw_step0 [OF pw_a_101, where c = 3126527392762600581549806279320452536005084019644628411129859133963651043743];
      (simp only: cert_arith))
lemma pw_a_103:
  "(7::nat) ^ 22392973592316861471693574505708
     mod fr_order = 49242031604128826985743015436815866653373763723595378106815958337241550852368"
  by (rule pw_step0 [OF pw_a_102, where c = 1297458035298974902931459057471728426232097090949326295986783106272135105364];
      (simp only: cert_arith))
lemma pw_a_104:
  "(7::nat) ^ 44785947184633722943387149011416
     mod fr_order = 19007155215278302655923623837125753875505691984350945412451714395996265609914"
  by (rule pw_step0 [OF pw_a_103, where c = 46242723486615036293710198410621710079339656059533000915591997053901002483270];
      (simp only: cert_arith))
lemma pw_a_105:
  "(7::nat) ^ 89571894369267445886774298022832
     mod fr_order = 23269432587200074287218770029858660529355879568218929377331697874716763534329"
  by (rule pw_step0 [OF pw_a_104, where c = 6889785822609029322921075640039575711127346783791469815446331661847451343659];
      (simp only: cert_arith))
lemma pw_a_106:
  "(7::nat) ^ 179143788738534891773548596045664
     mod fr_order = 45475788889478564296269371430214735444376318137837060527217040749095273982131"
  by (rule pw_step0 [OF pw_a_105, where c = 10326260239232207439097209036446083378949610587293184737262352248414802329470];
      (simp only: cert_arith))
lemma pw_a_107:
  "(7::nat) ^ 358287577477069783547097192091328
     mod fr_order = 34799496305092025285018817978194291292419073639956702280398520001077290648959"
  by (rule pw_step0 [OF pw_a_106, where c = 39439551036642827164954036740255052901753869186742540826490655886440433264554];
      (simp only: cert_arith))
lemma pw_a_108:
  "(7::nat) ^ 716575154954139567094194384182656
     mod fr_order = 39205437672927482492096583836338025818560628498389640253784529645413731135775"
  by (rule pw_step0 [OF pw_a_107, where c = 23094969599412224454598044280301285412520570130871398239594954841554954273762];
      (simp only: cert_arith))
lemma pw_a_109:
  "(7::nat) ^ 1433150309908279134188388768365313
     mod fr_order = 36531310271624191094370985990022341515050051190529388496987144369019816710735"
  by (rule pw_step1 [OF pw_a_108, where c = 205192806755794117952012884313697402874236553584318979061021574726054659660280];
      (simp only: cert_arith))
lemma pw_a_110:
  "(7::nat) ^ 2866300619816558268376777536730626
     mod fr_order = 36141896871458450185384241079147255417999116137415835251078186958078552671545"
  by (rule pw_step0 [OF pw_a_109, where c = 25450831624428274413178655518665578577973260931862345643289627935263896088360];
      (simp only: cert_arith))
lemma pw_a_111:
  "(7::nat) ^ 5732601239633116536753555073461253
     mod fr_order = 44203470406547127220331760192717731674883028506091211502465228698080239994711"
  by (rule pw_step1 [OF pw_a_110, where c = 174377884143858230858113034913415945415733404001509976706682190118425692153728];
      (simp only: cert_arith))
lemma pw_a_112:
  "(7::nat) ^ 11465202479266233073507110146922507
     mod fr_order = 21558971603111417363396816704068919479599137178825573926330986012765384940561"
  by (rule pw_step1 [OF pw_a_111, where c = 260844841936873372776315816323870916728038398110045890387369640788228263739622];
      (simp only: cert_arith))
lemma pw_a_113:
  "(7::nat) ^ 22930404958532466147014220293845015
     mod fr_order = 16962230763491023893459864864939000561977941885482708158236513380790703154647"
  by (rule pw_step1 [OF pw_a_112, where c = 62047687489150819015770357564737943566558402859720812739164370569823960246800];
      (simp only: cert_arith))
lemma pw_a_114:
  "(7::nat) ^ 45860809917064932294028440587690031
     mod fr_order = 742807663211858308220519698187380594977294477706056360265783607843732966333"
  by (rule pw_step1 [OF pw_a_113, where c = 38409216983429553408851210596000332213814080661682720091603682066891949911610];
      (simp only: cert_arith))
lemma pw_a_115:
  "(7::nat) ^ 91721619834129864588056881175380063
     mod fr_order = 38785492715876572480882752451674667878826531316365719786734089768461644448031"
  by (rule pw_step1 [OF pw_a_114, where c = 73658398163171987949269034329118565465029797350170398647702766646956474784];
      (simp only: cert_arith))
lemma pw_a_116:
  "(7::nat) ^ 183443239668259729176113762350760127
     mod fr_order = 47974245540190169014034548919352354624355680702537557747156519795122407768006"
  by (rule pw_step1 [OF pw_a_115, where c = 200820546645293233546502284981151068397143602683240173587183237306733966118017];
      (simp only: cert_arith))
lemma pw_a_117:
  "(7::nat) ^ 366886479336519458352227524701520255
     mod fr_order = 29997884460528689054928274356429364624782652074729035878079743735177312756397"
  by (rule pw_step1 [OF pw_a_116, where c = 307245709015944211662502767863446621855911350392769981128173531305376082688335];
      (simp only: cert_arith))
lemma pw_a_118:
  "(7::nat) ^ 733772958673038916704455049403040511
     mod fr_order = 38940009200312946944268260485365500448126822580413628578724010932717190446179"
  by (rule pw_step1 [OF pw_a_117, where c = 120129805857396771255375871553303396144936812147005480382341767733285386281468];
      (simp only: cert_arith))
lemma pw_a_119:
  "(7::nat) ^ 1467545917346077833408910098806081023
     mod fr_order = 40010415733751377449097413814372723038001862450848833752906882262428161946493"
  by (rule pw_step1 [OF pw_a_118, where c = 202423821099456927628353496583324424145880759161893831163795534086563243307138];
      (simp only: cert_arith))
lemma pw_a_120:
  "(7::nat) ^ 2935091834692155666817820197612162047
     mod fr_order = 40795275048915200739637195359981582452870372467322102159000925190254464199285"
  by (rule pw_step1 [OF pw_a_119, where c = 213705474217564078872568771426772050896321606239647978437886371049736895947466];
      (simp only: cert_arith))
lemma pw_a_121:
  "(7::nat) ^ 5870183669384311333635640395224324095
     mod fr_order = 36592896231899698582818218761065277820457462789511934084425696526910346373325"
  by (rule pw_step1 [OF pw_a_120, where c = 222171961949874443996107426764534828116050213510813024398846401253453851429250];
      (simp only: cert_arith))
lemma pw_a_122:
  "(7::nat) ^ 11740367338768622667271280790448648191
     mod fr_order = 7707544364519351061015395997893946011276482419902633458139711446499317449785"
  by (rule pw_step1 [OF pw_a_121, where c = 178757012277663327486783574451955280074221270275004977005949950382874883123430];
      (simp only: cert_arith))
lemma pw_a_123:
  "(7::nat) ^ 23480734677537245334542561580897296383
     mod fr_order = 5675534405060745464222480454668934255898488666659276349186370455594199764315"
  by (rule pw_step1 [OF pw_a_122, where c = 7930518552963911588630279001784935446237450279288708949934849052591284913020];
      (simp only: cert_arith))
lemma pw_a_124:
  "(7::nat) ^ 46961469355074490669085123161794592767
     mod fr_order = 47280621521187236723399746959395827491591774341597168749643747505844339310671"
  by (rule pw_step1 [OF pw_a_123, where c = 4300144409302404143582882810746010115676658826141531888544922068513097880608];
      (simp only: cert_arith))
lemma pw_a_125:
  "(7::nat) ^ 93922938710148981338170246323589185535
     mod fr_order = 18529955740899202958381101377272904567882524390553880216620327931558269724967"
  by (rule pw_step1 [OF pw_a_124, where c = 298425460579158100860130958285957861008672635713076356386038809711840481837440];
      (simp only: cert_arith))
lemma pw_a_126:
  "(7::nat) ^ 187845877420297962676340492647178371071
     mod fr_order = 51124220710297362760112476589036248317961235434447799714687743572892634332071"
  by (rule pw_step1 [OF pw_a_125, where c = 45837221373544073521703824682889361190582947239437897597025002499210423787504];
      (simp only: cert_arith))
lemma pw_a_127:
  "(7::nat) ^ 375691754840595925352680985294356742142
     mod fr_order = 51229458777001833051802993925040361703114859719171738895807112146364950448915"
  by (rule pw_step0 [OF pw_a_126, where c = 49845376557671000499170610645352768062511377578011258787435885560799872244702];
      (simp only: cert_arith))
lemma pw_a_128:
  "(7::nat) ^ 751383509681191850705361970588713484284
     mod fr_order = 49652961818619455028334726481351392222984026690042412396946681266457458182815"
  by (rule pw_step0 [OF pw_a_127, where c = 50050798958143149060452095598784152750026459025753664491477488266740676794570];
      (simp only: cert_arith))
lemma pw_a_129:
  "(7::nat) ^ 1502767019362383701410723941177426968569
     mod fr_order = 1055920604036761013675450878622956763108257458915474148737004238053801650698"
  by (rule pw_step1 [OF pw_a_128, where c = 329124216271602213977917508837002333280011018665223752601469935835412171636029];
      (simp only: cert_arith))
lemma pw_a_130:
  "(7::nat) ^ 3005534038724767402821447882354853937138
     mod fr_order = 40590864462868539058260845295794697709879389943477023907913342428447281909220"
  by (rule pw_step0 [OF pw_a_129, where c = 21263463579192086839527843500367059868328408239077834669596525681984944768];
      (simp only: cert_arith))
lemma pw_a_131:
  "(7::nat) ^ 6011068077449534805642895764709707874277
     mod fr_order = 39609784560327141942390107859551784640607772895443687935934862064611339963260"
  by (rule pw_step1 [OF pw_a_130, where c = 219951090858721280591579870537589943069319117388873976151905142129881401006580];
      (simp only: cert_arith))
lemma pw_a_132:
  "(7::nat) ^ 12022136154899069611285791529419415748555
     mod fr_order = 27324277816791217805804146546145402862366512344970486700793500815397962191357"
  by (rule pw_step1 [OF pw_a_131, where c = 209447161771001809610941950311927682673483508458421722455260001314998429559411];
      (simp only: cert_arith))
lemma pw_a_133:
  "(7::nat) ^ 24044272309798139222571583058838831497110
     mod fr_order = 7011427020467819627515412428352245811263149219913623846682954067470014887223"
  by (rule pw_step0 [OF pw_a_132, where c = 14238651604757769886148356402887619643938498508309602511076186601814151880402];
      (simp only: cert_arith))
lemma pw_a_134:
  "(7::nat) ^ 48088544619596278445143166117677662994221
     mod fr_order = 35834805023559783519500088718313880140339355965479184568677939079152777046221"
  by (rule pw_step1 [OF pw_a_133, where c = 6562697025540693235760021242838355776596089726312516631131716005661174567914];
      (simp only: cert_arith))
lemma pw_a_135:
  "(7::nat) ^ 96177089239192556890286332235355325988443
     mod fr_order = 26879366242496351193591747617530156070246033832224701958462970992380753613664"
  by (rule pw_step1 [OF pw_a_134, where c = 171427152260059250647195427125266874494046587944143814093249527285900836788671];
      (simp only: cert_arith))
lemma pw_a_136:
  "(7::nat) ^ 192354178478385113780572664470710651976887
     mod fr_order = 39638227656254960351321062487242135294199284228536403933140196245993209880904"
  by (rule pw_step1 [OF pw_a_135, where c = 96451185191372095257262242967362173625885609236382134716937791257732351089336];
      (simp only: cert_arith))
lemma pw_a_137:
  "(7::nat) ^ 384708356956770227561145328941421303953775
     mod fr_order = 40221594248218651179127976152937694269205430746521666962253492706474210564168"
  by (rule pw_step1 [OF pw_a_136, where c = 209748070483639086911830843887403436813850508086847190128956528909002181338488];
      (simp only: cert_arith))
lemma pw_a_138:
  "(7::nat) ^ 769416713913540455122290657882842607907551
     mod fr_order = 21575961972258388047798733892591453115539764239623481837779870980821677996901"
  by (rule pw_step1 [OF pw_a_137, where c = 215967340475520093432118947927350059915990770258109179570699453941955968864859];
      (simp only: cert_arith))
lemma pw_a_139:
  "(7::nat) ^ 1538833427827080910244581315765685215815103
     mod fr_order = 40670987486305424346272392343001718445260609549143784343575795960025472034297"
  by (rule pw_step1 [OF pw_a_138, where c = 62145524115218285144439453830669479353100510800598533089107295924418248282870];
      (simp only: cert_arith))
lemma pw_a_140:
  "(7::nat) ^ 3077666855654161820489162631531370431630207
     mod fr_order = 23766271117229888854965222581399491574307756042006537629712492864884158508414"
  by (rule pw_step1 [OF pw_a_139, where c = 220820278542258954892401498311407822991632342252709161033810423354227786893273];
      (simp only: cert_arith))
lemma pw_a_141:
  "(7::nat) ^ 6155333711308323640978325263062740863260415
     mod fr_order = 17599249631980836830336837775340973059914594402862093848865498216722217161283"
  by (rule pw_step1 [OF pw_a_140, where c = 75403518803082782714094074620454480353970478526178926824201426405725244552153];
      (simp only: cert_arith))
lemma pw_a_142:
  "(7::nat) ^ 12310667422616647281956650526125481726520831
     mod fr_order = 26121603774671535263746356221382494429180744262020179260206480356143011436452"
  by (rule pw_step1 [OF pw_a_141, where c = 41348315557245308827068399521184531385678802576026193115240480448888261072667];
      (simp only: cert_arith))
lemma pw_a_143:
  "(7::nat) ^ 24621334845233294563913301052250963453041663
     mod fr_order = 36880522769623375082525994236322951000055847717300022000540675030633448226874"
  by (rule pw_step1 [OF pw_a_142, where c = 91089683739888961313387475720090819172120904392159589347692577654830868981558];
      (simp only: cert_arith))
lemma pw_a_144:
  "(7::nat) ^ 49242669690466589127826602104501926906083327
     mod fr_order = 25684329632364699437507296481661238504914753096036131600569278358955781899957"
  by (rule pw_step1 [OF pw_a_143, where c = 181578178804603963378690765418240930353455204939529880949506590466090846491975];
      (simp only: cert_arith))
lemma pw_a_145:
  "(7::nat) ^ 98485339380933178255653204209003853812166655
     mod fr_order = 766759038777139450251584426306322509589643088278675942680721044538803762193"
  by (rule pw_step1 [OF pw_a_144, where c = 88065537291504901511713665920458678899011989627567186421552418494990498082750];
      (simp only: cert_arith))
lemma pw_a_146:
  "(7::nat) ^ 196970678761866356511306408418007707624333311
     mod fr_order = 41118003482280559453932044905166486864491696226262563434101680910297140470925"
  by (rule pw_step1 [OF pw_a_145, where c = 78485120179272297213397972602376792368339938365387618590837192208168368986];
      (simp only: cert_arith))
lemma pw_a_147:
  "(7::nat) ^ 393941357523732713022612816836015415248666623
     mod fr_order = 29794183533296611603781406345954379423571536789025634352378630903037019183939"
  by (rule pw_step1 [OF pw_a_146, where c = 225701038326445214566438974129066371968536501707025220632713459967192743828572];
      (simp only: cert_arith))
lemma pw_a_148:
  "(7::nat) ^ 787882715047465426045225633672030830497333247
     mod fr_order = 5511694699613100573994127432264087779114193142599405011096521249664721620327"
  by (rule pw_step1 [OF pw_a_147, where c = 118503859927143605333714761989931402934740620045112213904917972028064678468440];
      (simp only: cert_arith))
lemma pw_a_149:
  "(7::nat) ^ 1575765430094930852090451267344061660994666495
     mod fr_order = 8791030626697720956479503302224772201986660899045942468804754708809393012892"
  by (rule pw_step1 [OF pw_a_148, where c = 4055457232705380676198056786198860724276888041093064996289093858313372359547];
      (simp only: cert_arith))
lemma pw_a_150:
  "(7::nat) ^ 3151530860189861704180902534688123321989332991
     mod fr_order = 38569855610597255104746930238613989842617195888702593907872314927787517778792"
  by (rule pw_step1 [OF pw_a_149, where c = 10316897249259259208702568851431840867795441441253398751012179181283579067912];
      (simp only: cert_arith))
lemma pw_a_151:
  "(7::nat) ^ 6303061720379723408361805069376246643978665983
     mod fr_order = 6688746986808038348191020115098540705260402594984668482500760213568127646040"
  by (rule pw_step1 [OF pw_a_150, where c = 198593735643341119653969602977436645869197505248770825506789570360422719258216];
      (simp only: cert_arith))
lemma pw_a_152:
  "(7::nat) ^ 12606123440759446816723610138752493287957331967
     mod fr_order = 34621548562519491485283392014030739597447041630736300040567668245656247842399"
  by (rule pw_step1 [OF pw_a_151, where c = 5972539844691962054861221839814274763577738688342409488475982108462947790177];
      (simp only: cert_arith))
lemma pw_a_153:
  "(7::nat) ^ 25212246881518893633447220277504986575914663935
     mod fr_order = 24676405863706549869623411292890817909881160888746402188070513906223134001165"
  by (rule pw_step1 [OF pw_a_152, where c = 160015663818813639495384412682289950134074657990191393873536253549523134888634];
      (simp only: cert_arith))
lemma pw_a_154:
  "(7::nat) ^ 50424493763037787266894440555009973151829327871
     mod fr_order = 15786676428015214799455852490115253722353402172078350452226776179865714352384"
  by (rule pw_step1 [OF pw_a_153, where c = 81289289636469561371961607576559661884740103272361795730639891484306271458207];
      (simp only: cert_arith))
lemma pw_a_155:
  "(7::nat) ^ 100848987526075574533788881110019946303658655743
     mod fr_order = 14344299490650019057142919768498658139887106546263966502221409377473532431366"
  by (rule pw_step1 [OF pw_a_154, where c = 33269856995302075850316482112651736565420702492072449249436911276355760452602];
      (simp only: cert_arith))
lemma pw_a_156:
  "(7::nat) ^ 201697975052151149067577762220039892607317311487
     mod fr_order = 50818827488467209954773876244382426885959268519069880229722180136479394257437"
  by (rule pw_step1 [OF pw_a_155, where c = 27468073915651405234777835595045290818529784020035019299528305642688654055135];
      (simp only: cert_arith))
lemma pw_a_157:
  "(7::nat) ^ 403395950104302298135155524440079785214634622975
     mod fr_order = 34743590057626783792051233361405902190597964305268035859701132981674506714517"
  by (rule pw_step1 [OF pw_a_156, where c = 344761530740954739436992882693918421971555932745156980630837874275778410501482];
      (simp only: cert_arith))
lemma pw_a_158:
  "(7::nat) ^ 806791900208604596270311048880159570429269245951
     mod fr_order = 29074415974281518964335732075196596587748346774861090951622543649282484113238"
  by (rule pw_step1 [OF pw_a_157, where c = 161145767519396110638809474191625326544674051861421877870623679580748469525945];
      (simp only: cert_arith))
lemma pw_a_159:
  "(7::nat) ^ 1613583800417209192540622097760319140858538491903
     mod fr_order = 46359159642698587540355846000492400835485779628534197244789262514329277602455"
  by (rule pw_step1 [OF pw_a_158, where c = 112847389882525295471626258239093904027133129847355288917476290733980092316581];
      (simp only: cert_arith))
lemma pw_a_160:
  "(7::nat) ^ 3227167600834418385081244195520638281717076983807
     mod fr_order = 50496849534544993155892517255368694225694357560780553197948103595872340691426"
  by (rule pw_step1 [OF pw_a_159, where c = 286906659404379610920572202916881124213992081745291761658520963715396912929173];
      (simp only: cert_arith))
lemma pw_a_161:
  "(7::nat) ^ 6454335201668836770162488391041276563434153967615
     mod fr_order = 816981484342710495152965654762281341334565627964514488535790010643070410645"
  by (rule pw_step1 [OF pw_a_160, where c = 340406689709806720321888474477937439973495561209515271236269731440459967451399];
      (simp only: cert_arith))
lemma pw_a_162:
  "(7::nat) ^ 12908670403337673540324976782082553126868307935231
     mod fr_order = 36368929532730018503915833755737975001670178077096410954341639688349627775262"
  by (rule pw_step1 [OF pw_a_161, where c = 89103332493400795142705374501615208986450667592104276914091802750790434801];
      (simp only: cert_arith))
lemma pw_a_163:
  "(7::nat) ^ 25817340806675347080649953564165106253736615870463
     mod fr_order = 41654411156100771406043063672255708169249566408739212774412520432276240779799"
  by (rule pw_step1 [OF pw_a_162, where c = 176575545207813724677225331182021627951444258658691276629421007766622942057093];
      (simp only: cert_arith))
lemma pw_a_164:
  "(7::nat) ^ 51634681613350694161299907128330212507473231740927
     mod fr_order = 49479868610570296892742035918437074208436399243383169415302015211970649724130"
  by (rule pw_step1 [OF pw_a_163, where c = 231628245752860508923279976777339641738364152835245306730871859202558404660629];
      (simp only: cert_arith))
lemma pw_a_165:
  "(7::nat) ^ 103269363226701388322599814256660425014946463481855
     mod fr_order = 10044400965902721324469929991994367809194894520756455123412410429833873775832"
  by (rule pw_step1 [OF pw_a_164, where c = 326833522408045801446127047071295968332818183313746729328972744214041920260036];
      (simp only: cert_arith))
lemma pw_a_166:
  "(7::nat) ^ 206538726453402776645199628513320850029892926963711
     mod fr_order = 29992633205353553858065229265724685765810626277936390847900602524357660757788"
  by (rule pw_step1 [OF pw_a_165, where c = 13468449472581784894013402499956983107917374903661657979720719178213232209060];
      (simp only: cert_arith))
lemma pw_a_167:
  "(7::nat) ^ 413077452906805553290399257026641700059785853927423
     mod fr_order = 15395926063187746285077521617563329776146095165759220765576081684742871113787"
  by (rule pw_step1 [OF pw_a_166, where c = 120087751088460444101942158333326673657440709341540260302786271327933210897717];
      (simp only: cert_arith))
lemma pw_a_168:
  "(7::nat) ^ 826154905813611106580798514053283400119571707854847
     mod fr_order = 29823013767527909212132327159852966103875207942337088454635776684797090784902"
  by (rule pw_step1 [OF pw_a_167, where c = 31643255116090718956519262249083979872091746791072959423714435084449186592937];
      (simp only: cert_arith))
lemma pw_a_169:
  "(7::nat) ^ 1652309811627222213161597028106566800239143415709695
     mod fr_order = 41599205954203627806133918119745868846817518228644266342128079815690119680590"
  by (rule pw_step1 [OF pw_a_168, where c = 118733310552246952373976936012849793784307812491383591286382102180901177086126];
      (simp only: cert_arith))
lemma pw_a_170:
  "(7::nat) ^ 3304619623254444426323194056213133600478286831419391
     mod fr_order = 11055456011475040481240747566519925746782545901860039396085811039803042136734"
  by (rule pw_step1 [OF pw_a_169, where c = 231014691977296668944302934708792582913167542666988797328668952034267315432382];
      (simp only: cert_arith))
lemma pw_a_171:
  "(7::nat) ^ 6609239246508888852646388112426267200956573662838783
     mod fr_order = 4675529685048237029994263682032388780630560384300569714831564164099186484449"
  by (rule pw_step1 [OF pw_a_170, where c = 16316343543312630628696929231141527279430409461199816571120884288196453076411];
      (simp only: cert_arith))
lemma pw_a_172:
  "(7::nat) ^ 13218478493017777705292776224852534401913147325677567
     mod fr_order = 26113923875526320668721154765027901024942471043625130635113132027318930514753"
  by (rule pw_step1 [OF pw_a_171, where c = 2918308206724855206584147863972971284034925992668187576579343821066927389958];
      (simp only: cert_arith))
lemma pw_a_173:
  "(7::nat) ^ 26436956986035555410585552449705068803826294651355135
     mod fr_order = 33608121833081183777692463290473356060397484485764145326319763942519935348239"
  by (rule pw_step1 [OF pw_a_172, where c = 91036129849929550389727739123341252566884902427941132988264161537162295619448];
      (simp only: cert_arith))
lemma pw_a_174:
  "(7::nat) ^ 52873913972071110821171104899410137607652589302710271
     mod fr_order = 33274605710600178279317559052322426428478256063545482672432059972801150584465"
  by (rule pw_step1 [OF pw_a_173, where c = 150784952966346087381699524284433235345449132075019317256925381311573458795414];
      (simp only: cert_arith))
lemma pw_a_175:
  "(7::nat) ^ 105747827944142221642342209798820275215305178605420542
     mod fr_order = 3064416588434096540754379715414178065453484895286816746199939473632592795949"
  by (rule pw_step0 [OF pw_a_174, where c = 21115302862745466612847892960472258708335496867580302688104810438566416811252];
      (simp only: cert_arith))
lemma pw_a_176:
  "(7::nat) ^ 211495655888284443284684419597640550430610357210841084
     mod fr_order = 7161399420649685611011402125506799029190503512322443763418627137287431583252"
  by (rule pw_step0 [OF pw_a_175, where c = 179088248190900301738847684219165398094339114467906592482264766104770108373];
      (simp only: cert_arith))
lemma pw_a_177:
  "(7::nat) ^ 422991311776568886569368839195281100861220714421682168
     mod fr_order = 50404877076195442373117322203867261535388038327284428367992991921808304667745"
  by (rule pw_step0 [OF pw_a_176, where c = 978063997040137708571464203703811466783802879995516273692372746342202864943];
      (simp only: cert_arith))
lemma pw_a_178:
  "(7::nat) ^ 845982623553137773138737678390562201722441428843364336
     mod fr_order = 11731079457387034155724843918350824858810527900972907698386513086821824092876"
  by (rule pw_step0 [OF pw_a_177, where c = 48452545601290396644952890449863405861504391607538884891116656360136933097973];
      (simp only: cert_arith))
lemma pw_a_179:
  "(7::nat) ^ 1691965247106275546277475356781124403444882857686728672
     mod fr_order = 13996250252628709663959975656029725820079889683361818634942124306988816773095"
  by (rule pw_step0 [OF pw_a_178, where c = 2624505165135672480950640763690816350570886624337587372478679259919537300137];
      (simp only: cert_arith))
lemma pw_a_180:
  "(7::nat) ^ 3383930494212551092554950713562248806889765715373457344
     mod fr_order = 25099227576418379645151429823164023681102461218343740692730464332943819065246"
  by (rule pw_step0 [OF pw_a_179, where c = 3735896854585831454550850323530064855917337883517013569659300478975336438483];
      (simp only: cert_arith))
lemma pw_a_181:
  "(7::nat) ^ 6767860988425102185109901427124497613779531430746914688
     mod fr_order = 22685352905968675850236911277868825679844266027038197408724786680605445899040"
  by (rule pw_step0 [OF pw_a_180, where c = 12014126260482020824340381571179936062535815594742541604561457793628294103652];
      (simp only: cert_arith))
lemma pw_a_182:
  "(7::nat) ^ 13535721976850204370219802854248995227559062861493829376
     mod fr_order = 30044447589054449001559331231762117007059042172808666071072796992121994781999"
  by (rule pw_step0 [OF pw_a_181, where c = 9814372979369328617686093350354883360796967222289088228320977267473071021777];
      (simp only: cert_arith))
lemma pw_a_183:
  "(7::nat) ^ 27071443953700408740439605708497990455118125722987658752
     mod fr_order = 3836094252725643499908082451565007322672269290379498625734177844828320152787"
  by (rule pw_step0 [OF pw_a_182, where c = 17214718509354361313680411132345274272518905771452512941747453594953857622478];
      (simp only: cert_arith))
lemma pw_a_184:
  "(7::nat) ^ 54142887907400817480879211416995980910236251445975317504
     mod fr_order = 41133835552507050504384510686033595476098517757715268509266994507803715710253"
  by (rule pw_step0 [OF pw_a_183, where c = 280640288097552461419679004365842644374042929097987158431072822983650207932];
      (simp only: cert_arith))
lemma pw_a_185:
  "(7::nat) ^ 108285775814801634961758422833991961820472502891950635008
     mod fr_order = 1304303458337348811968615734429835558791870464803553169944850029536099994577"
  by (rule pw_step0 [OF pw_a_184, where c = 32267839939921840250648923168049839797839769838315928263756657111641584586264];
      (simp only: cert_arith))
lemma pw_a_186:
  "(7::nat) ^ 216571551629603269923516845667983923640945005783901270016
     mod fr_order = 41337801286235356009225048773046799021617038029357906561613652104534968269945"
  by (rule pw_step0 [OF pw_a_185, where c = 32443580006036852367717840468474935313065448204075604617577749041072841768];
      (simp only: cert_arith))
lemma pw_a_187:
  "(7::nat) ^ 433143103259206539847033691335967847281890011567802540032
     mod fr_order = 23493182425922623025567480944580195820454849779220043092646867166687192417389"
  by (rule pw_step0 [OF pw_a_186, where c = 32588639161130756843086961755321866784584029736996849495907243905276941003972];
      (simp only: cert_arith))
lemma pw_a_188:
  "(7::nat) ^ 866286206518413079694067382671935694563780023135605080064
     mod fr_order = 36663050838121166434292608043528853837535767459987824159937636494218353734710"
  by (rule pw_step0 [OF pw_a_187, where c = 10525801632076055585156966615161353962345367276961994536510233870418814378547];
      (simp only: cert_arith))
lemma pw_a_189:
  "(7::nat) ^ 1732572413036826159388134765343871389127560046271210160128
     mod fr_order = 48448636698751433914070851820613842045441498206221153433995457810979620419326"
  by (rule pw_step0 [OF pw_a_188, where c = 25634726077696715131643967776292325359671717051163822085025099222619617002598];
      (simp only: cert_arith))
lemma pw_a_190:
  "(7::nat) ^ 3465144826073652318776269530687742778255120092542420320256
     mod fr_order = 18022138027668617675897210952565838090036451028685971608839418506724508173297"
  by (rule pw_step0 [OF pw_a_189, where c = 44764588940837781595672375672937889237111106872734844197812641826392685092883];
      (simp only: cert_arith))
lemma pw_a_191:
  "(7::nat) ^ 6930289652147304637552539061375485556510240185084840640512
     mod fr_order = 11420763744956878501882456763749447504881099628825658148513159639249340895585"
  by (rule pw_step0 [OF pw_a_190, where c = 6194184001002661738546942710430484069779527937823666421379985264685754546048];
      (simp only: cert_arith))
lemma pw_a_192:
  "(7::nat) ^ 13860579304294609275105078122750971113020480370169681281024
     mod fr_order = 10090086117992905421490934076569120999756855249649448319332043551671655645966"
  by (rule pw_step0 [OF pw_a_191, where c = 2487492467370791170803794050179449117396952028086754938156031164880069739443];
      (simp only: cert_arith))
lemma pw_a_193:
  "(7::nat) ^ 27721158608589218550210156245501942226040960740339362562048
     mod fr_order = 15336257159711272562473975336553925067242651490699167969048518299680041810352"
  by (rule pw_step0 [OF pw_a_192, where c = 1941606534237999925750088653951057334430767794812275378615707441196616325908];
      (simp only: cert_arith))
lemma pw_a_194:
  "(7::nat) ^ 55442317217178437100420312491003884452081921480678725124096
     mod fr_order = 34323404766046007818826294964492752057749682666332242982969559814739313440133"
  by (rule pw_step0 [OF pw_a_193, where c = 4485493622129274254975819450675595477688099292308423788001815535862361727867];
      (simp only: cert_arith))
lemma pw_a_195:
  "(7::nat) ^ 110884634434356874200840624982007768904163842961357450248192
     mod fr_order = 36753220369652266679082156533346229400927335430139785140317093083353462807205"
  by (rule pw_step0 [OF pw_a_194, where c = 22467368205435786106647750593775330303156533351607481049995739947823392177268];
      (simp only: cert_arith))
lemma pw_a_196:
  "(7::nat) ^ 221769268868713748401681249964015537808327685922714900496384
     mod fr_order = 21106030284239362157199381942207517766548318578515110034127841055200238137496"
  by (rule pw_step0 [OF pw_a_195, where c = 25760973818569845363805240156974049423475996050295248878632827320604492791233];
      (simp only: cert_arith))
lemma pw_a_197:
  "(7::nat) ^ 443538537737427496803362499928031075616655371845429800992768
     mod fr_order = 34477491573573112376393542540161615038030795577457025121309927139509499631177"
  by (rule pw_step0 [OF pw_a_196, where c = 8495414882872831731205438951268024573529096196830839381962264484489807578103];
      (simp only: cert_arith))
lemma pw_a_198:
  "(7::nat) ^ 887077075474854993606724999856062151233310743690859601985536
     mod fr_order = 1313566436133352143743067893759439434038537607935411239310994353303213172974"
  by (rule pw_step0 [OF pw_a_197, where c = 22669544872394595020659911214152344802448172468663702186994368366457358628835];
      (simp only: cert_arith))
lemma pw_a_199:
  "(7::nat) ^ 1774154150949709987213449999712124302466621487381719203971072
     mod fr_order = 20333809276815130201417940778225126718395422329981912528864676987247289777865"
  by (rule pw_step0 [OF pw_a_198, where c = 32906035731707866320954504479939562525493961551738832590607668255624461947];
      (simp only: cert_arith))
lemma pw_a_200:
  "(7::nat) ^ 3548308301899419974426899999424248604933242974763438407942144
     mod fr_order = 6175696566640736174685226177450124013432810136096618350539705280216949972330"
  by (rule pw_step0 [OF pw_a_199, where c = 7885132046046717283283043897506258526779078396867037186412820363130028301415];
      (simp only: cert_arith))
lemma pw_a_201:
  "(7::nat) ^ 7096616603798839948853799998848497209866485949526876815884288
     mod fr_order = 45635682191673836189960282397094161118872083003330077847902147229084921529656"
  by (rule pw_step0 [OF pw_a_200, where c = 727349890811208189439623854735049832086239396744372024655764502372611631788];
      (simp only: cert_arith))
lemma pw_a_202:
  "(7::nat) ^ 14193233207597679897707599997696994419732971899053753631768576
     mod fr_order = 26599106783304978904100841716765773076683438966259258536221201769522625859599"
  by (rule pw_step0 [OF pw_a_201, where c = 39717378267148271238960184868181486890614013792634157045154278825431031475249];
      (simp only: cert_arith))
lemma pw_a_203:
  "(7::nat) ^ 28386466415195359795415199995393988839465943798107507263537152
     mod fr_order = 2768248521675283541755899224729086149660339859162637111824293353376541984379"
  by (rule pw_step0 [OF pw_a_202, where c = 13492908801592406440306097921547991834027504200433962412751887028784182139494];
      (simp only: cert_arith))
lemma pw_a_204:
  "(7::nat) ^ 56772932830390719590830399990787977678931887596215014527074304
     mod fr_order = 10617442387329313364375005654452765161907351335041636365630470143617791422095"
  by (rule pw_step0 [OF pw_a_203, where c = 146144216190989717073777670041943037631437336958544069719250824696660988042];
      (simp only: cert_arith))
lemma pw_a_205:
  "(7::nat) ^ 113545865660781439181660799981575955357863775192430029054148608
     mod fr_order = 38009694342053705831289861261449235899473785130310241398589283402176171634070"
  by (rule pw_step0 [OF pw_a_204, where c = 2149865573364789301405969612136459496404050078321580713581707464877396969035];
      (simp only: cert_arith))

lemma pw_b_0:
  "(38009694342053705831289861261449235899473785130310241398589283402176171634070::nat) ^ 3
     mod fr_order = 36367405939276865719866598141090040382504461983628070627596973894800213368948"
  by (rule pw_init1 [where c = 27552450667623907747005893234711732402362763306982087305592609615896575350938 and s = 21000587523505953660663019333288440374163614632845588826670699885347279141706 and d = 15222896730646336699242839084753530348542094356484336926248219094261279514344];
      (simp only: cert_arith))
lemma pw_b_1:
  "(38009694342053705831289861261449235899473785130310241398589283402176171634070::nat) ^ 6
     mod fr_order = 6305700695040898436548351393257496240365352711133517191589917110503684236222"
  by (rule pw_step0 [OF pw_b_0, where c = 25222964436751528860043933349476070753022640057153062691137958062436924412114];
      (simp only: cert_arith))
lemma pw_b_2:
  "(38009694342053705831289861261449235899473785130310241398589283402176171634070::nat) ^ 13
     mod fr_order = 12516591663041885690299711348299665552568628662385423443783290556818098896563"
  by (rule pw_step2 [OF pw_b_1, where c = 758294986450439844625581370377231365332696524589331927906821205271877780841 and s = 25060860713074162718255846818587626204843185280413364718906373050027899517851 and d = 18166105790575061434673587136810275194195689798078773185202861864682853707039];
      (simp only: cert_arith))
lemma pw_b_3:
  "(38009694342053705831289861261449235899473785130310241398589283402176171634070::nat) ^ 27
     mod fr_order = 27201017436288532893882195229319390583825417735165273619580549526843973895870"
  by (rule pw_step2 [OF pw_b_2, where c = 2987745819748351566548416277150699477227255912261681191129808066225093028870 and s = 50567044944565598151629911132408783835439943599148644949399918963174667322659 and d = 36655017499080102855632341921034661067135326923750500217580860908482610062020];
      (simp only: cert_arith))
lemma pw_b_4:
  "(38009694342053705831289861261449235899473785130310241398589283402176171634070::nat) ^ 55
     mod fr_order = 6262020825186589200216124251315965935792653931057479593604560987027908264305"
  by (rule pw_step2 [OF pw_b_3, where c = 14110479649632207792335313830336601754278302801037633294092541372256810774586 and s = 40088657840612734002040491610740741627853530434275429800672695693356685870282 and d = 29059448822314764432188375949923141315200453854522842757969928843184416181995];
      (simp only: cert_arith))
lemma pw_b_5:
  "(38009694342053705831289861261449235899473785130310241398589283402176171634070::nat) ^ 110
     mod fr_order = 2312989189624298219401690650440714700948231472264475888489964788297064901221"
  by (rule pw_step0 [OF pw_b_4, where c = 747825886077168216786118234636423992892509734698671560335313401270780438908];
      (simp only: cert_arith))
lemma pw_b_6:
  "(38009694342053705831289861261449235899473785130310241398589283402176171634070::nat) ^ 221
     mod fr_order = 17152679535694577820194502008491537263190443956400788208325073955249910545518"
  by (rule pw_step2 [OF pw_b_5, where c = 102027838258656333067277596890313259473135988066884547223994696625639233361 and s = 49872720052941109661588983344250958253298024983706667591642754720669881152648 and d = 36151715574270322835920026792367313388769481406562489842678276026152459776834];
      (simp only: cert_arith))
lemma pw_b_7:
  "(38009694342053705831289861261449235899473785130310241398589283402176171634070::nat) ^ 442
     mod fr_order = 28106181698457631320281304313895398066312822994548019196733416807488094762467"
  by (rule pw_step0 [OF pw_b_6, where c = 5610937440666594364008795842249768019134767151526413708351668557373781723489];
      (simp only: cert_arith))
lemma pw_b_8:
  "(38009694342053705831289861261449235899473785130310241398589283402176171634070::nat) ^ 885
     mod fr_order = 31910157377890356434023654637378916346396294117390892596634041677864456976838"
  by (rule pw_step2 [OF pw_b_7, where c = 15065209592257246334018601192498868790421340373699051087865434942851300859956 and s = 44032906924008892607646565142915442297707556782474033884243082881279142864661 and d = 31918554378732183247033623427051097263631462013595126796506666519133462224264];
      (simp only: cert_arith))
lemma pw_b_9:
  "(38009694342053705831289861261449235899473785130310241398589283402176171634070::nat) ^ 1770
     mod fr_order = 4933588139711725235878153416246235010319890991728253328190448249881419277741"
  by (rule pw_step0 [OF pw_b_8, where c = 19419112210503499828581596656345408890612782096796124572139505961570264506231];
      (simp only: cert_arith))
lemma pw_b_10:
  "(38009694342053705831289861261449235899473785130310241398589283402176171634070::nat) ^ 3540
     mod fr_order = 22908719507217868510769408870262438681426384401021064171693724019625944577711"
  by (rule pw_step0 [OF pw_b_9, where c = 464191583548707788435111312461238404760575081382077447158640132548391698490];
      (simp only: cert_arith))
lemma pw_b_11:
  "(38009694342053705831289861261449235899473785130310241398589283402176171634070::nat) ^ 7080
     mod fr_order = 48487920803845085009084927111139543822436839535395845864217948353532124570842"
  by (rule pw_step0 [OF pw_b_10, where c = 10008594835265310528374060857898829062231225515303787214763628046529036035783];
      (simp only: cert_arith))
lemma pw_b_12:
  "(38009694342053705831289861261449235899473785130310241398589283402176171634070::nat) ^ 14161
     mod fr_order = 27432961410850134764673188304886457580340859547939560541586170142062212958892"
  by (rule pw_step2 [OF pw_b_11, where c = 44837212233566862851268987763427283357901377496294436483593157198332006515571 and s = 42547529399752026107680449686283558662752255852541828667867759992119718037041 and d = 30841834566370930176677519749842722126716287900217626560794980818334574359306];
      (simp only: cert_arith))
lemma pw_b_13:
  "(38009694342053705831289861261449235899473785130310241398589283402176171634070::nat) ^ 28323
     mod fr_order = 28277726226017626483146339380746899933202906316887004893065991193327047947272"
  by (rule pw_step2 [OF pw_b_12, where c = 14352146679267883740729795688225375723073298011531908943287369957977894712181 and s = 27846825511664064504960500597421700080105191688953345236292691834255492214811 and d = 20185594739476132995689921244078265004526721074640994008318614887802503494346];
      (simp only: cert_arith))
lemma pw_b_14:
  "(38009694342053705831289861261449235899473785130310241398589283402176171634070::nat) ^ 56646
     mod fr_order = 43657552158760699905178690559857165513309821649608417037905000183417119307312"
  by (rule pw_step0 [OF pw_b_13, where c = 15249670151265492130077163281128231843040122480295172723755763755785150089744];
      (simp only: cert_arith))
lemma pw_b_15:
  "(38009694342053705831289861261449235899473785130310241398589283402176171634070::nat) ^ 113293
     mod fr_order = 33384426198701219170518812616350607013571464189434013227814682355009794883713"
  by (rule pw_step2 [OF pw_b_14, where c = 36348813748779471464292428217122253499596270715096635800034482273833255080217 and s = 5506253981620965905823773209194070679519155806935086310321956800896003586023 and d = 3991370986221466164517692769403656964215989338142972093516484974478967364569];
      (simp only: cert_arith))
lemma pw_b_16:
  "(38009694342053705831289861261449235899473785130310241398589283402176171634070::nat) ^ 226587
     mod fr_order = 24488545455054315728510959649633698719082151483044957810362012047224058409267"
  by (rule pw_step2 [OF pw_b_15, where c = 21254912002407446553349236298166914564857826740247231826879937224596909386962 and s = 51027864071212643059303632509479456929003280642932776546994494165228554146863 and d = 36989055866749707799357331233980842304807064435355770328197682487787273479511];
      (simp only: cert_arith))
lemma pw_b_17:
  "(38009694342053705831289861261449235899473785130310241398589283402176171634070::nat) ^ 453174
     mod fr_order = 19193194259436985834108697375720933977719058909718722070983885253564258952624"
  by (rule pw_step0 [OF pw_b_16, where c = 11436613892710110404059777784256944042201067820157192650778887044236980611705];
      (simp only: cert_arith))
lemma pw_b_18:
  "(38009694342053705831289861261449235899473785130310241398589283402176171634070::nat) ^ 906349
     mod fr_order = 2332697808712383360824558253755304344136829872447311122056844560543882933962"
  by (rule pw_step2 [OF pw_b_17, where c = 7025318155750574612580643919621807295233682274491013599783538618097518260010 and s = 25828284565681223384944138077367502482455595712374934639318519344500957260246 and d = 18722395658360708676380005957714246761195365871416254064474957003356449843866];
      (simp only: cert_arith))

lemma pw_c_0:
  "(38009694342053705831289861261449235899473785130310241398589283402176171634070::nat) ^ 3
     mod fr_order = 36367405939276865719866598141090040382504461983628070627596973894800213368948"
  by (rule pw_init1 [where c = 27552450667623907747005893234711732402362763306982087305592609615896575350938 and s = 21000587523505953660663019333288440374163614632845588826670699885347279141706 and d = 15222896730646336699242839084753530348542094356484336926248219094261279514344];
      (simp only: cert_arith))
lemma pw_c_1:
  "(38009694342053705831289861261449235899473785130310241398589283402176171634070::nat) ^ 7
     mod fr_order = 31602497677179022069514497171665065556211733281172447153880449311579540200924"
  by (rule pw_step2 [OF pw_c_0, where c = 25222964436751528860043933349476070753022640057153062691137958062436924412114 and s = 6305700695040898436548351393257496240365352711133517191589917110503684236222 and d = 4570873571395547074179092030565434901544216453990823438002400472440018221432];
      (simp only: cert_arith))
lemma pw_c_2:
  "(38009694342053705831289861261449235899473785130310241398589283402176171634070::nat) ^ 15
     mod fr_order = 3936596697960279159713828500212669359866326959633494722173686468556876069651"
  by (rule pw_step2 [OF pw_c_1, where c = 19046461150892805773343238206743112934185456694958128860139132348316197482988 and s = 31201520229904003424890603506152654654686804839151466470238923956124083888932 and d = 22617344384644426757809606252997268400687703171758553818053931086883665358853];
      (simp only: cert_arith))
lemma pw_c_3:
  "(38009694342053705831289861261449235899473785130310241398589283402176171634070::nat) ^ 30
     mod fr_order = 36111586998432297552254010256201487713424279950729908440816774743798227788275"
  by (rule pw_step0 [OF pw_c_2, where c = 295537997804658159115753262490457077100263818547761628638819191420485296502];
      (simp only: cert_arith))
lemma pw_c_4:
  "(38009694342053705831289861261449235899473785130310241398589283402176171634070::nat) ^ 60
     mod fr_order = 47603110945122385407164358745944902130089876620531394858688617838890986436089"
  by (rule pw_step0 [OF pw_c_3, where c = 24869361123278062589044366202670004033593970537329010094358839432476401604272];
      (simp only: cert_arith))
lemma pw_c_5:
  "(38009694342053705831289861261449235899473785130310241398589283402176171634070::nat) ^ 121
     mod fr_order = 45280008080549392229606413244463434178671638666318068584689538475637646543818"
  by (rule pw_step2 [OF pw_c_4, where c = 43215759517418548127482485774954288961829396486657407007763831771210641467887 and s = 39434387527227360259969373910565354025680445294987695375058160485640170381890 and d = 28585181642720619376177202841278984430233396211641302075508361001019987878114];
      (simp only: cert_arith))
lemma pw_c_6:
  "(38009694342053705831289861261449235899473785130310241398589283402176171634070::nat) ^ 242
     mod fr_order = 3288712267582076210857121751711861918503608823043962694597123353322671410773"
  by (rule pw_step0 [OF pw_c_5, where c = 39100694418221543876735000598586560294858814949225932249812731256633434336527];
      (simp only: cert_arith))
lemma pw_c_7:
  "(38009694342053705831289861261449235899473785130310241398589283402176171634070::nat) ^ 485
     mod fr_order = 10030088706796925284447014926100572949304682559886024373722872036108270692732"
  by (rule pw_step2 [OF pw_c_6, where c = 206263905061613441416460810758701164410701481930195751638273727815606737563 and s = 26525664250513599735264471734250979670597227020107784825529664741574029495710 and d = 19227911940339549141016008502421709446996923755108763746921664845558712096536];
      (simp only: cert_arith))
lemma pw_c_8:
  "(38009694342053705831289861261449235899473785130310241398589283402176171634070::nat) ^ 971
     mod fr_order = 39760770482244226232355047447114176659388892020175248518278306670881657540642"
  by (rule pw_step2 [OF pw_c_7, where c = 1918584921682354849255597870514096795606216787285548642883866596723579229170 and s = 19271784417705222396816515595837337058424477651178615777868900027285075779614 and d = 13969722688835928589206846607415465413433627986134742428065357153890771847026];
      (simp only: cert_arith))
lemma pw_c_9:
  "(38009694342053705831289861261449235899473785130310241398589283402176171634070::nat) ^ 1943
     mod fr_order = 23670377395309195811274611261773808547254489132025476925503586468590094017328"
  by (rule pw_step2 [OF pw_c_8, where c = 30149565808937586221954269037468998815968024596162345468075237756729613497364 and s = 44174245604725258950343855335914658688452571030907026607275640394324158648432 and d = 32021007900005470097159914343037343654580480821563465622582583930057827610224];
      (simp only: cert_arith))
lemma pw_c_10:
  "(38009694342053705831289861261449235899473785130310241398589283402176171634070::nat) ^ 3887
     mod fr_order = 23921241710320986832416972391632164100587280802845644660421164562465003954364"
  by (rule pw_step2 [OF pw_c_9, where c = 10685180025414082947426454733732728756748307357849497706265366442294041593779 and s = 8800080225620930331269238731781905343760183522805850889627730642113772314957 and d = 6378998318313042361020739037856659959126544647131771303605664272959446543202];
      (simp only: cert_arith))
lemma pw_c_11:
  "(38009694342053705831289861261449235899473785130310241398589283402176171634070::nat) ^ 7774
     mod fr_order = 34835414834545627864895767934956633806814147620616155053654549078352143234045"
  by (rule pw_step0 [OF pw_c_10, where c = 10912868395015272694228151232631613356559081559813696178387062467339369502227];
      (simp only: cert_arith))
lemma pw_c_12:
  "(38009694342053705831289861261449235899473785130310241398589283402176171634070::nat) ^ 15549
     mod fr_order = 4026206833262793581952674855168612795374065736069213824063057975610286227998"
  by (rule pw_step2 [OF pw_c_11, where c = 23142669453727892490344017080980502237397704684122697816274955175581119644866 and s = 12160123217097407642147588164755198259937168903186047602132019572567467901767 and d = 8814624817453920196015868988308473373553977249499408372101730944899028444284];
      (simp only: cert_arith))
lemma pw_c_13:
  "(38009694342053705831289861261449235899473785130310241398589283402176171634070::nat) ^ 31098
     mod fr_order = 19821653281437795282556121509233768377447146144805396830877980689944310924120"
  by (rule pw_step0 [OF pw_c_12, where c = 309146007577301797877474558653474069581817331368045455393418664740219009068];
      (simp only: cert_arith))
lemma pw_c_14:
  "(38009694342053705831289861261449235899473785130310241398589283402176171634070::nat) ^ 62197
     mod fr_order = 51055967762252296146620460503881973509002724236093946035134737544485733513443"
  by (rule pw_step2 [OF pw_c_13, where c = 7492922307434114111751766326979659548619230003905123548765021863694756324278 and s = 25298798584688869886507690248814700323958742339539395189284942942625218267786 and d = 18338582091242661977705902916863629541631627562417140400812204118809617511929];
      (simp only: cert_arith))
lemma pw_c_15:
  "(38009694342053705831289861261449235899473785130310241398589283402176171634070::nat) ^ 124394
     mod fr_order = 15233242127774932280725467982309277219292926885284593029462886629052635970072"
  by (rule pw_step0 [OF pw_c_14, where c = 49712374122377228124060533259304614168846216941496731481418090554834571534129];
      (simp only: cert_arith))
lemma pw_c_16:
  "(38009694342053705831289861261449235899473785130310241398589283402176171634070::nat) ^ 248789
     mod fr_order = 42290161075361865144779272919486358380712690085694154144866643899230349343703"
  by (rule pw_step2 [OF pw_c_15, where c = 4425437068579612931630437564676524624519306217899007377858256610697597064201 and s = 17760329182925780584455598766648606904754458082400875570857985661854591766071 and d = 12874099677037397130064448985191264497550704092364876700468820637566761993059];
      (simp only: cert_arith))
lemma pw_c_17:
  "(38009694342053705831289861261449235899473785130310241398589283402176171634070::nat) ^ 497578
     mod fr_order = 4763828401676808369799519459277865131658515165616334877394075609183060503129"
  by (rule pw_step0 [OF pw_c_16, where c = 34107521192445660018362982394239703574257605931111290685459526023638338479160];
      (simp only: cert_arith))
lemma pw_c_18:
  "(38009694342053705831289861261449235899473785130310241398589283402176171634070::nat) ^ 995157
     mod fr_order = 5017253837570577931987294074410585740808874869163568133140432085905713151807"
  by (rule pw_step2 [OF pw_c_17, where c = 432796457860741710736751552734887527311268690202443746414160433581490853028 and s = 31381247477995442023741476215270576289122664687794099945709270608347586035277 and d = 22747624993904375020666103094928830916350654685726635658356399892905054407391];
      (simp only: cert_arith))
lemma pw_c_19:
  "(38009694342053705831289861261449235899473785130310241398589283402176171634070::nat) ^ 1990314
     mod fr_order = 17062031055466930835257343418180577464498534417544817804324039572244269161446"
  by (rule pw_step0 [OF pw_c_18, where c = 480068960164086954694678217794042904513346321351547191565161793559757010331];
      (simp only: cert_arith))
lemma pw_c_20:
  "(38009694342053705831289861261449235899473785130310241398589283402176171634070::nat) ^ 3980629
     mod fr_order = 13217283255809390793012558669875447118747856340097810806776464853676473224218"
  by (rule pw_step2 [OF pw_c_19, where c = 5551788785167680897013289729282800492728055835249516043015205908753748576939 and s = 39058628708865229134411476112635755058259756961808716188400828124137277065209 and d = 28312801754245886583826775457774364789211392947250759224461589758705422443724];
      (simp only: cert_arith))
lemma pw_c_21:
  "(38009694342053705831289861261449235899473785130310241398589283402176171634070::nat) ^ 7961259
     mod fr_order = 35377870925067450135210215200686079738383565370534838922869154491407609390070"
  by (rule pw_step2 [OF pw_c_20, where c = 3331623169840206078928783746960813677291656100950213100854772176387608578030 and s = 49129346362870193830378360246916989150318301951338207377880431439099513662134 and d = 35612859177821284717938666483809725650112277393062714366645065616014103453870];
      (simp only: cert_arith))
lemma pw_c_22:
  "(38009694342053705831289861261449235899473785130310241398589283402176171634070::nat) ^ 15922518
     mod fr_order = 47293344222267613218056909598402862947904616687434481726879204854735983987977"
  by (rule pw_step0 [OF pw_c_21, where c = 23869035217027266771116583314193565156867726636839031476782862480377068020571];
      (simp only: cert_arith))
lemma pw_c_23:
  "(38009694342053705831289861261449235899473785130310241398589283402176171634070::nat) ^ 31845036
     mod fr_order = 48842611293011066045009459254750113817578194928110170868743189719204679791172"
  by (rule pw_step0 [OF pw_c_22, where c = 42655155468576781675589133438467694448238086792036580428430535093632769406989];
      (simp only: cert_arith))
lemma pw_c_24:
  "(38009694342053705831289861261449235899473785130310241398589283402176171634070::nat) ^ 63690073
     mod fr_order = 8496121650906438568395324888495312017464519501099600946380189159267936429955"
  by (rule pw_step2 [OF pw_c_23, where c = 45495582365178498454755309639479224704506311648913843434821860632542405790837 and s = 42160958321854709312769391887896182882015990718668305927104335320711547426203 and d = 30561617091917002865448037156606499744043914319437975718005512327348570669135];
      (simp only: cert_arith))
lemma pw_c_25:
  "(38009694342053705831289861261449235899473785130310241398589283402176171634070::nat) ^ 127380146
     mod fr_order = 37078710622458004445266380248903468163882528307226707251888120572896411034579"
  by (rule pw_step0 [OF pw_c_24, where c = 1376616350273921623627063207703762078817187695779464336405830490076467628342];
      (simp only: cert_arith))
lemma pw_c_26:
  "(38009694342053705831289861261449235899473785130310241398589283402176171634070::nat) ^ 254760293
     mod fr_order = 28761666998065673010053528790456977021804512730051378579579583209950557046238"
  by (rule pw_step2 [OF pw_c_25, where c = 26219277867152933091454284288892412001846312442689334424483743319753387305436 and s = 15439931864357639313934692752288067153749298920281875415382705346814929794573 and d = 11192091080130559745763792184610198429679218863722698587341403993886617022144];
      (simp only: cert_arith))

lemma pw_d_0:
  "(2332697808712383360824558253755304344136829872447311122056844560543882933962::nat) ^ 3
     mod fr_order = 14678100440828595727814409020821098031592373422519655451089797809458192616816"
  by (rule pw_init1 [where c = 103773972468238865161074649482777648022109246814800045917107862920663331349 and s = 33687332884818246042130531625579405929702965388080887080561063062884226819407 and d = 1498637475570484185344284364799558188991162336872758282706561989957302701286];
      (simp only: cert_arith))
lemma pw_d_1:
  "(2332697808712383360824558253755304344136829872447311122056844560543882933962::nat) ^ 7
     mod fr_order = 8908077626737730570919406116093623084880667520092225997229199490520668272171"
  by (rule pw_step2 [OF pw_d_0, where c = 4108763929876262036556491926364782060918431229688849465505391259081998589479 and s = 12718576494267083037820668955270690189557303794887255702620253463098766439129 and d = 565807196295093628241192189721078020394843131661274793712588821410466180879];
      (simp only: cert_arith))
lemma pw_d_2:
  "(2332697808712383360824558253755304344136829872447311122056844560543882933962::nat) ^ 15
     mod fr_order = 18991470164537048826566862822005291208873608147727494277154435965280788150478"
  by (rule pw_step2 [OF pw_d_1, where c = 1513350291931965410612214681317785644099231687215598138649031383892424936366 and s = 130529547461660707347447778917903019630225993088054358923062049195603353483 and d = 5806825733700595332027130873617224362681810105502592189557487051559795936];
      (simp only: cert_arith))
lemma pw_d_3:
  "(2332697808712383360824558253755304344136829872447311122056844560543882933962::nat) ^ 30
     mod fr_order = 52023369754671487013978317146000669753773984605383826619707612599102833698255"
  by (rule pw_step0 [OF pw_d_2, where c = 6878419360903379627667384971503038350408828200275842078645498300557985030133];
      (simp only: cert_arith))
lemma pw_d_4:
  "(2332697808712383360824558253755304344136829872447311122056844560543882933962::nat) ^ 60
     mod fr_order = 44372937209509262781168285024795495456105888748499878664143573182522333827271"
  by (rule pw_step0 [OF pw_d_3, where c = 51614109454496290777786690587574212034447897476929342112014185525712868732058];
      (simp only: cert_arith))
lemma pw_d_5:
  "(2332697808712383360824558253755304344136829872447311122056844560543882933962::nat) ^ 121
     mod fr_order = 46785971854257482381988500949815797107799795504893098126920957777126462683859"
  by (rule pw_step2 [OF pw_d_4, where c = 37549817754029948847879128944209047910993610872361169489996459289500717811456 and s = 8545123717792016631810530321732468322353423785508848878681956171441382126513 and d = 380144153312907515073252076419367460079539115409554668676985368136127407319];
      (simp only: cert_arith))
lemma pw_d_6:
  "(2332697808712383360824558253755304344136829872447311122056844560543882933962::nat) ^ 242
     mod fr_order = 17704225818406962747139556580669147261427917250593647886628614534765583758895"
  by (rule pw_step0 [OF pw_d_5, where c = 41744838911084419085079905401131308164025288785427727612403945672675800404922];
      (simp only: cert_arith))
lemma pw_d_7:
  "(2332697808712383360824558253755304344136829872447311122056844560543882933962::nat) ^ 485
     mod fr_order = 35668074059213331793201972599930355726914107424421978802203214390563579696448"
  by (rule pw_step2 [OF pw_d_6, where c = 5977579486988954909772042156854654473163981943019610782553769781736098958704 and s = 42719352821578916399264403632587166029139001253534125907731451415611300269873 and d = 1900442023398887455086143728249296779549304851796269513308307820877914144106];
      (simp only: cert_arith))
lemma pw_d_8:
  "(2332697808712383360824558253755304344136829872447311122056844560543882933962::nat) ^ 971
     mod fr_order = 27315338074944189522454334395601911885191313247818329423092776569412466716139"
  by (rule pw_step2 [OF pw_d_7, where c = 24262234640779319096343974635578283964000592361602456922349783078065257232263 and s = 12082813287057553287247916962905206341409758485226565536437360481973324273785 and d = 537524204252631586283172839657926808342771061109507768772436794242883839887];
      (simp only: cert_arith))
lemma pw_d_9:
  "(2332697808712383360824558253755304344136829872447311122056844560543882933962::nat) ^ 1943
     mod fr_order = 3656560496272670410926309329724984105360080816131042254219866540830104776424"
  by (rule pw_step2 [OF pw_d_8, where c = 14229336149278834550309924306593696692059848877978581718871440454864868409948 and s = 23808745051715930689632973103569844752779486024026884159251442893621690331997 and d = 1059171935718452410877632071442852067903038478473918319303682215253859563130];
      (simp only: cert_arith))
lemma pw_d_10:
  "(2332697808712383360824558253755304344136829872447311122056844560543882933962::nat) ^ 3887
     mod fr_order = 39329259690329682796112376248999750443647935006036896134965875267344005060511"
  by (rule pw_step2 [OF pw_d_9, where c = 254986392774928274417990392625709634888966575669073585521104079477077136055 and s = 45354807635468242481008449014012133229864458107589440381952001327367466311561 and d = 2017684648772982551611699781250836686197087702074233572071473099999315308667];
      (simp only: cert_arith))
lemma pw_d_11:
  "(2332697808712383360824558253755304344136829872447311122056844560543882933962::nat) ^ 7774
     mod fr_order = 44605261560363311399619289417394242548390343007621609516821041976240625805933"
  by (rule pw_step0 [OF pw_d_10, where c = 29498709855101961695591390920353624282116597351925603296682623758997207419476];
      (simp only: cert_arith))
lemma pw_d_12:
  "(2332697808712383360824558253755304344136829872447311122056844560543882933962::nat) ^ 15549
     mod fr_order = 29321458561973623006264000973082009198408215905086551610077978956384748334"
  by (rule pw_step2 [OF pw_d_11, where c = 37944047891323035517925520957232294275069104906207859411156573218105154419816 and s = 1367343904222676054453757002974176695280549038856645906171953571227218490881 and d = 60828585743706821493179437508677359839787703079634329946628927024449048476];
      (simp only: cert_arith))
lemma pw_d_13:
  "(2332697808712383360824558253755304344136829872447311122056844560543882933962::nat) ^ 31098
     mod fr_order = 44973104648239137439877162631804692818421719313680694433660914826802307944026"
  by (rule pw_step0 [OF pw_d_12, where c = 16396177794880625685090681902472767735581218640128445048222499984952810];
      (simp only: cert_arith))
lemma pw_d_14:
  "(2332697808712383360824558253755304344136829872447311122056844560543882933962::nat) ^ 62197
     mod fr_order = 29923264670490174687166648995277882409229393663416230547437157251945637660800"
  by (rule pw_step2 [OF pw_d_13, where c = 38572449395503032800082674258078137768469912005997028149059688963767122929726 and s = 12928880237524495600241793479188247545507348902020263353055731456915210555238 and d = 575162910859256947737474306754418234827081617475986838390705186602094486012];
      (simp only: cert_arith))
lemma pw_d_15:
  "(2332697808712383360824558253755304344136829872447311122056844560543882933962::nat) ^ 124394
     mod fr_order = 16125513378863537172792899404031896467366043197662530434093687331928419159627"
  by (rule pw_step0 [OF pw_d_14, where c = 17076128996602574923882572706811928577117062825593313043031936617724736631221];
      (simp only: cert_arith))
lemma pw_d_16:
  "(2332697808712383360824558253755304344136829872447311122056844560543882933962::nat) ^ 248789
     mod fr_order = 10326218909993100322281675835943143927211859556521596719347411507904928965496"
  by (rule pw_step2 [OF pw_d_15, where c = 4959051047845529667369695866471779635298417223169334300830348277941280161405 and s = 44169841736569122092312961312415766874602648739553757620686511990412180458364 and d = 1964969454327785126188980098254902630207052572906907860538338678633705755744];
      (simp only: cert_arith))
lemma pw_d_17:
  "(2332697808712383360824558253755304344136829872447311122056844560543882933962::nat) ^ 497578
     mod fr_order = 34038243700211324412945916104536181485824726815327827270437926078933731492807"
  by (rule pw_step0 [OF pw_d_16, where c = 2033546624729191977511232740718029106178133796818444346649739381454748009593];
      (simp only: cert_arith))
lemma pw_d_18:
  "(2332697808712383360824558253755304344136829872447311122056844560543882933962::nat) ^ 995157
     mod fr_order = 37100661584377354233725204103732835761771396613378486455115843417130371701437"
  by (rule pw_step2 [OF pw_d_17, where c = 22095598296499447328859230180433614502795883115137234690116910524365113289520 and s = 42518890893331652154891304122571777569713132515715030562066429500469183535489 and d = 1891524138473902468891837885253720208288471226592814893540518736430155873037];
      (simp only: cert_arith))
lemma pw_d_19:
  "(2332697808712383360824558253755304344136829872447311122056844560543882933962::nat) ^ 1990314
     mod fr_order = 11424499286248338586478712163920019795606572782249604772546820425279554983346"
  by (rule pw_step0 [OF pw_d_18, where c = 26250331197894057665493613816981419683518265474760558062581271097446033152471];
      (simp only: cert_arith))
lemma pw_d_20:
  "(2332697808712383360824558253755304344136829872447311122056844560543882933962::nat) ^ 3980629
     mod fr_order = 27896248472841575192835826906952305448072137461695336500551337950384923032887"
  by (rule pw_step2 [OF pw_d_19, where c = 2489119968067257391050361410154733871668485620231726815871639026695284371162 and s = 31012167039026752522928039011222161323964563898709900577301801578976039141610 and d = 1379628238372127292265554397937817475630537150385171574735546377996491839341];
      (simp only: cert_arith))
lemma pw_d_21:
  "(2332697808712383360824558253755304344136829872447311122056844560543882933962::nat) ^ 7961259
     mod fr_order = 1584809013728585626913257065917027150516132747581751669976867893066891959500"
  by (rule pw_step2 [OF pw_d_20, where c = 14840997242049810482669997164422017975352878689414240520729506431553970067035 and s = 521063362002905539506116520598132094615999678585208748500192276470169725814 and d = 23180377149899643450679249569763752166267921764416887322125280273414918736];
      (simp only: cert_arith))
lemma pw_d_22:
  "(2332697808712383360824558253755304344136829872447311122056844560543882933962::nat) ^ 15922518
     mod fr_order = 38732889494886220483615063704493289822258435826814497976834658704397969286642"
  by (rule pw_step0 [OF pw_d_21, where c = 47898878422588050636964541358034864104551384287851072443413156454633233566];
      (simp only: cert_arith))
lemma pw_d_23:
  "(2332697808712383360824558253755304344136829872447311122056844560543882933962::nat) ^ 31845036
     mod fr_order = 13511674561932375788565720700782637968659731921661511414044894302216956872460"
  by (rule pw_step0 [OF pw_d_22, where c = 28610883743478148498703594196916302675349812613086781496657896266059674145208];
      (simp only: cert_arith))
lemma pw_d_24:
  "(2332697808712383360824558253755304344136829872447311122056844560543882933962::nat) ^ 63690073
     mod fr_order = 50261121256134074572595696916826368056330601252106721461369769494299040835461"
  by (rule pw_step2 [OF pw_d_23, where c = 3481687849355726965039318217801984278498290582035353027661676346217395818167 and s = 45006249862339887414172181430559659019351706676584292948770691593269082003929 and d = 2002178471926107311238129574512830807341901652959212994003353975775952077749];
      (simp only: cert_arith))
lemma pw_d_25:
  "(2332697808712383360824558253755304344136829872447311122056844560543882933962::nat) ^ 127380146
     mod fr_order = 24358477215405707943338126798827012346960320219049681811577681821006421976096"
  by (rule pw_step0 [OF pw_d_24, where c = 48176564260381548413719461546303857586808170645949120663896173049856915007225];
      (simp only: cert_arith))
lemma pw_d_26:
  "(2332697808712383360824558253755304344136829872447311122056844560543882933962::nat) ^ 254760293
     mod fr_order = 52435875175126190479447740508185965837690552500527637822603658699938581184512"
  by (rule pw_step2 [OF pw_d_25, where c = 11315447873651535936633008454312978145560276720458853286239591975143902833778 and s = 49869562883275022509286912594686748972631464097692184917938433229845008521102 and d = 2218531104339102778682230167933362871476790191397377053816077293383052954124];
      (simp only: cert_arith))

lemma pw_e_b:
  "(7::nat) ^ 102912181795783596620859084402501385562644474781883764403198536712192
     mod fr_order = 2332697808712383360824558253755304344136829872447311122056844560543882933962"
  by (rule pw_comp [OF pw_a_205 pw_b_18]) (simp only: cert_arith)

lemma pw_e_c:
  "(7::nat) ^ 28926978004679318054881585629920684988724295222109605583833412239622144
     mod fr_order = 28761666998065673010053528790456977021804512730051378579579583209950557046238"
  by (rule pw_comp [OF pw_a_205 pw_c_26]) (simp only: cert_arith)

lemma pw_half:
  "(7::nat) ^ 26217937587563095239723870254092982918845276250263818911301829349969290592256
     mod fr_order = 52435875175126190479447740508185965837690552500527637822603658699938581184512"
  by (rule pw_comp [OF pw_e_b pw_d_26]) (simp only: cert_arith)

lemma sq_b:
  "(2332697808712383360824558253755304344136829872447311122056844560543882933962::nat) ^ 2
     mod fr_order = 33687332884818246042130531625579405929702965388080887080561063062884226819407"
  by (rule pw_init0 [where c = 103773972468238865161074649482777648022109246814800045917107862920663331349];
      (simp only: cert_arith))

lemma sq_c:
  "(28761666998065673010053528790456977021804512730051378579579583209950557046238::nat) ^ 2
     mod fr_order = 47009375709878424687795209168006564057444627941356163587161684439552631655798"
  by (rule pw_init0 [where c = 15776097676348724528869147169449741483257902057357877877362520871617637392142];
      (simp only: cert_arith))

lemma sq_d:
  "(52435875175126190479447740508185965837690552500527637822603658699938581184512::nat) ^ 2
     mod fr_order = 1"
  by (rule pw_init0 [where c = 52435875175126190479447740508185965837690552500527637822603658699938581184511];
      (simp only: cert_arith))

lemma pw_q2:
  "(7::nat) ^ 205824363591567193241718168805002771125288949563767528806397073424384
     mod fr_order = 33687332884818246042130531625579405929702965388080887080561063062884226819407"
  by (rule pw_comp [OF pw_e_b sq_b]) (simp only: cert_arith)

lemma pw_q1:
  "(7::nat) ^ 57853956009358636109763171259841369977448590444219211167666824479244288
     mod fr_order = 47009375709878424687795209168006564057444627941356163587161684439552631655798"
  by (rule pw_comp [OF pw_e_c sq_c]) (simp only: cert_arith)

lemma pw_full:
  "(7::nat) ^ 52435875175126190479447740508185965837690552500527637822603658699938581184512
     mod fr_order = 1"
  by (rule pw_comp [OF pw_half sq_d]) (simp only: cert_arith)

text \<open>Each of the three powers, less one, is invertible modulo \<open>fr_order\<close>.\<close>

lemma inv_2:
  "((52435875175126190479447740508185965837690552500527637822603658699938581184512 + 52435875175126190479447740508185965837690552500527637822603658699938581184512) * 26217937587563095239723870254092982918845276250263818911301829349969290592256)
     mod fr_order = (1::nat)"
  by (rule mod_eq_oneI [where c = 52435875175126190479447740508185965837690552500527637822603658699938581184511];
      (simp only: cert_arith))

lemma inv_q1:
  "((47009375709878424687795209168006564057444627941356163587161684439552631655798 + 52435875175126190479447740508185965837690552500527637822603658699938581184512) * 29151262252276627170863686650079642517799996839957025940997617530301678876505)
     mod fr_order = (1::nat)"
  by (rule mod_eq_oneI [where c = 55285709995499037823160422919876043697933719400328977705216401301941542176773];
      (simp only: cert_arith))

lemma inv_q2:
  "((33687332884818246042130531625579405929702965388080887080561063062884226819407 + 52435875175126190479447740508185965837690552500527637822603658699938581184512) * 24675323886831622127612097416448099851529718468688737594381699456767149257066)
     mod fr_order = (1::nat)"
  by (rule mod_eq_oneI [where c = 40527940955588377848736573619051136827096640671120105076571181921372155449781];
      (simp only: cert_arith))

text \<open>
  The factored part is \<open>F = 2 ^ 32 * 906349\<^sup>2 * 254760293\<^sup>2\<close>, whose square exceeds the
  modulus.
\<close>

lemma fr_order_prime: "is_prime fr_order"
proof (rule pocklington [where e = 52435875175126190479447740508185965837690552500527637822603658699938581184512 and F = 228988810152649578064853576960394133504 and m = 228988810152649578064853576960394133503
      and a = 7 and qs = "[2, 906349, 254760293]"])
  show "(7::nat) ^ 52435875175126190479447740508185965837690552500527637822603658699938581184512 mod fr_order = 1"
    by (rule pw_full)
  show "\<exists>k u. q * k = 52435875175126190479447740508185965837690552500527637822603658699938581184512 \<and> (((7::nat) ^ k mod fr_order + 52435875175126190479447740508185965837690552500527637822603658699938581184512) * u) mod fr_order = 1"
    if "q \<in> set [2, 906349, 254760293]" for q :: nat
  proof -
    from that consider "q = 2" | "q = 906349" | "q = 254760293" by auto
    then show ?thesis
    proof cases
      case 1
      then have "q * 26217937587563095239723870254092982918845276250263818911301829349969290592256 = 52435875175126190479447740508185965837690552500527637822603658699938581184512"
        by (simp only: cert_arith)
      moreover have "(((7::nat) ^ 26217937587563095239723870254092982918845276250263818911301829349969290592256 mod fr_order + 52435875175126190479447740508185965837690552500527637822603658699938581184512) * 26217937587563095239723870254092982918845276250263818911301829349969290592256) mod fr_order = 1"
        using inv_2 by (simp only: pw_half)
      ultimately show ?thesis by blast
    next
      case 2
      then have "q * 57853956009358636109763171259841369977448590444219211167666824479244288 = 52435875175126190479447740508185965837690552500527637822603658699938581184512"
        by (simp only: cert_arith)
      moreover have "(((7::nat) ^ 57853956009358636109763171259841369977448590444219211167666824479244288 mod fr_order + 52435875175126190479447740508185965837690552500527637822603658699938581184512) * 29151262252276627170863686650079642517799996839957025940997617530301678876505) mod fr_order = 1"
        using inv_q1 by (simp only: pw_q1)
      ultimately show ?thesis by blast
    next
      case 3
      then have "q * 205824363591567193241718168805002771125288949563767528806397073424384 = 52435875175126190479447740508185965837690552500527637822603658699938581184512"
        by (simp only: cert_arith)
      moreover have "(((7::nat) ^ 205824363591567193241718168805002771125288949563767528806397073424384 mod fr_order + 52435875175126190479447740508185965837690552500527637822603658699938581184512) * 24675323886831622127612097416448099851529718468688737594381699456767149257066) mod fr_order = 1"
        using inv_q2 by (simp only: pw_q2)
      ultimately show ?thesis by blast
    qed
  qed
  show "p \<in> set [2, 906349, 254760293]" if p: "is_prime p" "p dvd 228988810152649578064853576960394133504" for p
  proof -
    have F: "2 ^ 32 * (906349 ^ 2 * 254760293 ^ 2) = (228988810152649578064853576960394133504::nat)"
      by simp
    from p(2) have "p dvd 2 ^ 32 * (906349 ^ 2 * 254760293 ^ 2)"
      unfolding F .
    with p(1) have "p dvd 2 ^ 32 \<or> p dvd 906349 ^ 2 \<or> p dvd 254760293 ^ 2"
      by (blast dest: prime_dvd_mult)
    with p(1) have "p dvd 2 \<or> p dvd 906349 \<or> p dvd 254760293"
      by (blast dest: prime_dvd_power)
    then show ?thesis
      using p(1) prime_2 prime_906349 prime_254760293 by (auto dest: prime_dvd_prime)
  qed
qed (simp_all add: fr_order_def)


text \<open>
  The constant that \<^verbatim>\<open>NewDomain\<close> parses as its root of unity, squared 32 times.
\<close>

lemma pw_r_0:
  "(10238227357739495823651030575849232062558860180284477541189508159991286009131::nat) ^ 2
     mod fr_order = 34070893824967080313820779135880760772780807222436853681508667398599787661631"
  by (rule pw_init0 [where c = 1999037854878584061859095318596813587156137983601477440199984501868360866810];
      (simp only: cert_arith))
lemma pw_r_1:
  "(10238227357739495823651030575849232062558860180284477541189508159991286009131::nat) ^ 4
     mod fr_order = 20094891866007995289136270587723853997043774683345353712639419774914899074390"
  by (rule pw_step0 [OF pw_r_0, where c = 22138007655164235914936248628922642736555220861189560372994334027390334541867];
      (simp only: cert_arith))
lemma pw_r_2:
  "(10238227357739495823651030575849232062558860180284477541189508159991286009131::nat) ^ 8
     mod fr_order = 5660829372603820951332104046316074966592589311213397907344198301300676239643"
  by (rule pw_step0 [OF pw_r_1, where c = 7700923799935079611851968379423458973867395981278492453720760567212963231689];
      (simp only: cert_arith))
lemma pw_r_3:
  "(10238227357739495823651030575849232062558860180284477541189508159991286009131::nat) ^ 16
     mod fr_order = 37480612446576615530266821837655054090426372233228960378061628060638903214217"
  by (rule pw_step0 [OF pw_r_2, where c = 611127192570159113481224239827055420264661300226572948296040534025811318864];
      (simp only: cert_arith))
lemma pw_r_4:
  "(10238227357739495823651030575849232062558860180284477541189508159991286009131::nat) ^ 32
     mod fr_order = 15932505959375582308231798849995567447410469395474322018100309999481287547373"
  by (rule pw_step0 [OF pw_r_3, where c = 26790747835879773166057590551035311936174714957676009866271149264086550540132];
      (simp only: cert_arith))
lemma pw_r_5:
  "(10238227357739495823651030575849232062558860180284477541189508159991286009131::nat) ^ 64
     mod fr_order = 4541622677469846713471916119560591929733417256448031920623614406126544048514"
  by (rule pw_step0 [OF pw_r_4, where c = 4841051003682948443550061625669759918674401131011351450929904825252569338855];
      (simp only: cert_arith))
lemma pw_r_6:
  "(10238227357739495823651030575849232062558860180284477541189508159991286009131::nat) ^ 128
     mod fr_order = 734830308204920577628633053915970695663549910788964686411700880930222744862"
  by (rule pw_step0 [OF pw_r_5, where c = 393363064421451999399385094226024809705905383518968740798956187622940991718];
      (simp only: cert_arith))
lemma pw_r_7:
  "(10238227357739495823651030575849232062558860180284477541189508159991286009131::nat) ^ 256
     mod fr_order = 18596002123094854211120822350746157678791770803088570110573239418060655130524"
  by (rule pw_step0 [OF pw_r_6, where c = 10297827204239832326563091577768312573785659251723934714267744778636376040];
      (simp only: cert_arith))
lemma pw_r_8:
  "(10238227357739495823651030575849232062558860180284477541189508159991286009131::nat) ^ 512
     mod fr_order = 52167942466760591552294394977846462646742207006759917080697723404762651336366"
  by (rule pw_step0 [OF pw_r_7, where c = 6594937031320677429426648028937915953712091880433267689467620196907330947170];
      (simp only: cert_arith))
lemma pw_r_9:
  "(10238227357739495823651030575849232062558860180284477541189508159991286009131::nat) ^ 1024
     mod fr_order = 4859563557044021881916617240989566298388494151979623102977292742331120628579"
  by (rule pw_step0 [OF pw_r_8, where c = 51901378819862401466244632268085255339781881969625407329084111474059852450529];
      (simp only: cert_arith))
lemma pw_r_10:
  "(10238227357739495823651030575849232062558860180284477541189508159991286009131::nat) ^ 2048
     mod fr_order = 32468834368094611004052562760214251466632493208153926274007662173556188291130"
  by (rule pw_step0 [OF pw_r_9, where c = 450366431113801173611814718257983503191319425918503130557571298975614892047];
      (simp only: cert_arith))
lemma pw_r_11:
  "(10238227357739495823651030575849232062558860180284477541189508159991286009131::nat) ^ 4096
     mod fr_order = 1755840822790712607783180844474754741366353396308200820563736496551326485835"
  by (rule pw_step0 [OF pw_r_10, where c = 20105036898914021286159760390279337821151393655333343373163375151889794924505];
      (simp only: cert_arith))
lemma pw_r_12:
  "(10238227357739495823651030575849232062558860180284477541189508159991286009131::nat) ^ 8192
     mod fr_order = 37115000097562964541269718788523040559386243094666416358585267518228781043101"
  by (rule pw_step0 [OF pw_r_11, where c = 58795185255930025438735887332421529447431437630296195048966566166580307548];
      (simp only: cert_arith))
lemma pw_r_13:
  "(10238227357739495823651030575849232062558860180284477541189508159991286009131::nat) ^ 16384
     mod fr_order = 20439484849038267462774237595151440867617792718791690563928621375157525968123"
  by (rule pw_step0 [OF pw_r_12, where c = 26270625361766621159616984964205542283657867528872536026759214350607932317006];
      (simp only: cert_arith))
lemma pw_r_14:
  "(10238227357739495823651030575849232062558860180284477541189508159991286009131::nat) ^ 32768
     mod fr_order = 15495926509001846844474268026226183818445427694968626800913907911890390421264"
  by (rule pw_step0 [OF pw_r_13, where c = 7967303673272951897130852229983196343839662640180429284010162959920125796105];
      (simp only: cert_arith))
lemma pw_r_15:
  "(10238227357739495823651030575849232062558860180284477541189508159991286009131::nat) ^ 65536
     mod fr_order = 15076889834420168339092859836519192632846122361203618639585008852351569017005"
  by (rule pw_step0 [OF pw_r_14, where c = 4579378861712844296001801815294848970190381958840232212712866255551125530707];
      (simp only: cert_arith))
lemma pw_r_16:
  "(10238227357739495823651030575849232062558860180284477541189508159991286009131::nat) ^ 131072
     mod fr_order = 22872204467218851938836547481240843888453165451755431061227190987689039608686"
  by (rule pw_step0 [OF pw_r_15, where c = 4335058894698712691340064495220856438674661451508848436211466216197618100603];
      (simp only: cert_arith))
lemma pw_r_17:
  "(10238227357739495823651030575849232062558860180284477541189508159991286009131::nat) ^ 262144
     mod fr_order = 39072540533732477250409069030641316533649120504872707460480262653418090977761"
  by (rule pw_step0 [OF pw_r_16, where c = 9976714137850890563205274572188285238279056392279547395875465313585119037795];
      (simp only: cert_arith))
lemma pw_r_18:
  "(10238227357739495823651030575849232062558860180284477541189508159991286009131::nat) ^ 524288
     mod fr_order = 32731401973776920074999878620293785439674386180695720638377027142500196583783"
  by (rule pw_step0 [OF pw_r_17, where c = 29114864940489541460883177064809289574735398339600002721295325613918887784026];
      (simp only: cert_arith))
lemma pw_r_19:
  "(10238227357739495823651030575849232062558860180284477541189508159991286009131::nat) ^ 1048576
     mod fr_order = 39033254847818212395286706435128746857159659164139250548781411570340225835782"
  by (rule pw_step0 [OF pw_r_18, where c = 20431520816442430931035927235261387184316552112659923022821925333929494316139];
      (simp only: cert_arith))
lemma pw_r_20:
  "(10238227357739495823651030575849232062558860180284477541189508159991286009131::nat) ^ 2097152
     mod fr_order = 49307615728544765012166121802278658070711169839041683575071795236746050763237"
  by (rule pw_step0 [OF pw_r_19, where c = 29056346993850996498408613211046595192243508027277179240039304581442059905599];
      (simp only: cert_arith))
lemma pw_r_21:
  "(10238227357739495823651030575849232062558860180284477541189508159991286009131::nat) ^ 4194304
     mod fr_order = 22781213702924172180523978385542388841346373992886390990881355510284839737428"
  by (rule pw_step0 [OF pw_r_20, where c = 46365984370699199490387537932779246691790987783203796165207256631841590439557];
      (simp only: cert_arith))
lemma pw_r_22:
  "(10238227357739495823651030575849232062558860180284477541189508159991286009131::nat) ^ 8388608
     mod fr_order = 4214636447306890335450803789410475782380792963881561516561680164772024173390"
  by (rule pw_step0 [OF pw_r_21, where c = 9897492814699666225703588144736490092861041638969691344979563153664421763138];
      (simp only: cert_arith))
lemma pw_r_23:
  "(10238227357739495823651030575849232062558860180284477541189508159991286009131::nat) ^ 16777216
     mod fr_order = 36007022166693598376559747923784822035233416720563672082740011604939309541707"
  by (rule pw_step0 [OF pw_r_22, where c = 338759681680566094384661421608725582014079238341167629848615681613431472761];
      (simp only: cert_arith))
lemma pw_r_24:
  "(10238227357739495823651030575849232062558860180284477541189508159991286009131::nat) ^ 33554432
     mod fr_order = 47309214877430199588914062438791732591241783999377560080318349803002842391998"
  by (rule pw_step0 [OF pw_r_23, where c = 24725546030893419283650058338437031747284857013340151260074394014359783700027];
      (simp only: cert_arith))
lemma pw_r_25:
  "(10238227357739495823651030575849232062558860180284477541189508159991286009131::nat) ^ 67108864
     mod fr_order = 31519469946562159605140591558550197856588417350474800936898404023113662197331"
  by (rule pw_step0 [OF pw_r_24, where c = 42683788624559304820678447170489061067855387984546907739320709598449179462321];
      (simp only: cert_arith))
lemma pw_r_26:
  "(10238227357739495823651030575849232062558860180284477541189508159991286009131::nat) ^ 134217728
     mod fr_order = 36581797046584068049060372878520385032448812009597153775348195406694427778894"
  by (rule pw_step0 [OF pw_r_25, where c = 18946512905414557504371570029177993596326186137134313470805608426261485096859];
      (simp only: cert_arith))
lemma pw_r_27:
  "(10238227357739495823651030575849232062558860180284477541189508159991286009131::nat) ^ 268435456
     mod fr_order = 14788168760825820622209131888203028446852016562542525606630160374691593895118"
  by (rule pw_step0 [OF pw_r_26, where c = 25521227035651289821428581224593977611479455108593087890288738081119609700086];
      (simp only: cert_arith))
lemma pw_r_28:
  "(10238227357739495823651030575849232062558860180284477541189508159991286009131::nat) ^ 536870912
     mod fr_order = 23674694431658770659612952115660802947967373701506253797663184111817857449850"
  by (rule pw_step0 [OF pw_r_27, where c = 4170616673570918327606325064043322261829970076819436991364757318224184538698];
      (simp only: cert_arith))
lemma pw_r_29:
  "(10238227357739495823651030575849232062558860180284477541189508159991286009131::nat) ^ 1073741824
     mod fr_order = 3465144826073652318776269530687742778270252468765361963008"
  by (rule pw_step0 [OF pw_r_28, where c = 10689077936822400752933022887068862718368496949774884062459812111304843150884];
      (simp only: cert_arith))
lemma pw_r_30:
  "(10238227357739495823651030575849232062558860180284477541189508159991286009131::nat) ^ 2147483648
     mod fr_order = 52435875175126190479447740508185965837690552500527637822603658699938581184512"
  by (rule pw_step0 [OF pw_r_29, where c = 228988810152649578064853576960394133504];
      (simp only: cert_arith))
lemma pw_r_31:
  "(10238227357739495823651030575849232062558860180284477541189508159991286009131::nat) ^ 4294967296
     mod fr_order = 1"
  by (rule pw_step0 [OF pw_r_30, where c = 52435875175126190479447740508185965837690552500527637822603658699938581184511];
      (simp only: cert_arith))


subsection \<open>The type of field elements\<close>

definition fr_modulus :: int where
  "fr_modulus = int fr_order"

lemma fr_modulus_gt1: "1 < fr_modulus"
  by (simp add: fr_modulus_def fr_order_def)

typedef fr = "{0 ..< fr_modulus}"
  using fr_modulus_gt1 by (intro exI [of _ 0]) simp

setup_lifting type_definition_fr

instantiation fr :: comm_ring_1
begin

lift_definition zero_fr :: fr is 0
  using fr_modulus_gt1 by simp

lift_definition one_fr :: fr is 1
  using fr_modulus_gt1 by simp

lift_definition plus_fr :: "fr \<Rightarrow> fr \<Rightarrow> fr" is "\<lambda>x y. (x + y) mod fr_modulus"
  using fr_modulus_gt1 by simp

lift_definition minus_fr :: "fr \<Rightarrow> fr \<Rightarrow> fr" is "\<lambda>x y. (x - y) mod fr_modulus"
  using fr_modulus_gt1 by simp

lift_definition uminus_fr :: "fr \<Rightarrow> fr" is "\<lambda>x. (- x) mod fr_modulus"
  using fr_modulus_gt1 by simp

lift_definition times_fr :: "fr \<Rightarrow> fr \<Rightarrow> fr" is "\<lambda>x y. (x * y) mod fr_modulus"
  using fr_modulus_gt1 by simp

instance
proof
  fix a b c :: fr
  show "a * b * c = a * (b * c)"
    by transfer (simp add: mod_simps mult.assoc)
  show "a * b = b * a"
    by transfer (simp add: mult.commute)
  show "1 * a = a"
    by transfer simp
  show "a + b + c = a + (b + c)"
    by transfer (simp add: mod_simps add.assoc)
  show "a + b = b + a"
    by transfer (simp add: add.commute)
  show "0 + a = a"
    by transfer simp
  show "- a + a = 0"
    by transfer (simp add: mod_simps)
  show "a - b = a + - b"
    by transfer (simp add: mod_simps)
  show "(a + b) * c = a * c + b * c"
    by transfer (simp add: mod_simps distrib_right)
  show "(0::fr) \<noteq> 1"
    by transfer simp
qed

end

text \<open>
  \<^verbatim>\<open>Inverse\<close> of gnark-crypto returns the modular inverse and maps zero to zero.  It is
  modelled by the extended Euclidean algorithm on the representative (\<open>bezw\<close>).
\<close>

lift_definition fr_inverse :: "fr \<Rightarrow> fr" is "\<lambda>x. fst (bezw (nat x) fr_order) mod fr_modulus"
  using fr_modulus_gt1 by simp

instantiation fr :: field
begin

definition inverse_fr :: "fr \<Rightarrow> fr" where
  "inverse_fr = fr_inverse"

definition divide_fr :: "fr \<Rightarrow> fr \<Rightarrow> fr" where
  "divide_fr x y = x * fr_inverse y"

instance
proof
  fix a b :: fr
  show "a \<noteq> 0 \<Longrightarrow> inverse a * a = 1"
    unfolding inverse_fr_def
  proof transfer
    fix a :: int
    assume a: "a \<in> {0..<fr_modulus}" "a \<noteq> 0"
    define n where "n = nat a"
    from a have n: "0 < n" "n < fr_order" "a = int n"
      by (simp_all add: n_def fr_modulus_def nat_less_iff)
    have "gcd n fr_order dvd fr_order" by simp
    with fr_order_prime have "gcd n fr_order = 1 \<or> gcd n fr_order = fr_order"
      by (simp add: is_prime_def)
    moreover have "gcd n fr_order \<noteq> fr_order"
    proof
      assume "gcd n fr_order = fr_order"
      then have "fr_order dvd n" by (metis gcd_dvd1)
      with n show False by (auto dest: dvd_imp_le)
    qed
    ultimately have "gcd n fr_order = 1" by simp
    with bezw_aux [of n fr_order]
    have "fst (bezw n fr_order) * int n = 1 - snd (bezw n fr_order) * fr_modulus"
      by (simp add: fr_modulus_def)
    then have "fst (bezw n fr_order) * int n mod fr_modulus = 1 mod fr_modulus"
      by (simp add: mod_diff_right_eq [symmetric, of 1] del: mod_diff_right_eq)
    with fr_modulus_gt1 show "fst (bezw (nat a) fr_order) mod fr_modulus * a mod fr_modulus = 1"
      by (simp add: n_def [symmetric] n(3) mod_mult_left_eq)
  qed
  show "a div b = a * inverse b"
    by (simp add: divide_fr_def inverse_fr_def)
  show "inverse (0::fr) = 0"
    unfolding inverse_fr_def
    by transfer (simp add: bezw.simps [of 0] bezw.simps [of _ 0] fr_order_def)
qed

end

lemma Rep_fr_of_nat: "Rep_fr (of_nat n) = int n mod fr_modulus"
proof (induction n)
  case 0
  show ?case by (simp add: zero_fr.rep_eq)
next
  case (Suc n)
  then show ?case
    by (simp add: plus_fr.rep_eq one_fr.rep_eq mod_simps add.commute)
qed

lemma of_nat_fr_eq_iff:
  "(of_nat m :: fr) = of_nat n \<longleftrightarrow> int m mod fr_modulus = int n mod fr_modulus"
  by (simp add: Rep_fr_inject [symmetric] Rep_fr_of_nat)

lemma of_int_Rep_fr [simp]: "of_int (Rep_fr x) = x"
proof -
  have "0 \<le> Rep_fr x" "Rep_fr x < fr_modulus"
    using Rep_fr [of x] by simp_all
  then have "Rep_fr x = int (nat (Rep_fr x))" by simp
  then have "Rep_fr (of_int (Rep_fr x)) = Rep_fr x"
    using \<open>Rep_fr x < fr_modulus\<close>
    by (metis Rep_fr_of_nat of_int_of_nat_eq mod_pos_pos_trivial \<open>0 \<le> Rep_fr x\<close>)
  then show ?thesis by (simp add: Rep_fr_inject)
qed

section \<open>Go values and the operations of the field package\<close>

text \<open>
  A \<^verbatim>\<open>uint64\<close> is modelled by a natural number below \<open>2 ^ 64\<close>, an \<^verbatim>\<open>int\<close> by an
  integer, a slice by a list.  The conversions \<^verbatim>\<open>int(x)\<close> and \<^verbatim>\<open>int64(x)\<close> of a
  \<^verbatim>\<open>uint64\<close> reinterpret the 64 bits in two's complement.  Indexing a slice out of
  range panics; a panic is the left summand of the result.
\<close>

datatype panic =
    IndexOutOfRange
  | NextPowerOfTwoOverflow
  | RootOfUnityDoesNotExist

text \<open>
  Modelled from the spec: the declarations of \<open>ErrInvalidNumDigests\<close> and
  \<open>ErrVerifyOpeningProof\<close> are in a file of the package that is not part of the
  sources at hand; they are distinct error values (\<^verbatim>\<open>LengthMismatch\<close> and
  \<^verbatim>\<open>VerificationFailed\<close> of the specification).  \<open>DomainSizeMismatch\<close> is the error
  that \<^verbatim>\<open>evaluateLagrangePolynomial\<close> creates.  The remaining three are the errors that
  the random source, \<^verbatim>\<open>MultiExp\<close> and the pairing check of gnark-crypto can return.
\<close>

datatype error =
    DomainSizeMismatch
  | ErrInvalidNumDigests
  | ErrVerifyOpeningProof
  | ErrRandomSource
  | ErrMultiExpSize
  | ErrPairingSize

definition uint64_to_int :: "nat \<Rightarrow> int" where
  "uint64_to_int c = (if c < 2 ^ 63 then int c else int c - 2 ^ 64)"

definition go_index :: "'a list \<Rightarrow> nat \<Rightarrow> panic + 'a" where
  "go_index xs i = (if i < length xs then Inr (xs ! i) else Inl IndexOutOfRange)"

text \<open>
  \<^verbatim>\<open>Exp\<close> of gnark-crypto raises to an integer power; for a negative exponent it inverts
  the base first.
\<close>

definition fr_Exp :: "fr \<Rightarrow> int \<Rightarrow> fr" where
  "fr_Exp x k = (if k < 0 then inverse x ^ nat (- k) else x ^ nat k)"

text \<open>
  \<^verbatim>\<open>BatchInvert\<close> of gnark-crypto inverts all entries with a single inversion.  Its
  forward pass stores, for every nonzero entry, the product of the nonzero entries before
  it; the product of all of them is inverted; the backward pass, from the last entry to
  the first, multiplies the stored value by the accumulator and the accumulator by the
  entry.  Zero entries are skipped and stay zero.
\<close>

fun prefix_products :: "fr \<Rightarrow> fr list \<Rightarrow> fr list \<times> fr" where
  "prefix_products accumulator [] = ([], accumulator)"
| "prefix_products accumulator (x # xs) =
     (if x = 0 then
        (case prefix_products accumulator xs of (res, final) \<Rightarrow> (0 # res, final))
      else
        (case prefix_products (accumulator * x) xs of
           (res, final) \<Rightarrow> (accumulator # res, final)))"

fun unwind :: "(fr \<times> fr) list \<Rightarrow> fr \<Rightarrow> fr list \<times> fr" where
  "unwind [] accumulator = ([], accumulator)"
| "unwind ((x, p) # xs) accumulator =
     (case unwind xs accumulator of
        (res, accumulator) \<Rightarrow>
          if x = 0 then (0 # res, accumulator)
          else (p * accumulator # res, accumulator * x))"

definition BatchInvert :: "fr list \<Rightarrow> fr list" where
  "BatchInvert a =
     (case prefix_products 1 a of
        (res, accumulator) \<Rightarrow> fst (unwind (zip a res) (inverse accumulator)))"

section \<open>The evaluation domain (internal/kzg/domain.go)\<close>

record Domain =
  Cardinality :: nat
  CardinalityInv :: fr
  Generator :: fr
  GeneratorInv :: fr
  Roots :: "fr list"
  PreComputedInverses :: "fr list"

text \<open>
  \<^verbatim>\<open>ecc.NextPowerOfTwo\<close> (gnark-crypto) returns the least power of two that is at least
  its argument, 1 for 0, and panics when that power does not fit into 64 bits.
  \<^verbatim>\<open>bits.TrailingZeros64\<close> counts the trailing zero bits, 64 for 0.
\<close>

definition NextPowerOfTwo :: "nat \<Rightarrow> panic + nat" where
  "NextPowerOfTwo n =
     (case find (\<lambda>k. n \<le> 2 ^ k) [0..<64] of
        None \<Rightarrow> Inl NextPowerOfTwoOverflow
      | Some k \<Rightarrow> Inr (2 ^ k))"

definition TrailingZeros64 :: "nat \<Rightarrow> nat" where
  "TrailingZeros64 x =
     (case find (\<lambda>k. odd (x div 2 ^ k)) [0..<64] of
        None \<Rightarrow> 64
      | Some k \<Rightarrow> k)"

definition rootOfUnity :: fr where
  "rootOfUnity = 10238227357739495823651030575849232062558860180284477541189508159991286009131"

definition maxOrderRoot :: nat where
  "maxOrderRoot = 32"

text \<open>
  The loop that fills \<^verbatim>\<open>Roots\<close>: \<open>n\<close> iterations remain, \<open>current\<close> is the value to
  store next.
\<close>

fun roots_loop :: "nat \<Rightarrow> fr \<Rightarrow> fr \<Rightarrow> fr list" where
  "roots_loop 0 generator current = []"
| "roots_loop (Suc n) generator current = current # roots_loop n generator (current * generator)"

definition NewDomain :: "nat \<Rightarrow> panic + Domain" where
  "NewDomain m =
     (case NextPowerOfTwo m of
        Inl p \<Rightarrow> Inl p
      | Inr x \<Rightarrow>
          let logx = TrailingZeros64 x in
          if logx > maxOrderRoot then Inl RootOfUnityDoesNotExist
          else
            let expo = 2 ^ (maxOrderRoot - logx);
                generator = fr_Exp rootOfUnity (uint64_to_int expo);
                roots = roots_loop x generator 1
            in Inr \<lparr>Cardinality = x,
                    CardinalityInv = inverse (of_nat x),
                    Generator = generator,
                    GeneratorInv = inverse generator,
                    Roots = roots,
                    PreComputedInverses = map inverse roots\<rparr>)"

text \<open>
  \<^verbatim>\<open>findRootIndex\<close>: the loop variable \<open>i\<close> is a Go \<^verbatim>\<open>int\<close> that starts at 0 and runs
  up to \<^verbatim>\<open>int(d.Cardinality)\<close>.
\<close>

function findRootIndex_from :: "Domain \<Rightarrow> fr \<Rightarrow> int \<Rightarrow> panic + int" where
  "findRootIndex_from d point i =
     (if i < uint64_to_int (Cardinality d) then
        (case go_index (Roots d) (nat i) of
           Inl p \<Rightarrow> Inl p
         | Inr root \<Rightarrow> if point = root then Inr i else findRootIndex_from d point (i + 1))
      else Inr (- 1))"
  by pat_completeness auto
termination
  by (relation "measure (\<lambda>(d, point, i). nat (uint64_to_int (Cardinality d) - i))") auto

definition findRootIndex :: "Domain \<Rightarrow> fr \<Rightarrow> panic + int" where
  "findRootIndex d point = findRootIndex_from d point 0"

definition isInDomain :: "Domain \<Rightarrow> fr \<Rightarrow> panic + bool" where
  "isInDomain d point = map_sum id (\<lambda>i. i \<noteq> - 1) (findRootIndex d point)"

text \<open>
  The two loops of \<^verbatim>\<open>evaluateLagrangePolynomial\<close>.  The first ranges over the
  \<^verbatim>\<open>Cardinality\<close> entries of \<^verbatim>\<open>denom\<close> and reads \<^verbatim>\<open>Roots[i]\<close>.  The second runs up to
  \<^verbatim>\<open>int(domain.Cardinality)\<close>; when it is reached the three slices it reads are known
  to have \<^verbatim>\<open>Cardinality\<close> entries at least, so it cannot panic.
\<close>

definition denominators :: "Domain \<Rightarrow> fr \<Rightarrow> panic + fr list" where
  "denominators domain eval_point =
     (if Cardinality domain \<le> length (Roots domain)
      then Inr (map (\<lambda>i. eval_point - Roots domain ! i) [0..<Cardinality domain])
      else Inl IndexOutOfRange)"

definition sum_loop :: "Domain \<Rightarrow> fr list \<Rightarrow> fr list \<Rightarrow> fr" where
  "sum_loop domain poly invDenom =
     fold (\<lambda>i result. result + poly ! i * Roots domain ! i * invDenom ! i)
       [0..<nat (uint64_to_int (Cardinality domain))] 0"

definition evaluateLagrangePolynomial ::
    "Domain \<Rightarrow> fr list \<Rightarrow> fr \<Rightarrow> panic + (fr option \<times> int \<times> error option)" where
  "evaluateLagrangePolynomial domain poly eval_point =
     (if Cardinality domain \<noteq> length poly then Inr (None, - 1, Some DomainSizeMismatch)
      else
        case findRootIndex domain eval_point of
          Inl p \<Rightarrow> Inl p
        | Inr indexInDomain \<Rightarrow>
            if indexInDomain \<noteq> - 1 then
              (case go_index poly (nat indexInDomain) of
                 Inl p \<Rightarrow> Inl p
               | Inr y \<Rightarrow> Inr (Some y, indexInDomain, None))
            else
              case denominators domain eval_point of
                Inl p \<Rightarrow> Inl p
              | Inr denom \<Rightarrow>
                  let invDenom = BatchInvert denom;
                      result = sum_loop domain poly invDenom;
                      tmp = fr_Exp eval_point (uint64_to_int (Cardinality domain));
                      tmp = tmp - 1;
                      tmp = tmp * CardinalityInv domain;
                      result = tmp * result
                  in Inr (Some result, indexInDomain, None))"

definition EvaluateLagrangePolynomial ::
    "Domain \<Rightarrow> fr list \<Rightarrow> fr \<Rightarrow> panic + (fr option \<times> error option)" where
  "EvaluateLagrangePolynomial domain poly eval_point =
     (case evaluateLagrangePolynomial domain poly eval_point of
        Inl p \<Rightarrow> Inl p
      | Inr (outputPoint, _, err) \<Rightarrow> Inr (outputPoint, err))"

section \<open>Curve groups and pairing\<close>

text \<open>
  The groups \<^verbatim>\<open>G1\<close>, \<^verbatim>\<open>G2\<close> and the target group of BLS12-381 are cyclic of the prime
  order \<open>fr_order\<close>, and the pairing is bilinear and not degenerate.  gnark-crypto
  implements them; the repository only combines their operations.  A group element is
  modelled by its discrete logarithm with respect to the fixed generator of its group,
  which turns the group law into addition, scalar multiplication into multiplication and
  the pairing into the product of the logarithms.  The target group is written
  multiplicatively, with \<open>gt_one\<close> its identity.
\<close>

datatype G1Affine = G1 (dlog1: fr)

datatype G2Affine = G2 (dlog2: fr)

datatype GT = GT (dlogT: fr)

type_synonym Commitment = G1Affine

definition g1_infinity :: G1Affine where
  "g1_infinity = G1 0"

definition g1_add :: "G1Affine \<Rightarrow> G1Affine \<Rightarrow> G1Affine" where
  "g1_add p q = G1 (dlog1 p + dlog1 q)"

definition g1_sub :: "G1Affine \<Rightarrow> G1Affine \<Rightarrow> G1Affine" where
  "g1_sub p q = G1 (dlog1 p - dlog1 q)"

definition g1_neg :: "G1Affine \<Rightarrow> G1Affine" where
  "g1_neg p = G1 (- dlog1 p)"

definition g1_scalar :: "fr \<Rightarrow> G1Affine \<Rightarrow> G1Affine" where
  "g1_scalar s p = G1 (s * dlog1 p)"

definition g1_sum :: "G1Affine list \<Rightarrow> G1Affine" where
  "g1_sum ps = foldr g1_add ps g1_infinity"

text \<open>
  \<^verbatim>\<open>BigInt\<close> returns the representative of a field element in \<open>[0, fr_order)\<close>;
  \<^verbatim>\<open>ScalarMultiplication\<close> and \<^verbatim>\<open>JointScalarMultiplication\<close> take such integers.
  \<^verbatim>\<open>MultiExp\<close> refuses slices of different lengths.  The pairing checks refuse an empty
  list and lists of different lengths; \<^verbatim>\<open>PairingCheckFixedQ\<close> takes, in place of the
  points of \<^verbatim>\<open>G2\<close>, the lines precomputed from them, which are modelled by the points.
\<close>

definition BigInt :: "fr \<Rightarrow> int" where
  "BigInt x = Rep_fr x"

definition ScalarMultiplication :: "G1Affine \<Rightarrow> int \<Rightarrow> G1Affine" where
  "ScalarMultiplication a s = g1_scalar (of_int s) a"

definition JointScalarMultiplication ::
    "G1Affine \<Rightarrow> G1Affine \<Rightarrow> int \<Rightarrow> int \<Rightarrow> G1Affine" where
  "JointScalarMultiplication a1 a2 s1 s2
     = g1_add (ScalarMultiplication a1 s1) (ScalarMultiplication a2 s2)"

definition MultiExp :: "G1Affine list \<Rightarrow> fr list \<Rightarrow> error + G1Affine" where
  "MultiExp points scalars =
     (if length points \<noteq> length scalars then Inl ErrMultiExpSize
      else Inr (g1_sum (map (\<lambda>(p, s). g1_scalar s p) (zip points scalars))))"

definition pairing :: "G1Affine \<Rightarrow> G2Affine \<Rightarrow> GT" where
  "pairing p q = GT (dlog1 p * dlog2 q)"

definition gt_one :: GT where
  "gt_one = GT 0"

definition gt_mul :: "GT \<Rightarrow> GT \<Rightarrow> GT" where
  "gt_mul x y = GT (dlogT x + dlogT y)"

definition PairingCheck :: "G1Affine list \<Rightarrow> G2Affine list \<Rightarrow> error + bool" where
  "PairingCheck P Q =
     (if length P = 0 \<or> length P \<noteq> length Q then Inl ErrPairingSize
      else Inr (foldr gt_mul (map (\<lambda>(p, q). pairing p q) (zip P Q)) gt_one = gt_one))"

definition PairingCheckFixedQ :: "G1Affine list \<Rightarrow> G2Affine list \<Rightarrow> error + bool" where
  "PairingCheckFixedQ P lines = PairingCheck P lines"

section \<open>Opening proofs and their verification\<close>

record OpeningProof =
  QuotientCommitment :: G1Affine
  InputPoint :: fr
  ClaimedValue :: fr

text \<open>
  Modelled from the spec: the declaration of \<^verbatim>\<open>OpeningKey\<close> is not part of the sources at
  hand.  The specification lists its fields: the generators of \<^verbatim>\<open>G1\<close> and \<^verbatim>\<open>G2\<close>, the
  secret multiple \<^verbatim>\<open>AlphaG2\<close> of the latter, and the pairing lines precomputed for
  \<^verbatim>\<open>GenG2\<close> and \<^verbatim>\<open>AlphaG2\<close>.
\<close>

record OpeningKey =
  GenG1 :: G1Affine
  GenG2 :: G2Affine
  AlphaG2 :: G2Affine
  PairingLines :: "G2Affine list"

text \<open>
  Modelled from the spec: \<^verbatim>\<open>utils.ComputePowers\<close> is not part of the sources at hand.
  It forms the weights \<open>r^0, r^1, \<dots>, r^(n-1)\<close>.
\<close>

definition ComputePowers :: "fr \<Rightarrow> nat \<Rightarrow> fr list" where
  "ComputePowers x n = map (\<lambda>i. x ^ i) [0..<n]"

definition Verify :: "Commitment \<Rightarrow> OpeningProof \<Rightarrow> OpeningKey \<Rightarrow> error option" where
  "Verify commitment prf openKey =
     (let cmInt = BigInt (ClaimedValue prf);
          pointInt = BigInt (- InputPoint prf);
          totalG1 = JointScalarMultiplication (GenG1 openKey) (QuotientCommitment prf)
                      cmInt pointInt;
          totalG1 = g1_sub totalG1 commitment
      in case PairingCheckFixedQ [totalG1, QuotientCommitment prf] (PairingLines openKey) of
           Inl err \<Rightarrow> Some err
         | Inr check \<Rightarrow> if \<not> check then Some ErrVerifyOpeningProof else None)"

text \<open>
  \<^verbatim>\<open>fold\<close>: the loop reads \<^verbatim>\<open>evaluations[i]\<close> and \<^verbatim>\<open>factors[i]\<close> for every index of
  \<^verbatim>\<open>commitments\<close> and panics when one of them is shorter.  On an error of \<^verbatim>\<open>MultiExp\<close>
  the folded commitment is still the zero value of its type.
\<close>

definition fold_kzg ::
    "Commitment list \<Rightarrow> fr list \<Rightarrow> fr list \<Rightarrow> panic + (Commitment \<times> fr \<times> error option)" where
  "fold_kzg commitments evaluations factors =
     (let batchSize = length commitments in
      if batchSize \<le> length evaluations \<and> batchSize \<le> length factors then
        let foldedEvaluations =
              fold (\<lambda>i foldedEvaluations. foldedEvaluations + evaluations ! i * factors ! i)
                [0..<batchSize] 0
        in case MultiExp commitments factors of
             Inl err \<Rightarrow> Inr (g1_infinity, foldedEvaluations, Some err)
           | Inr foldedCommitments \<Rightarrow> Inr (foldedCommitments, foldedEvaluations, None)
      else Inl IndexOutOfRange)"

text \<open>
  \<^verbatim>\<open>BatchVerifyMultiPoints\<close>.  \<^verbatim>\<open>randomNumber.SetRandom()\<close> reads the random source of
  the operating system; what it returns, an error or a field element, is the first
  argument of the model.  It is consulted only for batches of two and more.  The slice
  \<^verbatim>\<open>evaluations\<close> has \<^verbatim>\<open>batchSize\<close> entries, of which the loop sets those below
  \<^verbatim>\<open>len(randomNumbers)\<close>, which is \<^verbatim>\<open>batchSize\<close>.
\<close>

definition BatchVerifyMultiPoints ::
    "error + fr \<Rightarrow> Commitment list \<Rightarrow> OpeningProof list \<Rightarrow> OpeningKey \<Rightarrow> panic + error option" where
  "BatchVerifyMultiPoints SetRandom commitments proofs openKey =
     (if length commitments \<noteq> length proofs then Inr (Some ErrInvalidNumDigests)
      else
        let batchSize = length commitments in
        if batchSize = 0 then Inr None
        else if batchSize = 1 then Inr (Verify (commitments ! 0) (proofs ! 0) openKey)
        else
          case SetRandom of
            Inl err \<Rightarrow> Inr (Some err)
          | Inr randomNumber \<Rightarrow>
              let randomNumbers = ComputePowers randomNumber batchSize;
                  quotients = map (\<lambda>i. QuotientCommitment (proofs ! i)) [0..<batchSize]
              in case MultiExp quotients randomNumbers of
                   Inl err \<Rightarrow> Inr (Some err)
                 | Inr foldedQuotients \<Rightarrow>
                     let evaluations =
                           map (\<lambda>i. if i < length randomNumbers
                                      then ClaimedValue (proofs ! i) else 0) [0..<batchSize]
                     in case fold_kzg commitments evaluations randomNumbers of
                          Inl p \<Rightarrow> Inl p
                        | Inr (foldedCommitments, foldedEvaluations, Some err) \<Rightarrow> Inr (Some err)
                        | Inr (foldedCommitments, foldedEvaluations, None) \<Rightarrow>
                            let foldedEvaluationsCommit =
                                  ScalarMultiplication (GenG1 openKey) (BigInt foldedEvaluations);
                                foldedCommitments = g1_sub foldedCommitments foldedEvaluationsCommit;
                                randomNumbers =
                                  map (\<lambda>i. randomNumbers ! i * InputPoint (proofs ! i))
                                    [0..<batchSize]
                            in case MultiExp quotients randomNumbers of
                                 Inl err \<Rightarrow> Inr (Some err)
                               | Inr foldedPointsQuotients \<Rightarrow>
                                   let foldedCommitments =
                                         g1_add foldedCommitments foldedPointsQuotients;
                                       foldedQuotients = g1_neg foldedQuotients
                                   in case PairingCheck [foldedCommitments, foldedQuotients]
                                             [GenG2 openKey, AlphaG2 openKey] of
                                        Inl err \<Rightarrow> Inr (Some err)
                                      | Inr check \<Rightarrow>
                                          if \<not> check then Inr (Some ErrVerifyOpeningProof)
                                          else Inr None)"

section \<open>Values used to instantiate the theorems\<close>

text \<open>
  The domain that \<^verbatim>\<open>NewDomain\<close> builds for three and for four evaluations (the one of
  the tests in \<^verbatim>\<open>domain_test.go\<close>), whose generator is the constant root of unity
  raised to \<open>2 ^ 30\<close>; a domain with the two roots 1 and \<open>- 1\<close>; a domain with the
  single root 1.
\<close>

definition omega4 :: fr where
  "omega4 = rootOfUnity ^ 2 ^ 30"

definition domain4 :: Domain where
  "domain4 = \<lparr>Cardinality = 4,
      CardinalityInv = inverse 4,
      Generator = omega4,
      GeneratorInv = inverse omega4,
      Roots = [1, omega4, omega4 * omega4, omega4 * omega4 * omega4],
      PreComputedInverses =
        [1, inverse omega4, inverse (omega4 * omega4), inverse (omega4 * omega4 * omega4)]\<rparr>"

definition pair_domain :: Domain where
  "pair_domain = \<lparr>Cardinality = 2, CardinalityInv = inverse 2, Generator = - 1,
     GeneratorInv = - 1, Roots = [1, - 1], PreComputedInverses = [1, - 1]\<rparr>"

definition unit_domain :: Domain where
  "unit_domain = \<lparr>Cardinality = 1, CardinalityInv = 1, Generator = 1, GeneratorInv = 1,
     Roots = [1], PreComputedInverses = [1]\<rparr>"

text \<open>A key for the secret 5, and an opening of the polynomial \<open>X\<close> at the point 2.\<close>

definition example_key :: OpeningKey where
  "example_key = \<lparr>GenG1 = G1 1, GenG2 = G2 1, AlphaG2 = G2 5, PairingLines = [G2 1, G2 5]\<rparr>"

definition good_proof :: OpeningProof where
  "good_proof = \<lparr>QuotientCommitment = G1 1, InputPoint = 2, ClaimedValue = 2\<rparr>"

definition bad_proof :: OpeningProof where
  "bad_proof = \<lparr>QuotientCommitment = G1 1, InputPoint = 2, ClaimedValue = 3\<rparr>"

section \<open>Facts about the field and the root of unity\<close>

lemma of_nat_fr_order [simp]: "(of_nat fr_order :: fr) = 0"
  using of_nat_fr_eq_iff [of fr_order 0] by (simp add: fr_modulus_def)

lemma of_nat_fr_eqI:
  assumes "m mod fr_order = n mod fr_order"
  shows "(of_nat m :: fr) = of_nat n"
proof -
  from assms have "int (m mod fr_order) = int (n mod fr_order)" by simp
  then show ?thesis
    by (simp add: of_nat_fr_eq_iff fr_modulus_def zmod_int)
qed

lemma of_nat_fr_modI:
  assumes "m mod fr_order = n"
  shows "(of_nat m :: fr) = of_nat n"
  unfolding assms [symmetric] by (rule of_nat_fr_eqI) simp

lemma of_nat_fr_inj:
  assumes "m < fr_order" "n < fr_order"
  shows "(of_nat m :: fr) = of_nat n \<longleftrightarrow> m = n"
  using assms by (simp add: of_nat_fr_eq_iff fr_modulus_def zmod_int [symmetric])

lemma fr_numeral_neq_0:
  assumes "numeral k < fr_order"
  shows "(numeral k :: fr) \<noteq> 0"
  using of_nat_fr_inj [of "numeral k" 0] assms by (simp add: fr_order_def)

lemma fr_numeral_neq_1:
  assumes "numeral k < fr_order" "numeral k \<noteq> (1::nat)"
  shows "(numeral k :: fr) \<noteq> 1"
  using of_nat_fr_inj [of "numeral k" 1] assms by (simp add: fr_order_def)

lemma fr_numeral_eq_iff:
  assumes "numeral m < fr_order" "numeral n < fr_order"
  shows "(numeral m :: fr) = numeral n \<longleftrightarrow> m = n"
  using of_nat_fr_inj [OF assms] by simp

lemma rootOfUnity_of_nat:
  "rootOfUnity
     = of_nat 10238227357739495823651030575849232062558860180284477541189508159991286009131"
  by (simp only: rootOfUnity_def of_nat_numeral)

lemma rootOfUnity_pow_32: "rootOfUnity ^ 2 ^ 32 = 1"
proof -
  have "(2::nat) ^ 32 = 4294967296" by simp
  moreover have "(of_nat (10238227357739495823651030575849232062558860180284477541189508159991286009131 ^ 4294967296) :: fr) = of_nat 1"
    by (rule of_nat_fr_modI) (rule pw_r_31)
  ultimately show ?thesis
    by (simp only: rootOfUnity_of_nat of_nat_power of_nat_1)
qed

lemma rootOfUnity_pow_31: "rootOfUnity ^ 2 ^ 31 = - 1"
proof -
  have "(2::nat) ^ 31 = 2147483648" by simp
  moreover have "(of_nat (10238227357739495823651030575849232062558860180284477541189508159991286009131 ^ 2147483648) :: fr)
      = of_nat 52435875175126190479447740508185965837690552500527637822603658699938581184512"
    by (rule of_nat_fr_modI) (rule pw_r_30)
  moreover have "(of_nat 52435875175126190479447740508185965837690552500527637822603658699938581184512 :: fr) + 1
      = of_nat fr_order"
    by (simp add: fr_order_def)
  then have "(of_nat 52435875175126190479447740508185965837690552500527637822603658699938581184512 :: fr) = - 1"
    by (simp add: eq_neg_iff_add_eq_0)
  ultimately show ?thesis
    by (simp only: rootOfUnity_of_nat of_nat_power)
qed

lemma fr_Exp_int [simp]: "fr_Exp x (int n) = x ^ n"
  by (simp add: fr_Exp_def)

lemma uint64_to_int_small [simp]: "c < 2 ^ 63 \<Longrightarrow> uint64_to_int c = int c"
  by (simp add: uint64_to_int_def)

section \<open>Construction of the domain\<close>

lemma NextPowerOfTwo_Inr:
  assumes "NextPowerOfTwo m = Inr x"
  shows "\<exists>k<64. x = 2 ^ k \<and> m \<le> 2 ^ k \<and> (\<forall>j<k. 2 ^ j < m)"
proof -
  from assms obtain k where k: "find (\<lambda>k. m \<le> 2 ^ k) [0..<64] = Some k" "x = 2 ^ k"
    by (auto simp: NextPowerOfTwo_def split: option.splits)
  from k(1) obtain i where i: "i < 64" "m \<le> 2 ^ ([0..<64] ! i)" "k = [0..<64] ! i"
    "\<forall>j<i. \<not> m \<le> 2 ^ ([0..<64] ! j)"
    unfolding find_Some_iff by auto
  from i(1,3) have ki: "k = i" by simp
  have "\<forall>j<k. 2 ^ j < m"
  proof (intro allI impI)
    fix j assume "j < k"
    with i(1,4) ki have "\<not> m \<le> 2 ^ ([0..<64] ! j)" by blast
    moreover from \<open>j < k\<close> i(1) ki have "[0..<64] ! j = j" by simp
    ultimately show "2 ^ j < m" by simp
  qed
  with i ki k(2) show ?thesis by auto
qed

lemma NextPowerOfTwo_returns:
  assumes "m \<le> 2 ^ 63"
  shows "\<exists>x. NextPowerOfTwo m = Inr x"
proof -
  have "63 \<in> set [0..<64]" by simp
  with assms have "find (\<lambda>k. m \<le> 2 ^ k) [0..<64] \<noteq> None"
    unfolding find_None_iff by blast
  then show ?thesis
    by (auto simp: NextPowerOfTwo_def split: option.splits)
qed

lemma NextPowerOfTwo_eq:
  assumes "k < 64" "m \<le> 2 ^ k" "\<forall>j<k. 2 ^ j < m"
  shows "NextPowerOfTwo m = Inr (2 ^ k)"
proof -
  have "find (\<lambda>k. m \<le> 2 ^ k) [0..<64] = Some k"
    unfolding find_Some_iff
  proof (intro exI [of _ k] conjI allI impI)
    show "k < length [0..<64]" using assms(1) by simp
    show "m \<le> 2 ^ ([0..<64] ! k)" using assms(1,2) by simp
    show "k = [0..<64] ! k" using assms(1) by simp
    fix j assume "j < k"
    with assms(1) have "[0..<64] ! j = j" by simp
    with assms(3) \<open>j < k\<close> show "\<not> m \<le> 2 ^ ([0..<64] ! j)"
      by (simp add: not_le)
  qed
  then show ?thesis by (simp add: NextPowerOfTwo_def)
qed

lemma TrailingZeros64_power2:
  assumes "k < 64"
  shows "TrailingZeros64 (2 ^ k) = k"
proof -
  have "find (\<lambda>j. odd ((2::nat) ^ k div 2 ^ j)) [0..<64] = Some k"
    unfolding find_Some_iff
  proof (intro exI [of _ k] conjI allI impI)
    show "k < length [0..<64]" using assms by simp
    show "odd ((2::nat) ^ k div 2 ^ ([0..<64] ! k))" using assms by simp
    show "k = [0..<64] ! k" using assms by simp
    fix j assume "j < k"
    with assms have j: "[0..<64] ! j = j" by simp
    from \<open>j < k\<close> have "(2::nat) ^ k div 2 ^ j = 2 ^ (k - j)"
      by (simp add: power_diff)
    with \<open>j < k\<close> show "\<not> odd ((2::nat) ^ k div 2 ^ ([0..<64] ! j))"
      by (simp add: j)
  qed
  then show ?thesis by (simp add: TrailingZeros64_def)
qed

lemma length_roots_loop [simp]: "length (roots_loop n g c) = n"
  by (induction n arbitrary: c) simp_all

lemma nth_roots_loop: "i < n \<Longrightarrow> roots_loop n g c ! i = c * g ^ i"
proof (induction n arbitrary: c i)
  case 0
  then show ?case by simp
next
  case (Suc n)
  then show ?case by (cases i) (simp_all add: mult.assoc)
qed

lemma NewDomain_eq:
  assumes "k \<le> 32" "m \<le> 2 ^ k" "\<forall>j<k. 2 ^ j < m"
  shows "NewDomain m = Inr \<lparr>Cardinality = 2 ^ k,
          CardinalityInv = inverse (of_nat (2 ^ k)),
          Generator = rootOfUnity ^ 2 ^ (32 - k),
          GeneratorInv = inverse (rootOfUnity ^ 2 ^ (32 - k)),
          Roots = roots_loop (2 ^ k) (rootOfUnity ^ 2 ^ (32 - k)) 1,
          PreComputedInverses = map inverse (roots_loop (2 ^ k) (rootOfUnity ^ 2 ^ (32 - k)) 1)\<rparr>"
proof -
  from assms have npt: "NextPowerOfTwo m = Inr (2 ^ k)"
    by (intro NextPowerOfTwo_eq) simp_all
  from assms(1) have tz: "TrailingZeros64 (2 ^ k) = k"
    by (simp add: TrailingZeros64_power2)
  have "(2::nat) ^ (32 - k) \<le> 2 ^ 32"
    by (intro power_increasing) simp_all
  then have "(2::nat) ^ (32 - k) < 2 ^ 63"
    by (rule le_less_trans) simp
  then have "fr_Exp rootOfUnity (uint64_to_int (2 ^ (32 - k))) = rootOfUnity ^ 2 ^ (32 - k)"
    by (simp only: uint64_to_int_small fr_Exp_int)
  with assms(1) show ?thesis
    by (simp add: NewDomain_def npt tz maxOrderRoot_def Let_def del: of_nat_power power_numeral)
qed

text \<open>What a successful construction returns.\<close>

lemma NewDomain_Inr:
  assumes "NewDomain m = Inr d"
  shows "\<exists>k\<le>32. m \<le> 2 ^ k \<and> (\<forall>j<k. 2 ^ j < m)
    \<and> d = \<lparr>Cardinality = 2 ^ k,
          CardinalityInv = inverse (of_nat (2 ^ k)),
          Generator = rootOfUnity ^ 2 ^ (32 - k),
          GeneratorInv = inverse (rootOfUnity ^ 2 ^ (32 - k)),
          Roots = roots_loop (2 ^ k) (rootOfUnity ^ 2 ^ (32 - k)) 1,
          PreComputedInverses = map inverse (roots_loop (2 ^ k) (rootOfUnity ^ 2 ^ (32 - k)) 1)\<rparr>"
proof -
  from assms obtain x where x: "NextPowerOfTwo m = Inr x"
    by (auto simp: NewDomain_def split: sum.splits)
  then obtain k where k: "k < 64" "x = 2 ^ k" "m \<le> 2 ^ k" "\<forall>j<k. 2 ^ j < m"
    using NextPowerOfTwo_Inr by blast
  from k(1,2) have tz: "TrailingZeros64 x = k"
    by (simp add: TrailingZeros64_power2)
  with assms x have k32: "k \<le> 32"
    by (auto simp: NewDomain_def maxOrderRoot_def Let_def split: if_splits)
  have "(2::nat) ^ (32 - k) \<le> 2 ^ 32"
    by (intro power_increasing) simp_all
  then have "(2::nat) ^ (32 - k) < 2 ^ 63"
    by (rule le_less_trans) simp
  with assms x tz k32 k(2) have "d = \<lparr>Cardinality = 2 ^ k,
          CardinalityInv = inverse (of_nat (2 ^ k)),
          Generator = rootOfUnity ^ 2 ^ (32 - k),
          GeneratorInv = inverse (rootOfUnity ^ 2 ^ (32 - k)),
          Roots = roots_loop (2 ^ k) (rootOfUnity ^ 2 ^ (32 - k)) 1,
          PreComputedInverses = map inverse (roots_loop (2 ^ k) (rootOfUnity ^ 2 ^ (32 - k)) 1)\<rparr>"
    by (simp add: NewDomain_def maxOrderRoot_def Let_def del: of_nat_power power_numeral)
  with k32 k(3,4) show ?thesis by blast
qed

text \<open>The construction succeeds for every size parameter up to \<open>2 ^ 32\<close>.\<close>

lemma NewDomain_returns:
  assumes "m \<le> 2 ^ 32"
  shows "\<exists>d. NewDomain m = Inr d"
proof -
  have "m \<le> 2 ^ 63"
    by (rule order_trans [OF assms]) simp
  then obtain x where x: "NextPowerOfTwo m = Inr x"
    using NextPowerOfTwo_returns by blast
  then obtain k where k: "k < 64" "x = 2 ^ k" "\<forall>j<k. 2 ^ j < m"
    using NextPowerOfTwo_Inr by blast
  have "k \<le> 32"
  proof (rule ccontr)
    assume "\<not> k \<le> 32"
    then have "32 < k" by simp
    with k(3) have "2 ^ 32 < m" by blast
    with assms show False by simp
  qed
  with k(1,2) x show ?thesis
    by (simp add: NewDomain_def TrailingZeros64_power2 maxOrderRoot_def Let_def
        del: of_nat_power power_numeral)
qed

lemma Generator_power_Cardinality:
  assumes "k \<le> 32"
  shows "(rootOfUnity ^ 2 ^ (32 - k)) ^ 2 ^ k = 1"
proof -
  have "(rootOfUnity ^ 2 ^ (32 - k)) ^ 2 ^ k = rootOfUnity ^ (2 ^ (32 - k) * 2 ^ k)"
    by (simp only: power_mult)
  also from assms have "(2::nat) ^ (32 - k) * 2 ^ k = 2 ^ 32"
    by (simp only: power_add [symmetric]) simp
  finally show ?thesis
    by (simp only: rootOfUnity_pow_32)
qed

section \<open>Searching the roots and evaluating\<close>

declare findRootIndex_from.simps [simp del]

lemma findRootIndex_from_found:
  assumes "Cardinality d < 2 ^ 63" "i < Cardinality d" "i < length (Roots d)" "k \<le> i"
    and "\<forall>j. k \<le> j \<and> j < i \<longrightarrow> Roots d ! j \<noteq> Roots d ! i"
  shows "findRootIndex_from d (Roots d ! i) (int k) = Inr (int i)"
  using assms(4,5)
proof (induction "i - k" arbitrary: k)
  case 0
  then have "k = i" by simp
  with assms(1-3) show ?case
    by (subst findRootIndex_from.simps) (simp add: go_index_def)
next
  case (Suc n)
  then have k: "k < i" by simp
  with Suc.prems have neq: "Roots d ! i \<noteq> Roots d ! k" by (metis order_refl)
  from Suc.hyps(2) Suc.prems k
  have "findRootIndex_from d (Roots d ! i) (int (Suc k)) = Inr (int i)"
    by (intro Suc.hyps(1)) auto
  then have IH: "findRootIndex_from d (Roots d ! i) (int k + 1) = Inr (int i)"
    by (simp add: add.commute)
  from assms(1-3) k neq IH show ?case
    by (subst findRootIndex_from.simps) (simp add: go_index_def)
qed

lemma findRootIndex_from_absent:
  assumes "Cardinality d < 2 ^ 63" "Cardinality d \<le> length (Roots d)"
    and "\<forall>j. k \<le> j \<and> j < Cardinality d \<longrightarrow> z \<noteq> Roots d ! j"
  shows "findRootIndex_from d z (int k) = Inr (- 1)"
  using assms(3)
proof (induction "Cardinality d - k" arbitrary: k)
  case 0
  with assms(1) show ?case
    by (subst findRootIndex_from.simps) simp
next
  case (Suc n)
  then have k: "k < Cardinality d" by simp
  with Suc.prems have neq: "z \<noteq> Roots d ! k" by (metis order_refl)
  from Suc.hyps(2) Suc.prems
  have "findRootIndex_from d z (int (Suc k)) = Inr (- 1)"
    by (intro Suc.hyps(1)) auto
  then have IH: "findRootIndex_from d z (int k + 1) = Inr (- 1)"
    by (simp add: add.commute)
  from assms(1,2) k neq IH show ?case
    by (subst findRootIndex_from.simps) (simp add: go_index_def)
qed

text \<open>
  When the roots slice has \<open>Cardinality\<close> entries at least, the search never panics: it
  returns \<open>- 1\<close> or an index below \<open>Cardinality\<close>.
\<close>

lemma findRootIndex_from_returns:
  assumes "Cardinality d \<le> length (Roots d)" "0 \<le> i"
  shows "\<exists>j. findRootIndex_from d z i = Inr j \<and> (j = - 1 \<or> 0 \<le> j \<and> j < int (Cardinality d))"
  using assms
proof (induction d z i rule: findRootIndex_from.induct)
  case (1 d point i)
  have le: "uint64_to_int (Cardinality d) \<le> int (Cardinality d)"
    by (simp add: uint64_to_int_def)
  show ?case
  proof (cases "i < uint64_to_int (Cardinality d)")
    case False
    then show ?thesis
      by (subst findRootIndex_from.simps) simp
  next
    case True
    with le "1.prems" have idx: "go_index (Roots d) (nat i) = Inr (Roots d ! nat i)"
      by (simp add: go_index_def)
    show ?thesis
    proof (cases "point = Roots d ! nat i")
      case eq: True
      with True idx le "1.prems" show ?thesis
        by (subst findRootIndex_from.simps) simp
    next
      case neq: False
      from "1.prems" have "0 \<le> i + 1" by simp
      from "1.IH" [OF True idx neq "1.prems"(1) this] True idx neq show ?thesis
        by (subst findRootIndex_from.simps) simp
    qed
  qed
qed

text \<open>The batched inversion returns the inverse of every entry.\<close>

lemma unwind_prefix_products:
  assumes "acc \<noteq> 0" and "prefix_products acc xs = (res, final)"
  shows "unwind (zip xs res) (inverse final) = (map inverse xs, inverse acc)"
  using assms
proof (induction xs arbitrary: acc res)
  case Nil
  then show ?case by simp
next
  case (Cons x xs)
  show ?case
  proof (cases "x = 0")
    case True
    with Cons.prems(2) obtain res' where res': "prefix_products acc xs = (res', final)"
      "res = 0 # res'"
      by (auto split: prod.splits)
    from Cons.IH [OF Cons.prems(1) res'(1)] True res'(2) show ?thesis
      by simp
  next
    case False
    with Cons.prems(2) obtain res' where res': "prefix_products (acc * x) xs = (res', final)"
      "res = acc # res'"
      by (auto split: prod.splits)
    from False Cons.prems(1) have "acc * x \<noteq> 0" by simp
    from Cons.IH [OF this res'(1)] False Cons.prems(1) res'(2) show ?thesis
      by (simp add: field_simps)
  qed
qed

lemma BatchInvert_eq: "BatchInvert a = map inverse a"
proof -
  obtain res final where "prefix_products 1 a = (res, final)"
    by (cases "prefix_products 1 a")
  with unwind_prefix_products [of 1 a res final] show ?thesis
    by (simp add: BatchInvert_def)
qed

lemma fold_add_sum_list:
  fixes f :: "nat \<Rightarrow> fr"
  shows "fold (\<lambda>i result. result + f i) xs a = a + sum_list (map f xs)"
  by (induction xs arbitrary: a) (simp_all add: add.assoc)

lemma sum_loop_eq:
  assumes "Cardinality d < 2 ^ 63"
  shows "sum_loop d poly invDenom
    = (\<Sum>i<Cardinality d. poly ! i * Roots d ! i * invDenom ! i)"
  using assms
  by (simp add: sum_loop_def fold_add_sum_list interv_sum_list_conv_sum_set_nat
      atLeast0LessThan)

text \<open>The result on a root of the domain, and the result off the domain.\<close>

lemma evaluate_on_domain:
  assumes "length poly = Cardinality d" "length poly < 2 ^ 63"
    and "i < Cardinality d" "i < length (Roots d)"
    and "\<forall>j<i. Roots d ! j \<noteq> Roots d ! i"
  shows "evaluateLagrangePolynomial d poly (Roots d ! i) = Inr (Some (poly ! i), int i, None)"
proof -
  from assms have "findRootIndex d (Roots d ! i) = Inr (int i)"
    unfolding findRootIndex_def
    using findRootIndex_from_found [of d i 0] by simp
  with assms(1,3) show ?thesis
    by (simp add: evaluateLagrangePolynomial_def go_index_def)
qed

lemma evaluate_off_domain:
  assumes "length poly = Cardinality d" "length poly < 2 ^ 63"
    and "Cardinality d \<le> length (Roots d)"
    and "\<forall>i<Cardinality d. z \<noteq> Roots d ! i"
  shows "evaluateLagrangePolynomial d poly z
    = Inr (Some (((z ^ Cardinality d - 1) * CardinalityInv d)
            * (\<Sum>i<Cardinality d. poly ! i * Roots d ! i * inverse (z - Roots d ! i))),
          - 1, None)"
proof -
  from assms have small: "Cardinality d < 2 ^ 63" by simp
  from assms small have "findRootIndex d z = Inr (- 1)"
    unfolding findRootIndex_def
    using findRootIndex_from_absent [of d 0 z] by simp
  moreover have "(\<Sum>i<Cardinality d. poly ! i * Roots d ! i
        * BatchInvert (map (\<lambda>i. z - Roots d ! i) [0..<Cardinality d]) ! i)
      = (\<Sum>i<Cardinality d. poly ! i * Roots d ! i * inverse (z - Roots d ! i))"
    by (rule sum.cong) (simp_all add: BatchInvert_eq)
  ultimately show ?thesis
    using assms(1,3) small
    by (simp add: evaluateLagrangePolynomial_def denominators_def sum_loop_eq Let_def)
qed

text \<open>
  Hence evaluation returns, with a value or with an error, for every domain whose roots
  slice has \<open>Cardinality\<close> entries at least.
\<close>

lemma EvaluateLagrangePolynomial_returns:
  assumes "Cardinality d \<le> length (Roots d)"
  shows "\<exists>r e. EvaluateLagrangePolynomial d poly z = Inr (r, e)"
proof (cases "Cardinality d = length poly")
  case False
  then show ?thesis
    by (simp add: EvaluateLagrangePolynomial_def evaluateLagrangePolynomial_def)
next
  case True
  from findRootIndex_from_returns [OF assms, of 0 z] obtain j
    where j: "findRootIndex d z = Inr j" "j = - 1 \<or> 0 \<le> j \<and> j < int (Cardinality d)"
    by (auto simp: findRootIndex_def)
  show ?thesis
  proof (cases "j = - 1")
    case True
    with j(1) assms \<open>Cardinality d = length poly\<close> show ?thesis
      by (simp add: EvaluateLagrangePolynomial_def evaluateLagrangePolynomial_def
          denominators_def Let_def)
  next
    case False
    with j(2) True have "nat j < length poly" by (simp add: nat_less_iff)
    with j(1) False True show ?thesis
      by (simp add: EvaluateLagrangePolynomial_def evaluateLagrangePolynomial_def go_index_def)
  qed
qed

section \<open>The domain of size four\<close>

lemma roots_loop_4: "roots_loop 4 g 1 = [1, g, g * g, g * g * g]"
proof -
  have "roots_loop (Suc (Suc (Suc (Suc 0)))) g 1 = [1, g, g * g, g * g * g]"
    by simp
  then show ?thesis by (simp add: numeral_eq_Suc)
qed

lemma domain4_eq:
  "\<lparr>Cardinality = 2 ^ 2,
      CardinalityInv = inverse (of_nat (2 ^ 2)),
      Generator = rootOfUnity ^ 2 ^ (32 - 2),
      GeneratorInv = inverse (rootOfUnity ^ 2 ^ (32 - 2)),
      Roots = roots_loop (2 ^ 2) (rootOfUnity ^ 2 ^ (32 - 2)) 1,
      PreComputedInverses = map inverse (roots_loop (2 ^ 2) (rootOfUnity ^ 2 ^ (32 - 2)) 1)\<rparr>
   = domain4"
  by (simp add: domain4_def omega4_def roots_loop_4)

lemma NewDomain_3: "NewDomain 3 = Inr domain4"
proof -
  have "\<forall>j<2. (2::nat) ^ j < 3"
    by (auto simp: less_Suc_eq numeral_2_eq_2)
  then show ?thesis
    using NewDomain_eq [of 2 3] by (simp only: domain4_eq) simp
qed

lemma NewDomain_4: "NewDomain 4 = Inr domain4"
proof -
  have "\<forall>j<2. (2::nat) ^ j < 4"
    by (auto simp: less_Suc_eq numeral_2_eq_2)
  then show ?thesis
    using NewDomain_eq [of 2 4] by (simp only: domain4_eq) simp
qed

lemma omega4_square: "omega4 * omega4 = - 1"
proof -
  have "omega4 * omega4 = rootOfUnity ^ (2 ^ 30 * 2)"
    by (simp only: omega4_def power_mult power2_eq_square)
  also have "(2::nat) ^ 30 * 2 = 2 ^ 31" by simp
  finally show ?thesis by (simp only: rootOfUnity_pow_31)
qed

lemma omega4_power4: "omega4 ^ 4 = 1"
proof -
  have "omega4 ^ 4 = (omega4 * omega4) * (omega4 * omega4)"
    by (simp add: power4_eq_xxxx)
  then show ?thesis by (simp add: omega4_square)
qed

lemma fr_4_neq_0: "(4::fr) \<noteq> 0"
  by (rule fr_numeral_neq_0) (simp add: fr_order_def)

lemma fr_2_neq_0: "(2::fr) \<noteq> 0"
  by (rule fr_numeral_neq_0) (simp add: fr_order_def)

lemma root4_power4:
  assumes "x \<in> set (Roots domain4)"
  shows "x ^ 4 = 1"
proof -
  from assms consider "x = 1" | "x = omega4" | "x = omega4 * omega4"
    | "x = omega4 * omega4 * omega4"
    by (auto simp: domain4_def)
  then show ?thesis
    by cases (simp_all add: omega4_power4 power_mult_distrib)
qed

lemma barycentric_x2_x:
  fixes w z :: "'a::field"
  assumes w: "w * w = - 1" and four: "(4::'a) \<noteq> 0"
    and z: "z \<noteq> 1" "z \<noteq> w" "z \<noteq> w * w" "z \<noteq> w * w * w"
  shows "((z ^ 4 - 1) * inverse 4)
      * ((1\<^sup>2 + 1) * 1 * inverse (z - 1)
         + (w\<^sup>2 + w) * w * inverse (z - w)
         + ((w * w)\<^sup>2 + w * w) * (w * w) * inverse (z - w * w)
         + ((w * w * w)\<^sup>2 + w * w * w) * (w * w * w) * inverse (z - w * w * w))
    = z\<^sup>2 + z"
proof -
  have w3: "w * w * w = - w"
    by (simp add: w)
  have nz: "z - 1 \<noteq> 0" "z - w \<noteq> 0" "z + 1 \<noteq> 0" "z + w \<noteq> 0"
    using z(1,2) z(3) [unfolded w] z(4) [unfolded w3]
    by (simp_all add: add_eq_0_iff2)
  have cancel: "x * y * (a / x) = a * y" if "x \<noteq> 0" for x y a :: 'a
    using that by simp
  define A B C where "A = (z - w) * (z + 1) * (z + w)"
    and "B = (z - 1) * (z + 1) * (z + w)" and "C = (z - 1) * (z - w) * (z + 1)"
  have dA: "z ^ 4 - 1 = (z - 1) * A" and dB: "z ^ 4 - 1 = (z - w) * B"
    and dC: "z ^ 4 - 1 = (z + w) * C"
    unfolding A_def B_def C_def using w by algebra+
  have s: "(1\<^sup>2 + 1) * 1 * inverse (z - 1)
         + (w\<^sup>2 + w) * w * inverse (z - w)
         + ((w * w)\<^sup>2 + w * w) * (w * w) * inverse (z - w * w)
         + ((w * w * w)\<^sup>2 + w * w * w) * (w * w * w) * inverse (z - w * w * w)
     = 2 / (z - 1) + (- 1 - w) / (z - w) + (w - 1) / (z + w)"
    using w by (simp add: power2_eq_square divide_inverse algebra_simps)
  have "(z ^ 4 - 1) * (2 / (z - 1) + (- 1 - w) / (z - w) + (w - 1) / (z + w))
      = (z - 1) * A * (2 / (z - 1)) + (z - w) * B * ((- 1 - w) / (z - w))
        + (z + w) * C * ((w - 1) / (z + w))"
    by (simp only: distrib_left dA [symmetric] dB [symmetric] dC [symmetric])
  also have "\<dots> = 2 * A + (- 1 - w) * B + (w - 1) * C"
    by (simp only: cancel [OF nz(1)] cancel [OF nz(2)] cancel [OF nz(4)])
  also have "\<dots> = 4 * (z\<^sup>2 + z)"
    unfolding A_def B_def C_def using w by algebra
  finally have "(z ^ 4 - 1) * (2 / (z - 1) + (- 1 - w) / (z - w) + (w - 1) / (z + w))
      = 4 * (z\<^sup>2 + z)" .
  then have "((z ^ 4 - 1) * inverse 4) * (2 / (z - 1) + (- 1 - w) / (z - w) + (w - 1) / (z + w))
      = inverse 4 * (4 * (z\<^sup>2 + z))"
    by (simp only: mult.assoc mult.left_commute [of _ "inverse 4"] mult.commute [of _ "inverse 4"])
  with four show ?thesis
    by (simp only: s) (simp add: field_simps)
qed

section \<open>The roots of a constructed domain are distinct\<close>

lemma fr_one_neq_minus_one: "(1::fr) \<noteq> - 1"
  using fr_2_neq_0 by (simp add: eq_neg_iff_add_eq_0)

lemma order_two_power:
  fixes x :: fr
  assumes "x ^ 2 ^ k = - 1" and "0 < j" and "j < 2 ^ Suc k"
  shows "x ^ j \<noteq> 1"
  using assms
proof (induction k arbitrary: x j)
  case 0
  then have "j = 1" by simp
  with 0 fr_one_neq_minus_one show ?case by auto
next
  case (Suc k)
  show ?case
  proof (cases "even j")
    case True
    then obtain i where i: "j = 2 * i" ..
    have "(x\<^sup>2) ^ 2 ^ k = x ^ 2 ^ Suc k"
      by (simp add: power_mult [symmetric])
    with Suc.prems(1) have "(x\<^sup>2) ^ 2 ^ k = - 1" by simp
    moreover from i Suc.prems(2,3) have "0 < i" "i < 2 ^ Suc k" by simp_all
    ultimately have "(x\<^sup>2) ^ i \<noteq> 1" by (rule Suc.IH)
    then show ?thesis by (simp add: i power_mult)
  next
    case False
    show ?thesis
    proof
      assume "x ^ j = 1"
      then have "(x ^ j) ^ 2 ^ Suc k = 1" by simp
      then have "(x ^ 2 ^ Suc k) ^ j = 1"
        by (simp only: power_mult [symmetric] mult.commute)
      with Suc.prems(1) False have "(- 1 :: fr) = 1" by simp
      with fr_one_neq_minus_one show False by simp
    qed
  qed
qed

lemma NewDomain_roots_distinct:
  assumes "NewDomain m = Inr d"
  shows "distinct (Roots d)"
proof -
  from NewDomain_Inr [OF assms] obtain k where k: "k \<le> 32"
    and d: "d = \<lparr>Cardinality = 2 ^ k,
          CardinalityInv = inverse (of_nat (2 ^ k)),
          Generator = rootOfUnity ^ 2 ^ (32 - k),
          GeneratorInv = inverse (rootOfUnity ^ 2 ^ (32 - k)),
          Roots = roots_loop (2 ^ k) (rootOfUnity ^ 2 ^ (32 - k)) 1,
          PreComputedInverses = map inverse (roots_loop (2 ^ k) (rootOfUnity ^ 2 ^ (32 - k)) 1)\<rparr>"
    by blast
  define g where "g = rootOfUnity ^ 2 ^ (32 - k)"
  have gn: "g ^ 2 ^ k = 1"
    using Generator_power_Cardinality [OF k] by (simp add: g_def)
  then have g0: "g \<noteq> 0" by (auto simp: power_0_left)
  have neq: "g ^ i \<noteq> g ^ j" if ij: "i < j" "j < 2 ^ k" for i j
  proof
    assume eq: "g ^ i = g ^ j"
    from ij have "j = i + (j - i)" by simp
    then have "g ^ j = g ^ i * g ^ (j - i)" by (metis power_add)
    with eq g0 have one: "g ^ (j - i) = 1" by simp
    from ij have "k \<noteq> 0" by (cases k) auto
    then obtain k' where k': "k = Suc k'" by (cases k) auto
    have "g ^ 2 ^ k' = rootOfUnity ^ (2 ^ (32 - k) * 2 ^ k')"
      by (simp only: g_def power_mult)
    also from k k' have "(2::nat) ^ (32 - k) * 2 ^ k' = 2 ^ 31"
      by (simp only: power_add [symmetric]) simp
    finally have "g ^ 2 ^ k' = - 1" by (simp only: rootOfUnity_pow_31)
    moreover from ij have "0 < j - i" "j - i < 2 ^ Suc k'"
      by (simp_all add: k' less_imp_diff_less)
    ultimately have "g ^ (j - i) \<noteq> 1" by (rule order_two_power)
    with one show False by simp
  qed
  have "roots_loop (2 ^ k) g 1 ! i \<noteq> roots_loop (2 ^ k) g 1 ! j"
    if "i < 2 ^ k" "j < 2 ^ k" "i \<noteq> j" for i j
  proof (cases "i < j")
    case True
    with that neq [of i j] show ?thesis by (simp add: nth_roots_loop)
  next
    case False
    with that have "j < i" by simp
    with that neq [of j i] show ?thesis by (auto simp: nth_roots_loop)
  qed
  then show ?thesis
    unfolding d g_def [symmetric] by (simp add: distinct_conv_nth)
qed

text \<open>
  Hence in a constructed domain every index is the first index of its root, and
  evaluation at any root returns the entry stored for it.
\<close>

lemma evaluate_at_root_constructed:
  assumes "NewDomain m = Inr d" "length poly = Cardinality d" "i < Cardinality d"
  shows "evaluateLagrangePolynomial d poly (Roots d ! i) = Inr (Some (poly ! i), int i, None)"
proof -
  from NewDomain_Inr [OF assms(1)] obtain k where k: "k \<le> 32" "Cardinality d = 2 ^ k"
    "length (Roots d) = 2 ^ k"
    by auto
  have "(2::nat) ^ k \<le> 2 ^ 32"
    using k(1) by (intro power_increasing) simp_all
  then have small: "(2::nat) ^ k < 2 ^ 63"
    by (rule le_less_trans) simp
  from NewDomain_roots_distinct [OF assms(1)] assms(3) k
  have "\<forall>j<i. Roots d ! j \<noteq> Roots d ! i"
    by (auto simp: distinct_conv_nth)
  with assms k small show ?thesis
    by (intro evaluate_on_domain) simp_all
qed

section \<open>Claims about the evaluation domain\<close>

text \<open>
  C1.  For a domain whose roots slice has \<open>Cardinality\<close> entries and a polynomial with as
  many evaluations (a Go slice, so fewer than \<open>2 ^ 63\<close> of them), evaluation at a point
  that equals none of the roots returns, without an error and with index \<open>- 1\<close>, the
  barycentric value
  \<open>((point ^ cardinality - 1) * cardinalityInverse) *
   (\<Sum>i. polynomial[i] * roots[i] * (point - roots[i])\<^sup>-\<^sup>1)\<close>.
\<close>

theorem evaluate_barycentric:
  assumes "length poly = Cardinality d" "length poly < 2 ^ 63"
    and "Cardinality d \<le> length (Roots d)"
    and "\<forall>i<Cardinality d. z \<noteq> Roots d ! i"
  shows "evaluateLagrangePolynomial d poly z
      = Inr (Some (((z ^ Cardinality d - 1) * CardinalityInv d)
              * (\<Sum>i<Cardinality d. poly ! i * Roots d ! i * inverse (z - Roots d ! i))),
            - 1, None)
    \<and> EvaluateLagrangePolynomial d poly z
      = Inr (Some (((z ^ Cardinality d - 1) * CardinalityInv d)
              * (\<Sum>i<Cardinality d. poly ! i * Roots d ! i * inverse (z - Roots d ! i))),
            None)"
  using evaluate_off_domain [OF assms] by (simp add: EvaluateLagrangePolynomial_def)

theorem evaluate_barycentric_witness:
  "length [3, 5 :: fr] = Cardinality pair_domain
   \<and> length [3, 5 :: fr] < 2 ^ 63
   \<and> Cardinality pair_domain \<le> length (Roots pair_domain)
   \<and> (0::fr) \<noteq> Roots pair_domain ! 0 \<and> (0::fr) \<noteq> Roots pair_domain ! 1
   \<and> evaluateLagrangePolynomial pair_domain [3, 5] 0 = Inr (Some 4, - 1, None)
   \<and> EvaluateLagrangePolynomial pair_domain [3, 5] 0 = Inr (Some 4, None)"
proof -
  have hyp: "\<forall>i<Cardinality pair_domain. (0::fr) \<noteq> Roots pair_domain ! i"
    by (simp add: pair_domain_def less_Suc_eq numeral_2_eq_2 all_conj_distrib)
  have len: "length [3, 5 :: fr] = Cardinality pair_domain"
    "length [3, 5 :: fr] < 2 ^ 63"
    "Cardinality pair_domain \<le> length (Roots pair_domain)"
    by (simp_all add: pair_domain_def)
  have val: "(((0::fr) ^ Cardinality pair_domain - 1) * CardinalityInv pair_domain)
      * (\<Sum>i<Cardinality pair_domain. [3, 5] ! i * Roots pair_domain ! i
          * inverse (0 - Roots pair_domain ! i)) = 4"
    using fr_2_neq_0
    by (simp add: pair_domain_def lessThan_Suc numeral_2_eq_2 field_simps)
  have "(0::fr) \<noteq> Roots pair_domain ! 0" "(0::fr) \<noteq> Roots pair_domain ! 1"
    by (simp_all add: pair_domain_def)
  with evaluate_barycentric [OF len hyp] len show ?thesis
    by (simp only: val simp_thms)
qed

text \<open>
  C3.  For a polynomial with \<open>Cardinality\<close> evaluations, evaluation at the root with
  index \<open>i\<close>, where \<open>i\<close> is the first index that holds this root, returns the stored
  entry \<open>poly[i]\<close> itself together with the index \<open>i\<close> and no error.
\<close>

theorem evaluate_at_root:
  assumes "length poly = Cardinality d" "length poly < 2 ^ 63"
    and "i < Cardinality d" "i < length (Roots d)"
    and "\<forall>j<i. Roots d ! j \<noteq> Roots d ! i"
  shows "findRootIndex d (Roots d ! i) = Inr (int i)
    \<and> evaluateLagrangePolynomial d poly (Roots d ! i) = Inr (Some (poly ! i), int i, None)
    \<and> EvaluateLagrangePolynomial d poly (Roots d ! i) = Inr (Some (poly ! i), None)"
proof -
  from assms have "findRootIndex d (Roots d ! i) = Inr (int i)"
    unfolding findRootIndex_def
    using findRootIndex_from_found [of d i 0] by simp
  with evaluate_on_domain [OF assms] show ?thesis
    by (simp add: EvaluateLagrangePolynomial_def)
qed

theorem evaluate_at_root_witness:
  "length [3, 5 :: fr] = Cardinality pair_domain
   \<and> length [3, 5 :: fr] < 2 ^ 63
   \<and> 1 < Cardinality pair_domain \<and> 1 < length (Roots pair_domain)
   \<and> Roots pair_domain ! 0 \<noteq> Roots pair_domain ! 1
   \<and> findRootIndex pair_domain (- 1) = Inr 1
   \<and> evaluateLagrangePolynomial pair_domain [3, 5] (- 1) = Inr (Some 5, 1, None)
   \<and> EvaluateLagrangePolynomial pair_domain [3, 5] (- 1) = Inr (Some 5, None)"
proof -
  have neq: "(1::fr) \<noteq> - 1"
    using fr_2_neq_0 by (simp add: eq_neg_iff_add_eq_0)
  then have first: "\<forall>j<1. Roots pair_domain ! j \<noteq> Roots pair_domain ! 1"
    by (simp add: pair_domain_def)
  have len: "length [3, 5 :: fr] = Cardinality pair_domain"
    "length [3, 5 :: fr] < 2 ^ 63"
    "1 < Cardinality pair_domain" "1 < length (Roots pair_domain)"
    by (simp_all add: pair_domain_def)
  have r: "Roots pair_domain ! 1 = - 1" "[3, 5 :: fr] ! 1 = 5"
    by (simp_all add: pair_domain_def)
  have "Roots pair_domain ! 0 \<noteq> Roots pair_domain ! 1"
    using neq by (simp add: pair_domain_def)
  with evaluate_at_root [OF len first] len show ?thesis
    by (simp only: r) simp
qed

text \<open>
  C6.  The claim asks for an entry of the roots at index \<open>Cardinality\<close>.  The slice that
  \<^verbatim>\<open>NewDomain\<close> allocates has exactly \<open>Cardinality\<close> entries, so that index is out of
  range, as for the domain of the tests.
\<close>

theorem roots_no_wraparound_entry:
  "NewDomain 4 = Inr domain4
   \<and> go_index (Roots domain4) (Cardinality domain4) = Inl IndexOutOfRange"
  by (simp add: NewDomain_4) (simp add: domain4_def go_index_def)

text \<open>
  C6, amended.  Every constructed domain has exactly \<open>Cardinality\<close> roots, at the indices
  below \<open>Cardinality\<close>; the first root is 1, and the roots are cyclic in that the
  successor of the last one, \<open>roots[Cardinality - 1] * Generator\<close>, is the first root.
\<close>

theorem roots_cyclic:
  assumes "NewDomain m = Inr d"
  shows "length (Roots d) = Cardinality d
    \<and> 0 < Cardinality d
    \<and> go_index (Roots d) (Cardinality d) = Inl IndexOutOfRange
    \<and> Roots d ! 0 = 1
    \<and> Roots d ! (Cardinality d - 1) * Generator d = Roots d ! 0"
proof -
  from NewDomain_Inr [OF assms] obtain k where k: "k \<le> 32"
    and d: "d = \<lparr>Cardinality = 2 ^ k,
          CardinalityInv = inverse (of_nat (2 ^ k)),
          Generator = rootOfUnity ^ 2 ^ (32 - k),
          GeneratorInv = inverse (rootOfUnity ^ 2 ^ (32 - k)),
          Roots = roots_loop (2 ^ k) (rootOfUnity ^ 2 ^ (32 - k)) 1,
          PreComputedInverses = map inverse (roots_loop (2 ^ k) (rootOfUnity ^ 2 ^ (32 - k)) 1)\<rparr>"
    by blast
  define g where "g = rootOfUnity ^ 2 ^ (32 - k)"
  have pos: "0 < (2::nat) ^ k" by simp
  have "g ^ (2 ^ k - 1) * g = g ^ Suc (2 ^ k - 1)" by (simp only: power_Suc2)
  also from pos have "Suc (2 ^ k - 1) = 2 ^ k" by simp
  finally have last: "g ^ (2 ^ k - 1) * g = 1"
    using Generator_power_Cardinality [OF k] by (simp add: g_def)
  from pos have "roots_loop (2 ^ k) g 1 ! 0 = 1" "roots_loop (2 ^ k) g 1 ! (2 ^ k - 1) = g ^ (2 ^ k - 1)"
    by (simp_all add: nth_roots_loop)
  with last show ?thesis
    unfolding d g_def [symmetric] by (simp add: go_index_def)
qed

theorem roots_cyclic_witness:
  "NewDomain 4 = Inr domain4
   \<and> length (Roots domain4) = Cardinality domain4
   \<and> 0 < Cardinality domain4
   \<and> go_index (Roots domain4) (Cardinality domain4) = Inl IndexOutOfRange
   \<and> Roots domain4 ! 0 = 1
   \<and> Roots domain4 ! (Cardinality domain4 - 1) * Generator domain4 = Roots domain4 ! 0"
  using roots_cyclic [OF NewDomain_4] NewDomain_4 by simp

text \<open>
  C7.  Every domain that \<^verbatim>\<open>NewDomain(m)\<close> returns has the next power of two at or above
  \<open>m\<close> as its cardinality (1 for \<open>m = 0\<close>), its first root is 1, every root raised to the
  cardinality is 1, and every root times its precomputed inverse is 1.
\<close>

theorem NewDomain_invariants:
  assumes "NewDomain m = Inr d"
  shows "(\<exists>k. Cardinality d = 2 ^ k)
    \<and> m \<le> Cardinality d
    \<and> (\<forall>j. m \<le> 2 ^ j \<longrightarrow> Cardinality d \<le> 2 ^ j)
    \<and> (m = 0 \<longrightarrow> Cardinality d = 1)
    \<and> length (Roots d) = Cardinality d
    \<and> length (PreComputedInverses d) = Cardinality d
    \<and> Roots d ! 0 = 1
    \<and> (\<forall>i<Cardinality d. Roots d ! i ^ Cardinality d = 1
          \<and> Roots d ! i * PreComputedInverses d ! i = 1)"
proof -
  from NewDomain_Inr [OF assms] obtain k where k: "k \<le> 32" "m \<le> 2 ^ k" "\<forall>j<k. 2 ^ j < m"
    and d: "d = \<lparr>Cardinality = 2 ^ k,
          CardinalityInv = inverse (of_nat (2 ^ k)),
          Generator = rootOfUnity ^ 2 ^ (32 - k),
          GeneratorInv = inverse (rootOfUnity ^ 2 ^ (32 - k)),
          Roots = roots_loop (2 ^ k) (rootOfUnity ^ 2 ^ (32 - k)) 1,
          PreComputedInverses = map inverse (roots_loop (2 ^ k) (rootOfUnity ^ 2 ^ (32 - k)) 1)\<rparr>"
    by blast
  define g where "g = rootOfUnity ^ 2 ^ (32 - k)"
  have gn: "g ^ 2 ^ k = 1"
    using Generator_power_Cardinality [OF k(1)] by (simp add: g_def)
  have least: "(2::nat) ^ k \<le> 2 ^ j" if "m \<le> 2 ^ j" for j
  proof -
    from that k(3) have "\<not> j < k" by (auto simp: not_less [symmetric])
    then show ?thesis by (intro power_increasing) simp_all
  qed
  have zero: "(2::nat) ^ k = 1" if "m = 0"
  proof -
    from that have "m \<le> 2 ^ 0" by simp
    from least [OF this] have "(2::nat) ^ k \<le> 1" by simp
    moreover have "(1::nat) \<le> 2 ^ k" by (rule one_le_power) simp
    ultimately show ?thesis by (rule le_antisym)
  qed
  have root: "(g ^ i) ^ 2 ^ k = 1 \<and> g ^ i * inverse (g ^ i) = 1" for i
  proof -
    have one: "(g ^ i) ^ 2 ^ k = 1"
      by (simp add: power_mult [symmetric] mult.commute [of i]) (simp add: power_mult gn)
    have "g ^ i \<noteq> 0"
    proof
      assume "g ^ i = 0"
      with one have "(0::fr) ^ 2 ^ k = 1" by simp
      then show False by (simp add: power_0_left)
    qed
    with one show ?thesis by simp
  qed
  have "\<forall>i<(2::nat) ^ k. roots_loop (2 ^ k) g 1 ! i ^ 2 ^ k = 1
      \<and> roots_loop (2 ^ k) g 1 ! i * map inverse (roots_loop (2 ^ k) g 1) ! i = 1"
    using root by (simp add: nth_roots_loop)
  moreover have "roots_loop (2 ^ k) g 1 ! 0 = 1"
    by (simp add: nth_roots_loop)
  ultimately show ?thesis
    unfolding d g_def [symmetric] using k(2) least zero by auto
qed

theorem NewDomain_invariants_witness:
  "NewDomain 3 = Inr domain4
   \<and> Cardinality domain4 = 4
   \<and> Roots domain4 ! 0 = 1
   \<and> Roots domain4 ! 3 ^ Cardinality domain4 = 1
   \<and> Roots domain4 ! 3 * PreComputedInverses domain4 ! 3 = 1"
proof -
  have "Cardinality domain4 = 4" by (simp add: domain4_def)
  with NewDomain_invariants [OF NewDomain_3] NewDomain_3 show ?thesis by simp
qed

text \<open>
  C8.  The polynomial \<open>x\<^sup>2 + x\<close>, sampled on the roots of the domain built for three
  evaluations, evaluates at every point outside the domain to the value of the polynomial
  at that point.
\<close>

theorem evaluate_x2_x_off_domain:
  assumes "NewDomain 3 = Inr d" and "z \<notin> set (Roots d)"
  shows "evaluateLagrangePolynomial d (map (\<lambda>x. x\<^sup>2 + x) (Roots d)) z
    = Inr (Some (z\<^sup>2 + z), - 1, None)"
proof -
  from assms(1) have d: "d = domain4" by (simp add: NewDomain_3)
  from assms(2) have z: "z \<noteq> 1" "z \<noteq> omega4" "z \<noteq> omega4 * omega4"
    "z \<noteq> omega4 * omega4 * omega4"
    by (auto simp: d domain4_def)
  have off: "\<forall>i<Cardinality domain4. z \<noteq> Roots domain4 ! i"
    using z by (simp add: domain4_def less_Suc_eq numeral_eq_Suc all_conj_distrib)
  have len: "length (map (\<lambda>x. x\<^sup>2 + x) (Roots domain4)) = Cardinality domain4"
    "length (map (\<lambda>x. x\<^sup>2 + x) (Roots domain4)) < 2 ^ 63"
    "Cardinality domain4 \<le> length (Roots domain4)"
    by (simp_all add: domain4_def)
  have "{..<4::nat} = {0, 1, 2, 3}" by auto
  then have val: "((z ^ Cardinality domain4 - 1) * CardinalityInv domain4)
      * (\<Sum>i<Cardinality domain4. map (\<lambda>x. x\<^sup>2 + x) (Roots domain4) ! i * Roots domain4 ! i
          * inverse (z - Roots domain4 ! i))
      = ((z ^ 4 - 1) * inverse 4)
        * ((1\<^sup>2 + 1) * 1 * inverse (z - 1)
           + (omega4\<^sup>2 + omega4) * omega4 * inverse (z - omega4)
           + ((omega4 * omega4)\<^sup>2 + omega4 * omega4) * (omega4 * omega4)
               * inverse (z - omega4 * omega4)
           + ((omega4 * omega4 * omega4)\<^sup>2 + omega4 * omega4 * omega4)
               * (omega4 * omega4 * omega4) * inverse (z - omega4 * omega4 * omega4))"
    by (simp add: domain4_def add.assoc)
  show ?thesis
    unfolding d evaluate_off_domain [OF len off] val
    by (simp only: barycentric_x2_x [OF omega4_square fr_4_neq_0 z])
qed

theorem evaluate_x2_x_off_domain_witness:
  "NewDomain 3 = Inr domain4
   \<and> (2::fr) \<notin> set (Roots domain4)
   \<and> evaluateLagrangePolynomial domain4 (map (\<lambda>x. x\<^sup>2 + x) (Roots domain4)) 2
     = Inr (Some 6, - 1, None)"
proof -
  have "(2::fr) ^ 4 \<noteq> 1"
    using fr_numeral_neq_1 [of "num.Bit0 (num.Bit0 (num.Bit0 (num.Bit0 num.One)))"]
    by (simp add: fr_order_def)
  then have out: "(2::fr) \<notin> set (Roots domain4)"
    using root4_power4 by blast
  from evaluate_x2_x_off_domain [OF NewDomain_3 out] NewDomain_3 out show ?thesis
    by simp
qed


text \<open>
  C9.  \<^verbatim>\<open>evaluateLagrangePolynomial\<close> and its public wrapper return the error
  \<open>DomainSizeMismatch\<close> exactly when the number of evaluations differs from the
  cardinality of the domain.  In that case the result is the fixed triple of a nil value,
  the index \<open>- 1\<close> and the error: it does not depend on the roots, on the evaluations or
  on the evaluation point, so no field computation enters it.
\<close>

theorem evaluate_size_mismatch:
  "((\<exists>r i. evaluateLagrangePolynomial d poly z = Inr (r, i, Some DomainSizeMismatch))
      \<longleftrightarrow> Cardinality d \<noteq> length poly)
   \<and> ((\<exists>r. EvaluateLagrangePolynomial d poly z = Inr (r, Some DomainSizeMismatch))
      \<longleftrightarrow> Cardinality d \<noteq> length poly)
   \<and> (Cardinality d \<noteq> length poly \<longrightarrow>
        evaluateLagrangePolynomial d poly z = Inr (None, - 1, Some DomainSizeMismatch)
        \<and> EvaluateLagrangePolynomial d poly z = Inr (None, Some DomainSizeMismatch))"
  by (auto simp: evaluateLagrangePolynomial_def EvaluateLagrangePolynomial_def Let_def
      split: sum.splits if_splits prod.splits)

theorem evaluate_size_mismatch_witness:
  "Cardinality unit_domain \<noteq> length [3, 4 :: fr]
   \<and> evaluateLagrangePolynomial unit_domain [3, 4] 7 = Inr (None, - 1, Some DomainSizeMismatch)
   \<and> EvaluateLagrangePolynomial unit_domain [3, 4] 7 = Inr (None, Some DomainSizeMismatch)"
  using evaluate_size_mismatch [of unit_domain "[3, 4]" 7] by (simp add: unit_domain_def)

text \<open>
  C10.  Whenever the public \<^verbatim>\<open>EvaluateLagrangePolynomial\<close> returns, exactly one of the
  value and the error is nil.
\<close>

theorem evaluate_value_xor_error:
  assumes "EvaluateLagrangePolynomial d poly z = Inr (r, e)"
  shows "(r \<noteq> None \<longleftrightarrow> e = None) \<and> (r = None \<longleftrightarrow> e \<noteq> None)"
  using assms
  by (auto simp: evaluateLagrangePolynomial_def EvaluateLagrangePolynomial_def Let_def
      split: sum.splits if_splits prod.splits)

theorem evaluate_value_xor_error_witness:
  "EvaluateLagrangePolynomial unit_domain [5] 1 = Inr (Some 5, None)
   \<and> (Some (5::fr) \<noteq> None \<longleftrightarrow> (None :: error option) = None)
   \<and> (Some (5::fr) = None \<longleftrightarrow> (None :: error option) \<noteq> None)"
proof -
  have ev: "EvaluateLagrangePolynomial unit_domain [5] 1 = Inr (Some 5, None)"
    by (simp add: EvaluateLagrangePolynomial_def evaluateLagrangePolynomial_def
        findRootIndex_def findRootIndex_from.simps [of _ _ 0] uint64_to_int_def go_index_def
        unit_domain_def)
  with evaluate_value_xor_error [OF ev] show ?thesis by simp
qed

section \<open>Claims about verification\<close>

lemma zip_with_upt:
  assumes "length xs = n"
  shows "zip xs (map g [0..<n]) = map (\<lambda>i. (xs ! i, g i)) [0..<n]"
  using assms by (intro nth_equalityI) simp_all

lemma MultiExp_powers:
  assumes "length ps = n"
  shows "MultiExp ps (map g [0..<n]) = Inr (g1_sum (map (\<lambda>i. g1_scalar (g i) (ps ! i)) [0..<n]))"
  using assms by (simp add: MultiExp_def zip_with_upt comp_def)

lemma MultiExp_upt:
  "MultiExp (map f [0..<n]) (map g [0..<n])
    = Inr (g1_sum (map (\<lambda>i. g1_scalar (g i) (f i)) [0..<n]))"
  by (simp add: MultiExp_def zip_map_map zip_same_conv_map comp_def)

lemma ScalarMultiplication_BigInt [simp]:
  "ScalarMultiplication a (BigInt s) = g1_scalar s a"
  by (simp add: ScalarMultiplication_def BigInt_def)

lemma gt_mul_one [simp]: "gt_mul x gt_one = x"
  by (simp add: gt_mul_def gt_one_def)

lemma PairingCheck_two:
  "PairingCheck [a, b] [p, q] = Inr (gt_mul (pairing a p) (pairing b q) = gt_one)"
  by (simp add: PairingCheck_def)

text \<open>
  C4.  For a key whose pairing lines are those of \<^verbatim>\<open>GenG2\<close> and \<^verbatim>\<open>AlphaG2\<close> the pairing
  computation does not fail, and \<^verbatim>\<open>Verify\<close> returns \<open>ErrVerifyOpeningProof\<close> exactly when
  the product \<open>e(C - [y]G1 + [z]Q, G2) * e(- Q, [\<alpha>]G2)\<close> is not the identity, and nil
  exactly when it is.  \<open>ErrVerifyOpeningProof\<close> differs from every other error value.
\<close>

theorem verify_pairing_product:
  assumes "PairingLines key = [GenG2 key, AlphaG2 key]"
  shows "(Verify c p key = Some ErrVerifyOpeningProof \<longleftrightarrow>
        gt_mul
          (pairing (g1_add (g1_sub c (g1_scalar (ClaimedValue p) (GenG1 key)))
                      (g1_scalar (InputPoint p) (QuotientCommitment p))) (GenG2 key))
          (pairing (g1_neg (QuotientCommitment p)) (AlphaG2 key)) \<noteq> gt_one)
    \<and> (Verify c p key = None \<longleftrightarrow>
        gt_mul
          (pairing (g1_add (g1_sub c (g1_scalar (ClaimedValue p) (GenG1 key)))
                      (g1_scalar (InputPoint p) (QuotientCommitment p))) (GenG2 key))
          (pairing (g1_neg (QuotientCommitment p)) (AlphaG2 key)) = gt_one)
    \<and> ErrVerifyOpeningProof \<notin> {DomainSizeMismatch, ErrInvalidNumDigests, ErrRandomSource,
          ErrMultiExpSize, ErrPairingSize}"
proof -
  define y z q g g2 a c' where "y = ClaimedValue p" and "z = InputPoint p"
    and "q = dlog1 (QuotientCommitment p)" and "g = dlog1 (GenG1 key)"
    and "g2 = dlog2 (GenG2 key)" and "a = dlog2 (AlphaG2 key)" and "c' = dlog1 c"
  have neg: "(y * g + - z * q - c') * g2 + q * a = - ((c' - y * g + z * q) * g2 + - q * a)"
    by (simp add: algebra_simps)
  have iff: "(y * g + - z * q - c') * g2 + q * a = 0 \<longleftrightarrow> (c' - y * g + z * q) * g2 + - q * a = 0"
    unfolding neg by (rule neg_equal_0_iff_equal)
  have check: "PairingCheckFixedQ
      [g1_sub (JointScalarMultiplication (GenG1 key) (QuotientCommitment p)
          (BigInt (ClaimedValue p)) (BigInt (- InputPoint p))) c, QuotientCommitment p]
      (PairingLines key)
    = Inr ((c' - y * g + z * q) * g2 + - q * a = 0)"
    unfolding assms PairingCheckFixedQ_def PairingCheck_two
    using iff
    by (simp add: JointScalarMultiplication_def pairing_def gt_mul_def gt_one_def g1_sub_def
        g1_add_def g1_scalar_def y_def z_def q_def g_def g2_def a_def c'_def)
  have prod: "gt_mul
          (pairing (g1_add (g1_sub c (g1_scalar (ClaimedValue p) (GenG1 key)))
                      (g1_scalar (InputPoint p) (QuotientCommitment p))) (GenG2 key))
          (pairing (g1_neg (QuotientCommitment p)) (AlphaG2 key)) = gt_one
      \<longleftrightarrow> (c' - y * g + z * q) * g2 + - q * a = 0"
    by (simp add: pairing_def gt_mul_def gt_one_def g1_sub_def g1_add_def g1_scalar_def
        g1_neg_def y_def z_def q_def g_def g2_def a_def c'_def)
  show ?thesis
    unfolding prod by (simp add: Verify_def Let_def check)
qed

theorem verify_pairing_product_witness:
  "PairingLines example_key = [GenG2 example_key, AlphaG2 example_key]
   \<and> Verify (G1 5) good_proof example_key = None
   \<and> gt_mul
        (pairing (g1_add (g1_sub (G1 5) (g1_scalar (ClaimedValue good_proof) (GenG1 example_key)))
                    (g1_scalar (InputPoint good_proof) (QuotientCommitment good_proof)))
           (GenG2 example_key))
        (pairing (g1_neg (QuotientCommitment good_proof)) (AlphaG2 example_key)) = gt_one"
proof -
  have lines: "PairingLines example_key = [GenG2 example_key, AlphaG2 example_key]"
    by (simp add: example_key_def)
  have "gt_mul
        (pairing (g1_add (g1_sub (G1 5) (g1_scalar (ClaimedValue good_proof) (GenG1 example_key)))
                    (g1_scalar (InputPoint good_proof) (QuotientCommitment good_proof)))
           (GenG2 example_key))
        (pairing (g1_neg (QuotientCommitment good_proof)) (AlphaG2 example_key)) = gt_one"
    by (simp add: example_key_def good_proof_def pairing_def gt_mul_def gt_one_def g1_sub_def
        g1_add_def g1_scalar_def g1_neg_def)
  with verify_pairing_product [OF lines, of "G1 5" good_proof] lines show ?thesis
    by simp
qed

text \<open>
  C5.  The empty batch verifies, and a batch of one pair returns what \<^verbatim>\<open>Verify\<close> returns
  for that pair, whatever the random source would return.
\<close>

theorem batch_verify_empty_and_single:
  "BatchVerifyMultiPoints rnd [] [] key = Inr None
   \<and> BatchVerifyMultiPoints rnd [c] [p] key = Inr (Verify c p key)"
  by (simp add: BatchVerifyMultiPoints_def)

text \<open>
  C2.  The claim makes the folding scalar a function of the batch.  The code draws it
  from the random source, so two runs on the same batch can fold with different
  scalars, and they can disagree: the batch below, whose second proof claims a wrong
  value, is accepted when the source returns 0 and rejected when it returns 1.
\<close>

theorem batch_verify_depends_on_random_source:
  "BatchVerifyMultiPoints (Inr 0) [G1 5, G1 5] [good_proof, bad_proof] example_key = Inr None
   \<and> BatchVerifyMultiPoints (Inr 1) [G1 5, G1 5] [good_proof, bad_proof] example_key
     = Inr (Some ErrVerifyOpeningProof)"
  by (simp add: BatchVerifyMultiPoints_def ComputePowers_def MultiExp_def fold_kzg_def
      PairingCheck_two g1_sum_def g1_infinity_def g1_add_def g1_sub_def g1_neg_def
      g1_scalar_def pairing_def gt_mul_def gt_one_def example_key_def good_proof_def
      bad_proof_def upt_rec [of 0] upt_rec [of 1] upt_rec [of 2] numeral_2_eq_2 Let_def
      fr_numeral_eq_iff fr_order_def)

text \<open>
  C2, amended.  For a batch of two or more pairs the folding scalar \<open>r\<close> is what
  \<^verbatim>\<open>SetRandom\<close> returns: when the random source fails its error is returned, and
  otherwise the weights are the powers \<open>r^0, \<dots>, r^(n-1)\<close> and the result is determined
  by the commitments, the proofs, the key and \<open>r\<close>: nil when
  \<open>e(\<Sum> r^i C\<^sub>i - [\<Sum> y\<^sub>i r^i]G1 + \<Sum> [r^i z\<^sub>i]Q\<^sub>i, G2) * e(- \<Sum> [r^i]Q\<^sub>i, [\<alpha>]G2)\<close> is the
  identity, and \<open>ErrVerifyOpeningProof\<close> otherwise.
\<close>

theorem batch_verify_folding:
  assumes "length commitments = length proofs" and "2 \<le> length proofs"
  shows "BatchVerifyMultiPoints (Inl err) commitments proofs key = Inr (Some err)
    \<and> BatchVerifyMultiPoints (Inr r) commitments proofs key
      = (let n = length proofs;
             foldedQuotients =
               g1_sum (map (\<lambda>i. g1_scalar (r ^ i) (QuotientCommitment (proofs ! i))) [0..<n]);
             foldedCommitments =
               g1_sum (map (\<lambda>i. g1_scalar (r ^ i) (commitments ! i)) [0..<n]);
             foldedEvaluations = (\<Sum>i<n. ClaimedValue (proofs ! i) * r ^ i);
             foldedPointsQuotients =
               g1_sum (map (\<lambda>i. g1_scalar (r ^ i * InputPoint (proofs ! i))
                                  (QuotientCommitment (proofs ! i))) [0..<n])
         in if gt_mul
                 (pairing (g1_add (g1_sub foldedCommitments
                                     (g1_scalar foldedEvaluations (GenG1 key)))
                             foldedPointsQuotients) (GenG2 key))
                 (pairing (g1_neg foldedQuotients) (AlphaG2 key)) = gt_one
            then Inr None else Inr (Some ErrVerifyOpeningProof))"
proof -
  define n where "n = length proofs"
  from assms have n: "length commitments = n" "n \<noteq> 0" "n \<noteq> 1"
    by (auto simp: n_def)
  have quot: "MultiExp (map (\<lambda>i. QuotientCommitment (proofs ! i)) [0..<n]) (ComputePowers r n)
      = Inr (g1_sum (map (\<lambda>i. g1_scalar (r ^ i) (QuotientCommitment (proofs ! i))) [0..<n]))"
    unfolding ComputePowers_def by (rule MultiExp_upt)
  have ev: "fold (\<lambda>i foldedEvaluations. foldedEvaluations
          + map (\<lambda>i. if i < n then ClaimedValue (proofs ! i) else 0) [0..<n] ! i
            * ComputePowers r n ! i) [0..<n] 0
      = (\<Sum>i<n. ClaimedValue (proofs ! i) * r ^ i)"
  proof -
    have "sum_list (map (\<lambda>i. map (\<lambda>i. if i < n then ClaimedValue (proofs ! i) else 0) [0..<n] ! i
            * ComputePowers r n ! i) [0..<n])
        = sum_list (map (\<lambda>i. ClaimedValue (proofs ! i) * r ^ i) [0..<n])"
      by (rule arg_cong [where f = sum_list], rule map_cong) (simp_all add: ComputePowers_def)
    then show ?thesis
      by (simp add: fold_add_sum_list interv_sum_list_conv_sum_set_nat atLeast0LessThan)
  qed
  have fold: "fold_kzg commitments
        (map (\<lambda>i. if i < n then ClaimedValue (proofs ! i) else 0) [0..<n])
        (ComputePowers r n)
      = Inr (g1_sum (map (\<lambda>i. g1_scalar (r ^ i) (commitments ! i)) [0..<n]),
             (\<Sum>i<n. ClaimedValue (proofs ! i) * r ^ i), None)"
    using n(1) by (simp add: fold_kzg_def ev) (simp add: ComputePowers_def MultiExp_powers)
  have pts: "map (\<lambda>i. ComputePowers r n ! i * InputPoint (proofs ! i)) [0..<n]
      = map (\<lambda>i. r ^ i * InputPoint (proofs ! i)) [0..<n]"
    by (rule map_cong) (simp_all add: ComputePowers_def)
  have ptsq: "MultiExp (map (\<lambda>i. QuotientCommitment (proofs ! i)) [0..<n])
        (map (\<lambda>i. r ^ i * InputPoint (proofs ! i)) [0..<n])
      = Inr (g1_sum (map (\<lambda>i. g1_scalar (r ^ i * InputPoint (proofs ! i))
                                  (QuotientCommitment (proofs ! i))) [0..<n]))"
    by (rule MultiExp_upt)
  have len: "length (ComputePowers r n) = n"
    by (simp add: ComputePowers_def)
  have bad: "BatchVerifyMultiPoints (Inl err) commitments proofs key = Inr (Some err)"
    using n by (simp add: BatchVerifyMultiPoints_def n_def [symmetric])
  have good: "BatchVerifyMultiPoints (Inr r) commitments proofs key
      = (if gt_mul
             (pairing (g1_add (g1_sub
                  (g1_sum (map (\<lambda>i. g1_scalar (r ^ i) (commitments ! i)) [0..<n]))
                  (g1_scalar (\<Sum>i<n. ClaimedValue (proofs ! i) * r ^ i) (GenG1 key)))
                (g1_sum (map (\<lambda>i. g1_scalar (r ^ i * InputPoint (proofs ! i))
                                  (QuotientCommitment (proofs ! i))) [0..<n])))
               (GenG2 key))
             (pairing (g1_neg
                  (g1_sum (map (\<lambda>i. g1_scalar (r ^ i) (QuotientCommitment (proofs ! i))) [0..<n])))
               (AlphaG2 key)) = gt_one
         then Inr None else Inr (Some ErrVerifyOpeningProof))"
    using n
    by (simp add: BatchVerifyMultiPoints_def n_def [symmetric] Let_def len quot fold pts ptsq
        PairingCheck_two)
  show ?thesis
    unfolding bad good Let_def n_def [symmetric] by simp
qed

theorem batch_verify_folding_witness:
  "length [G1 5, G1 5] = length [good_proof, bad_proof]
   \<and> 2 \<le> length [good_proof, bad_proof]
   \<and> BatchVerifyMultiPoints (Inl ErrRandomSource) [G1 5, G1 5] [good_proof, bad_proof] example_key
     = Inr (Some ErrRandomSource)
   \<and> BatchVerifyMultiPoints (Inr 1) [G1 5, G1 5] [good_proof, bad_proof] example_key
     = Inr (Some ErrVerifyOpeningProof)"
proof -
  have len: "length [G1 5, G1 5] = length [good_proof, bad_proof]"
    "2 \<le> length [good_proof, bad_proof]"
    by simp_all
  have "(let n = length [good_proof, bad_proof];
             foldedQuotients =
               g1_sum (map (\<lambda>i. g1_scalar (1 ^ i) (QuotientCommitment ([good_proof, bad_proof] ! i))) [0..<n]);
             foldedCommitments =
               g1_sum (map (\<lambda>i. g1_scalar (1 ^ i) ([G1 5, G1 5] ! i)) [0..<n]);
             foldedEvaluations = (\<Sum>i<n. ClaimedValue ([good_proof, bad_proof] ! i) * 1 ^ i);
             foldedPointsQuotients =
               g1_sum (map (\<lambda>i. g1_scalar (1 ^ i * InputPoint ([good_proof, bad_proof] ! i))
                                  (QuotientCommitment ([good_proof, bad_proof] ! i))) [0..<n])
         in if gt_mul
                 (pairing (g1_add (g1_sub foldedCommitments
                                     (g1_scalar foldedEvaluations (GenG1 example_key)))
                             foldedPointsQuotients) (GenG2 example_key))
                 (pairing (g1_neg foldedQuotients) (AlphaG2 example_key)) = gt_one
            then Inr None else Inr (Some ErrVerifyOpeningProof))
      = (Inr (Some ErrVerifyOpeningProof) :: panic + error option)"
    by (simp add: g1_sum_def g1_infinity_def g1_add_def g1_sub_def g1_neg_def
      g1_scalar_def pairing_def gt_mul_def gt_one_def example_key_def good_proof_def
      bad_proof_def upt_rec [of 0] upt_rec [of 1] upt_rec [of 2] numeral_2_eq_2 Let_def
      fr_numeral_eq_iff fr_order_def)
  with batch_verify_folding [OF len, of ErrRandomSource example_key 1] len show ?thesis
    by simp
qed


end
